theory Spec2Isabelle
  imports Main "HOL-Library.Word" "HOL-Library.Sublist"
begin

unbundle bit_operations_syntax

section \<open>Common conventions\<close>

text \<open>
  The C sources are \<^verbatim>\<open>drivers/gpu/drm/amd/amdgpu/amdgpu_amdkfd_gfx_v9.c\<close> (the hardware
  queue descriptor operations) and \<^verbatim>\<open>drivers/gpu/drm/amd/amdkfd/kfd_chardev.c\<close> (the
  cross memory attach engine).

  Fixed-width C integers are words: \<^verbatim>\<open>uint32_t\<close> and \<^verbatim>\<open>unsigned int\<close> are \<open>32 word\<close>,
  \<^verbatim>\<open>uint64_t\<close> and \<^verbatim>\<open>unsigned long\<close> are \<open>64 word\<close>. A C \<^verbatim>\<open>int\<close> return code is an
  \<open>int\<close>: 0 for success and the negated error number otherwise.

  A function that the C code can leave without returning (a NULL pointer dereference or
  a division by zero, which stop the kernel thread, and a loop whose exit depends on the
  hardware or on the environment) returns an \<open>outcome\<close>.
\<close>

type_synonym u32 = "32 word"
type_synonym u64 = "64 word"

datatype 'a outcome = Oops | Out_of_fuel | Returns 'a

fun returned :: "'a outcome \<Rightarrow> 'a option" where
  "returned (Returns x) = Some x"
| "returned Oops = None"
| "returned Out_of_fuel = None"

definition EPERM :: int where "EPERM = 1"
definition ESRCH :: int where "ESRCH = 3"
definition EIO :: int where "EIO = 5"
definition ENOMEM :: int where "ENOMEM = 12"
definition EACCES :: int where "EACCES = 13"
definition EFAULT :: int where "EFAULT = 14"
definition EINVAL :: int where "EINVAL = 22"
definition ETIME :: int where "ETIME = 62"

definition lower_32_bits :: "u64 \<Rightarrow> u32" where
  "lower_32_bits n = ucast n"

definition upper_32_bits :: "u64 \<Rightarrow> u32" where
  "upper_32_bits n = ucast (drop_bit 32 n)"

section \<open>Hardware queue descriptors (amdgpu\_amdkfd\_gfx\_v9.c)\<close>

subsection \<open>Registers, descriptor and device\<close>

text \<open>
  The register offsets and field masks come from the headers \<^verbatim>\<open>gc_9_0_offset.h\<close> and
  \<^verbatim>\<open>gc_9_0_sh_mask.h\<close>, which are not part of the sources at hand: they are the fields
  of the record \<open>gc_9_0\<close>, a parameter of every operation. The field \<open>reg_X\<close> stands for
  \<^verbatim>\<open>SOC15_REG_OFFSET(GC, 0, mmX)\<close>. Register offsets are small constants and are natural
  numbers; register values are 32-bit words. \<open>HZ\<close> is the timer frequency of the kernel
  configuration.
\<close>

record gc_9_0 =
  reg_RLC_CP_SCHEDULERS :: nat
  reg_CP_MQD_BASE_ADDR :: nat
  reg_CP_HQD_PQ_WPTR_LO :: nat
  reg_CP_HQD_PQ_WPTR_HI :: nat
  reg_CP_HQD_PQ_DOORBELL_CONTROL :: nat
  reg_CP_HQD_PQ_WPTR_POLL_ADDR :: nat
  reg_CP_HQD_PQ_WPTR_POLL_ADDR_HI :: nat
  reg_CP_PQ_WPTR_POLL_CNTL1 :: nat
  reg_CP_HQD_EOP_RPTR :: nat
  reg_CP_HQD_ACTIVE :: nat
  reg_CP_HQD_DEQUEUE_REQUEST :: nat
  RLC_CP_SCHEDULERS__scheduler1_MASK :: u32
  RLC_CP_SCHEDULERS__scheduler1_SHIFT :: nat
  CP_HQD_PQ_DOORBELL_CONTROL__DOORBELL_EN_MASK :: u32
  CP_HQD_PQ_DOORBELL_CONTROL__DOORBELL_EN_SHIFT :: nat
  CP_HQD_PQ_CONTROL__QUEUE_SIZE_MASK :: u32
  CP_HQD_PQ_CONTROL__QUEUE_SIZE_SHIFT :: nat
  CP_HQD_EOP_RPTR__INIT_FETCHER_MASK :: u32
  CP_HQD_EOP_RPTR__INIT_FETCHER_SHIFT :: nat
  CP_HQD_ACTIVE__ACTIVE_MASK :: u32
  CP_HQD_ACTIVE__ACTIVE_SHIFT :: nat
  HZ :: u32

text \<open>\<^verbatim>\<open>REG_GET_FIELD\<close> and \<^verbatim>\<open>REG_SET_FIELD\<close> of \<^verbatim>\<open>amdgpu.h\<close>, on a mask and a shift.\<close>

definition REG_GET_FIELD :: "u32 \<Rightarrow> u32 \<Rightarrow> nat \<Rightarrow> u32" where
  "REG_GET_FIELD v msk shft = drop_bit shft (v AND msk)"

definition REG_SET_FIELD :: "u32 \<Rightarrow> u32 \<Rightarrow> nat \<Rightarrow> u32 \<Rightarrow> u32" where
  "REG_SET_FIELD orig msk shft field_val =
     (orig AND NOT msk) OR (msk AND push_bit shft field_val)"

text \<open>
  \<^verbatim>\<open>struct v9_mqd\<close>: the fields the operations name, and \<open>mqd_hqd\<close>, the descriptor read as
  an array of 32-bit words from \<^verbatim>\<open>cp_mqd_base_addr_lo\<close> on, as \<^verbatim>\<open>kgd_hqd_load\<close> reads it.
\<close>

record v9_mqd =
  cp_hqd_vmid :: u32
  cp_hqd_pq_doorbell_control :: u32
  cp_hqd_pq_control :: u32
  cp_hqd_pq_rptr :: u32
  cp_hqd_pq_wptr_lo :: u32
  cp_hqd_pq_wptr_hi :: u32
  cp_hqd_eop_rptr :: u32
  cp_hqd_active :: u32
  mqd_hqd :: "nat \<Rightarrow> u32"

record amdgpu_device =
  in_gpu_reset :: bool
  num_pipe_per_mec :: u32
  num_queue_per_pipe :: u32

text \<open>
  What the operations do to the device is a trace of events, in program order. What the
  hardware answers is the record \<open>hw_env\<close>: the value a register read returns and the
  value of \<^verbatim>\<open>jiffies\<close>, both depending on the moment, which is the number of events so far.
\<close>

datatype hw_event =
    Mutex_lock_srbm
  | Mutex_unlock_srbm
  | Grbm_select u32 u32 u32 u32
  | WREG32 nat u32
  | RREG32 nat
  | Usleep_range
  | Warn_on_once
  | Pr_err

record hw_env =
  rreg :: "nat \<Rightarrow> nat \<Rightarrow> u32"
  jiffies :: "nat \<Rightarrow> u64"

datatype kfd_preempt_type =
    KFD_PREEMPT_TYPE_WAVEFRONT_DRAIN
  | KFD_PREEMPT_TYPE_WAVEFRONT_RESET
  | KFD_PREEMPT_TYPE_OTHER

datatype hqd_dequeue_request_type = NO_ACTION | DRAIN_PIPE | RESET_WAVES

fun dequeue_request_value :: "hqd_dequeue_request_type \<Rightarrow> u32" where
  "dequeue_request_value NO_ACTION = 0"
| "dequeue_request_value DRAIN_PIPE = 1"
| "dequeue_request_value RESET_WAVES = 2"

subsection \<open>The slot lock\<close>

definition lock_srbm :: "hw_event list \<Rightarrow> u32 \<Rightarrow> u32 \<Rightarrow> u32 \<Rightarrow> u32 \<Rightarrow> hw_event list" where
  "lock_srbm tr mec pipe queue vmid = tr @ [Mutex_lock_srbm, Grbm_select mec pipe queue vmid]"

definition unlock_srbm :: "hw_event list \<Rightarrow> hw_event list" where
  "unlock_srbm tr = tr @ [Grbm_select 0 0 0 0, Mutex_unlock_srbm]"

text \<open>The two divisions by \<^verbatim>\<open>num_pipe_per_mec\<close> trap when it is zero.\<close>

definition acquire_queue :: "amdgpu_device \<Rightarrow> hw_event list \<Rightarrow> u32 \<Rightarrow> u32 \<Rightarrow> hw_event list outcome" where
  "acquire_queue adev tr pipe_id queue_id =
     (if num_pipe_per_mec adev = 0 then Oops
      else let mec = pipe_id div num_pipe_per_mec adev + 1;
               pipe = pipe_id mod num_pipe_per_mec adev
           in Returns (lock_srbm tr mec pipe queue_id 0))"

definition get_queue_mask :: "amdgpu_device \<Rightarrow> u32 \<Rightarrow> u32 \<Rightarrow> u32" where
  "get_queue_mask adev pipe_id queue_id =
     (let bit = (pipe_id * num_queue_per_pipe adev + queue_id) AND 31
      in push_bit (unat bit) 1)"

definition release_queue :: "hw_event list \<Rightarrow> hw_event list" where
  "release_queue tr = unlock_srbm tr"

subsection \<open>kgd\_hqd\_load\<close>

text \<open>The loop that writes the descriptor block, register by register.\<close>

function hqd_load_regs :: "(nat \<Rightarrow> u32) \<Rightarrow> nat \<Rightarrow> nat \<Rightarrow> nat \<Rightarrow> hw_event list \<Rightarrow> hw_event list" where
  "hqd_load_regs mqd_words hqd_base reg last_reg tr =
     (if reg \<le> last_reg
      then hqd_load_regs mqd_words hqd_base (Suc reg) last_reg
             (tr @ [WREG32 reg (mqd_words (reg - hqd_base))])
      else tr)"
  by pat_completeness auto
termination
  by (relation "measure (\<lambda>(w, b, reg, l, tr). Suc l - reg)") auto

text \<open>
  The queue size \<^verbatim>\<open>2 << REG_GET_FIELD(m->cp_hqd_pq_control, CP_HQD_PQ_CONTROL, QUEUE_SIZE)\<close>,
  stored in a \<^verbatim>\<open>uint32_t\<close>: bits shifted beyond bit 31 are lost.
\<close>

definition queue_size_of :: "gc_9_0 \<Rightarrow> v9_mqd \<Rightarrow> u32" where
  "queue_size_of gc m =
     push_bit (unat (REG_GET_FIELD (cp_hqd_pq_control m)
                       (CP_HQD_PQ_CONTROL__QUEUE_SIZE_MASK gc)
                       (CP_HQD_PQ_CONTROL__QUEUE_SIZE_SHIFT gc))) 2"

text \<open>
  The 64-bit write pointer guessed from the saved 32-bit read pointer and the saved
  64-bit write pointer. The masks are computed on 32 bits and widened, the sums are on
  64 bits.
\<close>

definition guessed_wptr :: "u32 \<Rightarrow> v9_mqd \<Rightarrow> u64" where
  "guessed_wptr queue_size m =
     (let g0 = (ucast (cp_hqd_pq_rptr m AND (queue_size - 1)) :: u64);
          g1 = (if (ucast (cp_hqd_pq_wptr_lo m AND (queue_size - 1)) :: u64) < g0
                then g0 + ucast queue_size else g0);
          g2 = g1 + ucast (cp_hqd_pq_wptr_lo m AND NOT (queue_size - 1));
          g3 = g2 + push_bit 32 (ucast (cp_hqd_pq_wptr_hi m) :: u64)
      in g3)"

definition kgd_hqd_load ::
  "gc_9_0 \<Rightarrow> amdgpu_device \<Rightarrow> hw_env \<Rightarrow> v9_mqd \<Rightarrow> u32 \<Rightarrow> u32 \<Rightarrow> u64 option \<Rightarrow> hw_event list
     \<Rightarrow> (int \<times> hw_event list) outcome" where
  "kgd_hqd_load gc adev hw m pipe_id queue_id wptr tr =
     (case acquire_queue adev tr pipe_id queue_id of
        Oops \<Rightarrow> Oops
      | Out_of_fuel \<Rightarrow> Out_of_fuel
      | Returns tr1 \<Rightarrow>
          let tr2 =
                (if cp_hqd_vmid m = 0
                 then let mec = pipe_id div num_pipe_per_mec adev + 1;
                          pipe = pipe_id mod num_pipe_per_mec adev;
                          v = rreg hw (length tr1) (reg_RLC_CP_SCHEDULERS gc);
                          v' = REG_SET_FIELD v (RLC_CP_SCHEDULERS__scheduler1_MASK gc)
                                 (RLC_CP_SCHEDULERS__scheduler1_SHIFT gc)
                                 (push_bit 5 mec OR push_bit 3 pipe OR queue_id OR 0x80)
                      in tr1 @ [RREG32 (reg_RLC_CP_SCHEDULERS gc),
                                WREG32 (reg_RLC_CP_SCHEDULERS gc) v']
                 else tr1);
              tr3 = hqd_load_regs (mqd_hqd m) (reg_CP_MQD_BASE_ADDR gc)
                      (reg_CP_MQD_BASE_ADDR gc) (reg_CP_HQD_PQ_WPTR_HI gc) tr2;
              data = REG_SET_FIELD (cp_hqd_pq_doorbell_control m)
                       (CP_HQD_PQ_DOORBELL_CONTROL__DOORBELL_EN_MASK gc)
                       (CP_HQD_PQ_DOORBELL_CONTROL__DOORBELL_EN_SHIFT gc) 1;
              tr4 = tr3 @ [WREG32 (reg_CP_HQD_PQ_DOORBELL_CONTROL gc) data];
              tr5 =
                (case wptr of
                   None \<Rightarrow> tr4
                 | Some wptr_addr \<Rightarrow>
                     let g = guessed_wptr (queue_size_of gc m) m
                     in tr4 @ [WREG32 (reg_CP_HQD_PQ_WPTR_LO gc) (lower_32_bits g),
                               WREG32 (reg_CP_HQD_PQ_WPTR_HI gc) (upper_32_bits g),
                               WREG32 (reg_CP_HQD_PQ_WPTR_POLL_ADDR gc) (lower_32_bits wptr_addr),
                               WREG32 (reg_CP_HQD_PQ_WPTR_POLL_ADDR_HI gc) (upper_32_bits wptr_addr),
                               WREG32 (reg_CP_PQ_WPTR_POLL_CNTL1 gc)
                                 (get_queue_mask adev pipe_id queue_id)]);
              tr6 = tr5 @ [WREG32 (reg_CP_HQD_EOP_RPTR gc)
                             (REG_SET_FIELD (cp_hqd_eop_rptr m)
                                (CP_HQD_EOP_RPTR__INIT_FETCHER_MASK gc)
                                (CP_HQD_EOP_RPTR__INIT_FETCHER_SHIFT gc) 1)];
              data' = REG_SET_FIELD (cp_hqd_active m) (CP_HQD_ACTIVE__ACTIVE_MASK gc)
                        (CP_HQD_ACTIVE__ACTIVE_SHIFT gc) 1;
              tr7 = tr6 @ [WREG32 (reg_CP_HQD_ACTIVE gc) data']
          in Returns (0, release_queue tr7))"

text \<open>The value a register holds after a trace: the one its last write gave it.\<close>

fun last_write :: "nat \<Rightarrow> hw_event list \<Rightarrow> u32 option" where
  "last_write r [] = None"
| "last_write r (e # es) =
     (case last_write r es of
        Some v \<Rightarrow> Some v
      | None \<Rightarrow> (case e of WREG32 r' v \<Rightarrow> if r = r' then Some v else None | _ \<Rightarrow> None))"

subsection \<open>kgd\_hqd\_dump\<close>

definition HQD_N_REGS :: nat where "HQD_N_REGS = 56"

text \<open>
  The loop over the register block with the body \<^verbatim>\<open>DUMP_REG(reg)\<close>. The state is the
  index \<open>i\<close>, the entries of \<^verbatim>\<open>*dump\<close> written so far and the trace. When \<open>i\<close> has reached
  \<open>HQD_N_REGS\<close> the macro warns and leaves its \<^verbatim>\<open>do ... while (0)\<close>: the register is
  skipped and the loop goes on.
\<close>

function hqd_dump_regs ::
  "hw_env \<Rightarrow> nat \<Rightarrow> nat \<Rightarrow> nat \<times> (u32 \<times> u32) list \<times> hw_event list
     \<Rightarrow> nat \<times> (u32 \<times> u32) list \<times> hw_event list" where
  "hqd_dump_regs hw reg last_reg st =
     (if reg \<le> last_reg
      then (case st of (i, dump, tr) \<Rightarrow>
              if i \<ge> HQD_N_REGS
              then hqd_dump_regs hw (Suc reg) last_reg (i, dump, tr @ [Warn_on_once])
              else hqd_dump_regs hw (Suc reg) last_reg
                     (Suc i,
                      dump @ [(push_bit 2 (of_nat reg), rreg hw (length tr) reg)],
                      tr @ [RREG32 reg]))
      else st)"
  by pat_completeness auto
termination
  by (relation "measure (\<lambda>(hw, reg, l, st). Suc l - reg)") auto

text \<open>
  \<open>kmalloc_ok\<close> tells whether \<^verbatim>\<open>kmalloc_array\<close> returns memory. The result is the return
  code and, when the array was allocated, the entries written and \<^verbatim>\<open>*n_regs\<close>.
\<close>

definition kgd_hqd_dump ::
  "gc_9_0 \<Rightarrow> amdgpu_device \<Rightarrow> hw_env \<Rightarrow> bool \<Rightarrow> u32 \<Rightarrow> u32 \<Rightarrow> hw_event list
     \<Rightarrow> (int \<times> ((u32 \<times> u32) list \<times> u32) option \<times> hw_event list) outcome" where
  "kgd_hqd_dump gc adev hw kmalloc_ok pipe_id queue_id tr =
     (if \<not> kmalloc_ok then Returns (- ENOMEM, None, tr)
      else case acquire_queue adev tr pipe_id queue_id of
        Oops \<Rightarrow> Oops
      | Out_of_fuel \<Rightarrow> Out_of_fuel
      | Returns tr1 \<Rightarrow>
          (case hqd_dump_regs hw (reg_CP_MQD_BASE_ADDR gc) (reg_CP_HQD_PQ_WPTR_HI gc)
                  (0, [], tr1) of
             (i, dump, tr2) \<Rightarrow>
               let tr3 = release_queue tr2;
                   tr4 = (if i \<noteq> HQD_N_REGS then tr3 @ [Warn_on_once] else tr3)
               in Returns (0, Some (dump, of_nat i), tr4)))"

subsection \<open>kgd\_hqd\_destroy\<close>

definition time_after :: "u64 \<Rightarrow> u64 \<Rightarrow> bool" where
  "time_after a b = (sint (b - a) < 0)"

text \<open>
  The loop that polls \<^verbatim>\<open>CP_HQD_ACTIVE\<close>. Whether it ends depends on the hardware and on
  the clock, so it takes fuel: one unit for each round.
\<close>

fun hqd_destroy_poll ::
  "nat \<Rightarrow> gc_9_0 \<Rightarrow> hw_env \<Rightarrow> u64 \<Rightarrow> hw_event list \<Rightarrow> (int \<times> hw_event list) outcome" where
  "hqd_destroy_poll 0 gc hw end_jiffies tr = Out_of_fuel"
| "hqd_destroy_poll (Suc fuel) gc hw end_jiffies tr =
     (let temp = rreg hw (length tr) (reg_CP_HQD_ACTIVE gc);
          tr1 = tr @ [RREG32 (reg_CP_HQD_ACTIVE gc)]
      in if temp AND CP_HQD_ACTIVE__ACTIVE_MASK gc = 0
         then Returns (0, release_queue tr1)
         else if time_after (jiffies hw (length tr1)) end_jiffies
         then Returns (- ETIME, release_queue (tr1 @ [Pr_err]))
         else hqd_destroy_poll fuel gc hw end_jiffies (tr1 @ [Usleep_range]))"

definition kgd_hqd_destroy ::
  "nat \<Rightarrow> gc_9_0 \<Rightarrow> amdgpu_device \<Rightarrow> hw_env \<Rightarrow> v9_mqd \<Rightarrow> kfd_preempt_type \<Rightarrow> u32 \<Rightarrow> u32 \<Rightarrow> u32
     \<Rightarrow> hw_event list \<Rightarrow> (int \<times> hw_event list) outcome" where
  "kgd_hqd_destroy fuel gc adev hw m reset_type utimeout pipe_id queue_id tr =
     (if in_gpu_reset adev then Returns (- EIO, tr)
      else case acquire_queue adev tr pipe_id queue_id of
        Oops \<Rightarrow> Oops
      | Out_of_fuel \<Rightarrow> Out_of_fuel
      | Returns tr1 \<Rightarrow>
          let tr2 =
                (if cp_hqd_vmid m = 0
                 then let v = rreg hw (length tr1) (reg_RLC_CP_SCHEDULERS gc)
                      in tr1 @ [RREG32 (reg_RLC_CP_SCHEDULERS gc),
                                WREG32 (reg_RLC_CP_SCHEDULERS gc)
                                  ((v AND NOT (RLC_CP_SCHEDULERS__scheduler1_MASK gc))
                                   OR push_bit (RLC_CP_SCHEDULERS__scheduler1_SHIFT gc) 0)]
                 else tr1);
              type = (case reset_type of
                        KFD_PREEMPT_TYPE_WAVEFRONT_DRAIN \<Rightarrow> DRAIN_PIPE
                      | KFD_PREEMPT_TYPE_WAVEFRONT_RESET \<Rightarrow> RESET_WAVES
                      | KFD_PREEMPT_TYPE_OTHER \<Rightarrow> DRAIN_PIPE);
              tr3 = tr2 @ [WREG32 (reg_CP_HQD_DEQUEUE_REQUEST gc) (dequeue_request_value type)];
              end_jiffies = ucast (utimeout * HZ gc div 1000) + jiffies hw (length tr3)
          in hqd_destroy_poll fuel gc hw end_jiffies tr3)"

subsection \<open>The write pointer in the words of the specification\<close>

text \<open>
  The 64-bit write pointer a trace leaves in the hardware: the last values written to
  \<^verbatim>\<open>CP_HQD_PQ_WPTR_HI\<close> and \<^verbatim>\<open>CP_HQD_PQ_WPTR_LO\<close>, when the operation returned.
\<close>

fun wptr_programmed :: "gc_9_0 \<Rightarrow> (int \<times> hw_event list) outcome \<Rightarrow> u64 option" where
  "wptr_programmed gc (Returns (r, tr)) =
     (case last_write (reg_CP_HQD_PQ_WPTR_HI gc) tr of
        None \<Rightarrow> None
      | Some h \<Rightarrow>
          (case last_write (reg_CP_HQD_PQ_WPTR_LO gc) tr of
             None \<Rightarrow> None
           | Some l \<Rightarrow> Some (push_bit 32 (ucast h) OR ucast l)))"
| "wptr_programmed gc Oops = None"
| "wptr_programmed gc Out_of_fuel = None"

text \<open>
  The specification's description, for a queue of \<open>2 ^ k\<close> entries: the saved 64-bit
  write pointer with its low \<open>k\<close> bits replaced by those of the saved read pointer, plus
  one queue size when the low bits of the saved write pointer are less than those of the
  read pointer.
\<close>

definition wptr_by_spec :: "nat \<Rightarrow> u32 \<Rightarrow> u32 \<Rightarrow> u32 \<Rightarrow> u64" where
  "wptr_by_spec k rptr wptr_lo wptr_hi =
     (let saved = (push_bit 32 (ucast wptr_hi) OR ucast wptr_lo :: u64);
          replaced = (saved AND NOT (mask k)) OR (ucast rptr AND mask k)
      in if take_bit k wptr_lo < take_bit k rptr then replaced + 2 ^ k else replaced)"

subsection \<open>Example parameters\<close>

text \<open>
  One assignment of the header constants, a device that is not in reset, a hardware
  whose registers read 0 and whose clock ticks with every event, and a descriptor of a
  queue of 1024 entries whose saved write pointer has gone around once more than the
  saved read pointer shows.
\<close>

definition gc_example :: gc_9_0 where
  "gc_example =
     \<lparr> reg_RLC_CP_SCHEDULERS = 0x4CAA,
       reg_CP_MQD_BASE_ADDR = 0x1245,
       reg_CP_HQD_PQ_WPTR_LO = 0x127B,
       reg_CP_HQD_PQ_WPTR_HI = 0x127C,
       reg_CP_HQD_PQ_DOORBELL_CONTROL = 0x1254,
       reg_CP_HQD_PQ_WPTR_POLL_ADDR = 0x1252,
       reg_CP_HQD_PQ_WPTR_POLL_ADDR_HI = 0x1253,
       reg_CP_PQ_WPTR_POLL_CNTL1 = 0x1084,
       reg_CP_HQD_EOP_RPTR = 0x126F,
       reg_CP_HQD_ACTIVE = 0x1247,
       reg_CP_HQD_DEQUEUE_REQUEST = 0x125D,
       RLC_CP_SCHEDULERS__scheduler1_MASK = 0xFF00,
       RLC_CP_SCHEDULERS__scheduler1_SHIFT = 8,
       CP_HQD_PQ_DOORBELL_CONTROL__DOORBELL_EN_MASK = 0x40000000,
       CP_HQD_PQ_DOORBELL_CONTROL__DOORBELL_EN_SHIFT = 30,
       CP_HQD_PQ_CONTROL__QUEUE_SIZE_MASK = 0x3F,
       CP_HQD_PQ_CONTROL__QUEUE_SIZE_SHIFT = 0,
       CP_HQD_EOP_RPTR__INIT_FETCHER_MASK = 0x10000000,
       CP_HQD_EOP_RPTR__INIT_FETCHER_SHIFT = 28,
       CP_HQD_ACTIVE__ACTIVE_MASK = 1,
       CP_HQD_ACTIVE__ACTIVE_SHIFT = 0,
       HZ = 250 \<rparr>"

text \<open>The same constants with a descriptor block of 57 registers instead of 56.\<close>

definition gc_example_57 :: gc_9_0 where
  "gc_example_57 = gc_example \<lparr> reg_CP_HQD_PQ_WPTR_HI := 0x127D \<rparr>"

definition adev_example :: amdgpu_device where
  "adev_example = \<lparr> in_gpu_reset = False, num_pipe_per_mec = 4, num_queue_per_pipe = 8 \<rparr>"

definition adev_in_reset :: amdgpu_device where
  "adev_in_reset = \<lparr> in_gpu_reset = True, num_pipe_per_mec = 4, num_queue_per_pipe = 8 \<rparr>"

definition hw_example :: hw_env where
  "hw_example = \<lparr> rreg = (\<lambda>t r. 0), jiffies = (\<lambda>t. of_nat t) \<rparr>"

definition mqd_example :: v9_mqd where
  "mqd_example =
     \<lparr> cp_hqd_vmid = 1,
       cp_hqd_pq_doorbell_control = 0,
       cp_hqd_pq_control = 9,
       cp_hqd_pq_rptr = 0x123,
       cp_hqd_pq_wptr_lo = 0x500,
       cp_hqd_pq_wptr_hi = 1,
       cp_hqd_eop_rptr = 0,
       cp_hqd_active = 0,
       mqd_hqd = (\<lambda>i. 0) \<rparr>"

section \<open>Cross memory attach (kfd\_chardev.c)\<close>

subsection \<open>Data\<close>

text \<open>
  Kernel objects the engine only passes on (\<^verbatim>\<open>struct kgd_dev\<close>, \<^verbatim>\<open>struct kgd_mem\<close>,
  \<^verbatim>\<open>struct mm_struct\<close>, \<^verbatim>\<open>struct task_struct\<close>, \<^verbatim>\<open>struct pid\<close>, the address space of a
  process on a device) are handles. A pointer that may be NULL is an \<open>option\<close>; a pointer
  that may also carry an error number (\<^verbatim>\<open>ERR_PTR\<close>) is a \<open>kptr\<close>.

  The structures are declared in \<^verbatim>\<open>kfd_priv.h\<close>, which is not among the sources at hand:
  the records have the fields the functions use. Where a field name of the source would
  hide a variable or a constant, it carries the prefix of its structure (\<open>bo_mem\<close> is
  \<^verbatim>\<open>mem\<close> of \<^verbatim>\<open>struct kfd_bo\<close>, \<open>ci_offset\<close> is \<^verbatim>\<open>offset\<close> of \<^verbatim>\<open>struct cma_iter\<close>, \<open>it_start\<close> and
  \<open>it_last\<close> are \<^verbatim>\<open>it.start\<close> and \<^verbatim>\<open>it.last\<close>).
\<close>

type_synonym kgd_dev = nat
type_synonym kgd_mem = nat
type_synonym mm_struct = nat
type_synonym task_struct = nat
type_synonym pid_struct = nat
type_synonym vm_handle = nat

datatype 'a kptr = NULL | ERR_PTR int | PTR 'a

fun IS_ERR :: "'a kptr \<Rightarrow> bool" where
  "IS_ERR (ERR_PTR e) = True"
| "IS_ERR NULL = False"
| "IS_ERR (PTR x) = False"


definition PAGE_SIZE :: u64 where "PAGE_SIZE = 4096"

definition PAGE_MASK :: u64 where "PAGE_MASK = NOT (PAGE_SIZE - 1)"

definition MAX_SYSTEM_BO_SIZE :: u64 where "MAX_SYSTEM_BO_SIZE = 512 * PAGE_SIZE"

definition MAX_PP_STACK_COUNT :: u32 where "MAX_PP_STACK_COUNT = 16"

definition MAX_KMALLOC_PAGES :: u64 where "MAX_KMALLOC_PAGES = PAGE_SIZE * 2"

text \<open>\<^verbatim>\<open>MAX_KMALLOC_PAGES / sizeof(struct page *)\<close>, with pointers of 8 bytes.\<close>

definition MAX_PP_KMALLOC_COUNT :: u32 where
  "MAX_PP_KMALLOC_COUNT = ucast (MAX_KMALLOC_PAGES div 8)"

text \<open>
  Two constants of \<^verbatim>\<open>kfd_ioctl.h\<close>, a header that is not among the sources at hand. Only
  equality with the first and the bit of the second matter.
\<close>

definition KFD_IOC_ALLOC_MEM_FLAGS_VRAM :: u32 where
  "KFD_IOC_ALLOC_MEM_FLAGS_VRAM = 1"

definition KFD_IS_CROSS_MEMORY_WRITE :: "u32 \<Rightarrow> bool" where
  "KFD_IS_CROSS_MEMORY_WRITE flags = (flags AND push_bit 30 1 \<noteq> 0)"

text \<open>The one-second timeout \<^verbatim>\<open>CMA_WAIT_TIMEOUT\<close>, in milliseconds.\<close>

definition CMA_WAIT_TIMEOUT_MSECS :: nat where
  "CMA_WAIT_TIMEOUT_MSECS = 1000"

record kfd_dev =
  dev_kgd :: kgd_dev

record kfd_bo =
  bo_mem :: kgd_mem
  bo_dev :: kfd_dev
  mem_type :: u32
  cpuva :: u64
  it_start :: u64
  it_last :: u64

record kfd_memory_range =
  va_addr :: u64
  range_size :: u64

record dma_fence =
  fence_seqno :: nat
  fence_context :: u64

text \<open>
  A scatter list made from pinned user pages: the address of the first page, the number
  of entries allocated and the number of entries that hold a pinned page.
\<close>

record sg_table =
  sg_pa :: u64
  sg_nents :: u64
  sg_pinned :: u64

record cma_system_bo =
  cbo_mem :: kgd_mem
  cbo_sg :: "sg_table option"
  cbo_dev :: kfd_dev

text \<open>
  A process, as far as the engine sees it. \<^verbatim>\<open>kfd_process_find_bo_from_interval\<close> and
  \<^verbatim>\<open>kfd_get_process_device_data\<close> are functions of \<^verbatim>\<open>kfd_process.c\<close>, which is not among
  the sources at hand: what they return is a field of the process, and every property
  below holds whatever they return.
\<close>

record kfd_process =
  pasid :: nat
  kfd_process_find_bo_from_interval :: "u64 \<Rightarrow> u64 \<Rightarrow> kfd_bo option"
  kfd_get_process_device_data :: "kfd_dev \<Rightarrow> vm_handle option"

text \<open>
  \<^verbatim>\<open>struct cma_iter\<close>. The pointer \<^verbatim>\<open>array\<close> into the array of ranges is the memory from
  the pointer on, as a function of the index: \<open>ci_array ci 0\<close> is \<^verbatim>\<open>*ci->array\<close>, and
  \<^verbatim>\<open>ci->array++\<close> shifts the function by one. \<open>ci_cma_list\<close> is the list \<^verbatim>\<open>cma_list\<close> of shadow
  buffers, in the order of \<^verbatim>\<open>list_add_tail\<close>.
\<close>

record cma_iter =
  ci_array :: "nat \<Rightarrow> kfd_memory_range"
  ci_nr_segs :: u64
  ci_p :: "kfd_process option"
  ci_mm :: "mm_struct option"
  ci_task :: "task_struct option"
  ci_offset :: u64
  ci_cur_bo :: "kfd_bo option"
  ci_bo_offset :: u64
  ci_total :: u64
  ci_cma_bo :: "cma_system_bo option"
  ci_cma_list :: "cma_system_bo list"

subsection \<open>The iterator over the ranges\<close>

text \<open>
  \<^verbatim>\<open>kfd_cma_iter_update_bo\<close>. Locking the mutex of a NULL process stops the thread. The
  field \<^verbatim>\<open>cur_bo\<close> is written before the check.
\<close>

definition kfd_cma_iter_update_bo :: "cma_iter \<Rightarrow> (int \<times> cma_iter) outcome" where
  "kfd_cma_iter_update_bo ci =
     (let arr = ci_array ci 0;
          va_end = va_addr arr + range_size arr - 1
      in case ci_p ci of
           None \<Rightarrow> Oops
         | Some p \<Rightarrow>
             let ci' = ci \<lparr> ci_cur_bo := kfd_process_find_bo_from_interval p (va_addr arr) va_end \<rparr>
             in (case ci_cur_bo ci' of
                   None \<Rightarrow> Returns (- EFAULT, ci')
                 | Some bo \<Rightarrow>
                     if va_end > it_last bo then Returns (- EFAULT, ci')
                     else Returns (0, ci')))"

text \<open>
  \<^verbatim>\<open>kfd_cma_iter_advance\<close>. The offset is increased before the check, and stays increased
  when the check fails. The last assignment reads \<^verbatim>\<open>ci->cur_bo->it.start\<close>: with no
  current buffer it stops the thread.
\<close>

definition kfd_cma_iter_advance :: "cma_iter \<Rightarrow> u64 \<Rightarrow> (int \<times> cma_iter) outcome" where
  "kfd_cma_iter_advance ci sz =
     (let ci1 = ci \<lparr> ci_offset := ci_offset ci + sz \<rparr>
      in if sz > ci_total ci1 \<or> ci_offset ci1 > range_size (ci_array ci1 0)
         then Returns (- EFAULT, ci1)
         else
           let ci2 = ci1 \<lparr> ci_total := ci_total ci1 - sz \<rparr>;
               set_bo_offset = (\<lambda>c. case ci_cur_bo c of
                                  None \<Rightarrow> Oops
                                | Some bo \<Rightarrow>
                                    Returns (0, c \<lparr> ci_bo_offset :=
                                      (va_addr (ci_array c 0) + ci_offset c) - it_start bo \<rparr>))
           in if ci_offset ci2 = range_size (ci_array ci2 0)
              then
                let ci3 = ci2 \<lparr> ci_nr_segs := ci_nr_segs ci2 - 1 \<rparr>
                in if ci_nr_segs ci3 = 0 then Returns (0, ci3)
                   else
                     let ci4 = ci3 \<lparr> ci_array := (\<lambda>i. ci_array ci3 (Suc i)), ci_offset := 0 \<rparr>
                     in (case kfd_cma_iter_update_bo ci4 of
                           Oops \<Rightarrow> Oops
                         | Out_of_fuel \<Rightarrow> Out_of_fuel
                         | Returns (ret, ci5) \<Rightarrow>
                             if ret \<noteq> 0 then Returns (ret, ci5) else set_bo_offset ci5)
              else set_bo_offset ci2)"

text \<open>The loop of \<^verbatim>\<open>kfd_cma_iter_init\<close> that adds the sizes of the first \<open>n\<close> ranges.\<close>

fun sum_range_sizes :: "(nat \<Rightarrow> kfd_memory_range) \<Rightarrow> nat \<Rightarrow> u64" where
  "sum_range_sizes arr 0 = 0"
| "sum_range_sizes arr (Suc n) = sum_range_sizes arr n + range_size (arr n)"

text \<open>
  \<^verbatim>\<open>kfd_cma_iter_init\<close>. The array pointer \<open>arr\<close> may be NULL. The iterator is an output:
  it is not written when the arguments are rejected.
\<close>

definition kfd_cma_iter_init ::
  "(nat \<Rightarrow> kfd_memory_range) option \<Rightarrow> u64 \<Rightarrow> kfd_process option \<Rightarrow> mm_struct option
     \<Rightarrow> task_struct option \<Rightarrow> (int \<times> cma_iter option) outcome" where
  "kfd_cma_iter_init arr segs p mm task =
     (case arr of
        None \<Rightarrow> Returns (- EINVAL, None)
      | Some a \<Rightarrow>
          if segs = 0 then Returns (- EINVAL, None)
          else
            let ci = \<lparr> ci_array = a, ci_nr_segs = segs, ci_p = p, ci_mm = mm, ci_task = task,
                       ci_offset = 0, ci_cur_bo = None, ci_bo_offset = 0,
                       ci_total = sum_range_sizes a (unat segs),
                       ci_cma_bo = None, ci_cma_list = [] \<rparr>
            in if ci_total ci = 0 then Returns (0, Some ci)
               else (case kfd_cma_iter_update_bo ci of
                       Oops \<Rightarrow> Oops
                     | Out_of_fuel \<Rightarrow> Out_of_fuel
                     | Returns (ret, ci') \<Rightarrow>
                         if ret = 0
                         then (case ci_cur_bo ci' of
                                 None \<Rightarrow> Oops
                               | Some bo \<Rightarrow>
                                   Returns (0, Some (ci' \<lparr> ci_bo_offset := va_addr (a 0) - it_start bo \<rparr>)))
                         else Returns (ret, Some ci')))"

definition kfd_cma_iter_end :: "cma_iter \<Rightarrow> bool" where
  "kfd_cma_iter_end ci = (ci_nr_segs ci = 0 \<or> ci_total ci = 0)"

subsection \<open>The kernel around the engine\<close>

text \<open>
  What the engine asks of the rest of the kernel is a trace of events, in program order
  (messages, mutexes and the mapping of single pages are left out). What the kernel
  answers is the record \<open>kenv\<close>; its first argument is the moment of the call, which is
  the number of events so far, so that the same call can be answered differently at
  different moments. Every property below holds for every such environment.

  A \<^verbatim>\<open>struct kgd_mem *\<close> is a handle, and the handle 0 is the NULL pointer.
  \<open>alloc_memory_of_gpu\<close> gives the return code of
  \<^verbatim>\<open>amdgpu_amdkfd_gpuvm_alloc_memory_of_gpu\<close> and the handle it leaves in \<^verbatim>\<open>*mem\<close>;
  \<open>copy_mem_to_mem\<close> gives the return code of \<^verbatim>\<open>amdgpu_amdkfd_copy_mem_to_mem\<close>, the fence it
  leaves in \<^verbatim>\<open>*f\<close> and the byte count it leaves in \<^verbatim>\<open>*actual_size\<close>;
  \<open>copy_user\<close> gives the number of bytes that \<^verbatim>\<open>copy_from_user\<close> or \<^verbatim>\<open>copy_to_user\<close> could not
  copy; \<open>copy_ranges_from_user\<close> gives the array of ranges that \<^verbatim>\<open>copy_from_user\<close> fills, or
  nothing when it fails.

  \<open>kcl_mm_access\<close> is asked with an access mode. The modes are those of \<^verbatim>\<open>linux/ptrace.h\<close>,
  a header that is not among the sources at hand: reading or attaching, checked against
  the filesystem credentials or against the real credentials of the caller.
\<close>

datatype ptrace_mode =
    PTRACE_MODE_READ_FSCREDS
  | PTRACE_MODE_READ_REALCREDS
  | PTRACE_MODE_ATTACH_FSCREDS
  | PTRACE_MODE_ATTACH_REALCREDS

datatype kobj = Range_array | Sg_table_obj | Page_array | Cma_bo_obj

datatype kevent =
    Kmalloc kobj
  | Kfree kobj
  | Copy_from_user u64 u64
  | Find_get_pid u32
  | Get_pid_task pid_struct
  | Mm_access "task_struct option" ptrace_mode
  | Kfd_get_process "task_struct option"
  | Mmput mm_struct
  | Put_task_struct "task_struct option"
  | Put_pid pid_struct
  | Sg_alloc_table u64
  | Sg_free_table
  | Get_user_pages "task_struct option" mm_struct u64 u64 bool
  | Put_pages u32
  | Put_sg_pages sg_table
  | User_copy bool u64 u64
  | Alloc_memory_of_gpu kgd_dev u64 "sg_table option"
  | Free_memory_of_gpu "kgd_dev option" kgd_mem
  | Copy_mem_to_mem kgd_dev kgd_mem u64 kgd_mem u64 u64
  | Dma_fence_wait_timeout dma_fence nat
  | Dma_fence_get dma_fence
  | Dma_fence_put dma_fence

record kenv =
  kmalloc_ok :: "nat \<Rightarrow> kobj \<Rightarrow> bool"
  copy_ranges_from_user :: "nat \<Rightarrow> u64 \<Rightarrow> u64 \<Rightarrow> (nat \<Rightarrow> kfd_memory_range) option"
  find_get_pid :: "nat \<Rightarrow> u32 \<Rightarrow> pid_struct option"
  get_pid_task :: "nat \<Rightarrow> pid_struct \<Rightarrow> task_struct option"
  kcl_mm_access :: "nat \<Rightarrow> task_struct option \<Rightarrow> ptrace_mode \<Rightarrow> mm_struct kptr"
  kfd_get_process :: "nat \<Rightarrow> task_struct option \<Rightarrow> kfd_process kptr"
  current_mm :: "mm_struct option"
  current_task :: task_struct
  sg_alloc_table :: "nat \<Rightarrow> u64 \<Rightarrow> int"
  kcl_get_user_pages :: "nat \<Rightarrow> task_struct option \<Rightarrow> mm_struct \<Rightarrow> u64 \<Rightarrow> u64 \<Rightarrow> bool \<Rightarrow> int"
  copy_user :: "nat \<Rightarrow> bool \<Rightarrow> u64 \<Rightarrow> u64 \<Rightarrow> u64"
  alloc_memory_of_gpu :: "nat \<Rightarrow> kgd_dev \<Rightarrow> u64 \<Rightarrow> vm_handle \<Rightarrow> sg_table option \<Rightarrow> int \<times> kgd_mem"
  free_memory_of_gpu :: "nat \<Rightarrow> kgd_dev option \<Rightarrow> kgd_mem \<Rightarrow> int"
  copy_mem_to_mem ::
    "nat \<Rightarrow> kgd_dev \<Rightarrow> kgd_mem \<Rightarrow> u64 \<Rightarrow> kgd_mem \<Rightarrow> u64 \<Rightarrow> u64 \<Rightarrow> int \<times> dma_fence option \<times> u64"
  dma_fence_wait_timeout :: "nat \<Rightarrow> dma_fence \<Rightarrow> int"

subsection \<open>Fences\<close>

text \<open>\<^verbatim>\<open>dma_fence_put\<close> and \<^verbatim>\<open>dma_fence_get\<close> do nothing on a NULL fence.\<close>

definition dma_fence_put :: "dma_fence option \<Rightarrow> kevent list \<Rightarrow> kevent list" where
  "dma_fence_put f tr = (case f of None \<Rightarrow> tr | Some fence \<Rightarrow> tr @ [Dma_fence_put fence])"

definition dma_fence_get :: "dma_fence option \<Rightarrow> kevent list \<Rightarrow> kevent list" where
  "dma_fence_get f tr = (case f of None \<Rightarrow> tr | Some fence \<Rightarrow> tr @ [Dma_fence_get fence])"

text \<open>\<^verbatim>\<open>kfd_cma_fence_wait\<close>. Waiting on a NULL fence stops the thread.\<close>

definition kfd_cma_fence_wait :: "kenv \<Rightarrow> dma_fence option \<Rightarrow> kevent list \<Rightarrow> (int \<times> kevent list) outcome" where
  "kfd_cma_fence_wait env f tr =
     (case f of
        None \<Rightarrow> Oops
      | Some fence \<Rightarrow>
          let ret = dma_fence_wait_timeout env (length tr) fence;
              tr1 = tr @ [Dma_fence_wait_timeout fence CMA_WAIT_TIMEOUT_MSECS]
          in if ret > 0 then Returns (0, tr1)
             else if ret = 0 then Returns (- ETIME, tr1)
             else Returns (ret, tr1))"

definition kfd_fence_put_wait_if_diff_context ::
  "kenv \<Rightarrow> dma_fence option \<Rightarrow> dma_fence option \<Rightarrow> kevent list \<Rightarrow> (int \<times> kevent list) outcome" where
  "kfd_fence_put_wait_if_diff_context env cf pf tr =
     (case pf of
        None \<Rightarrow> Returns (0, dma_fence_put pf tr)
      | Some p \<Rightarrow>
          (case cf of
             None \<Rightarrow> Returns (0, dma_fence_put pf tr)
           | Some c \<Rightarrow>
               if fence_context c \<noteq> fence_context p
               then (case kfd_cma_fence_wait env pf tr of
                       Oops \<Rightarrow> Oops
                     | Out_of_fuel \<Rightarrow> Out_of_fuel
                     | Returns (ret, tr1) \<Rightarrow> Returns (ret, dma_fence_put pf tr1))
               else Returns (0, dma_fence_put pf tr)))"

subsection \<open>Shadow buffers\<close>

text \<open>
  \<^verbatim>\<open>kfd_put_sg_table\<close>. The loop runs over all \<^verbatim>\<open>sg->nents\<close> entries of the table and puts the
  page of each. \<^verbatim>\<open>sg_alloc_table\<close> leaves the entries without a page, and only the first
  \<open>sg_pinned\<close> entries were given one: when fewer pages were pinned than the table has
  entries, the loop reaches an entry whose page is NULL, and \<^verbatim>\<open>put_page(NULL)\<close> stops the
  thread. When every entry holds a page the loop is one event.
\<close>

definition kfd_put_sg_table :: "sg_table \<Rightarrow> kevent list \<Rightarrow> kevent list outcome" where
  "kfd_put_sg_table sg tr =
     (if sg_pinned sg < sg_nents sg then Oops else Returns (tr @ [Put_sg_pages sg]))"

text \<open>
  \<^verbatim>\<open>kfd_create_sg_table_from_userptr_bo\<close>. The result is the return code, \<^verbatim>\<open>*size\<close>,
  \<^verbatim>\<open>*sg_size\<close> and \<^verbatim>\<open>*ret_sg\<close>. The count \<open>n\<close> of pinned pages is an \<^verbatim>\<open>unsigned long\<close>, so
  \<^verbatim>\<open>n <= 0\<close> holds for 0 only. Reading the semaphore of a NULL \<open>mm\<close> stops the thread, and
  so does filling more entries than the table has. The loop that fills the entries adds
  \<open>PAGE_SIZE\<close> to \<^verbatim>\<open>sz\<close> once for each of the \<open>n\<close> pages.
\<close>

definition kfd_create_sg_table_from_userptr_bo ::
  "kenv \<Rightarrow> kfd_bo \<Rightarrow> u64 \<Rightarrow> bool \<Rightarrow> mm_struct option \<Rightarrow> task_struct option \<Rightarrow> u64 \<Rightarrow> kevent list
     \<Rightarrow> (int \<times> u64 \<times> u64 \<times> sg_table option \<times> kevent list) outcome" where
  "kfd_create_sg_table_from_userptr_bo env bo offset cma_write mm task size_in tr =
     (let pa = (cpuva bo + offset) AND PAGE_MASK;
          sz = size_in;
          tr1 = tr @ [Kmalloc Sg_table_obj]
      in if \<not> kmalloc_ok env (length tr) Sg_table_obj then Returns (- ENOMEM, size_in, 0, None, tr1)
         else
           let offset_in_page = (ucast (offset AND (PAGE_SIZE - 1)) :: u32);
               nents = (sz + ucast offset_in_page + PAGE_SIZE - 1) div PAGE_SIZE;
               ret = sg_alloc_table env (length tr1) nents;
               tr2 = tr1 @ [Sg_alloc_table nents]
           in if ret \<noteq> 0 then Returns (- ENOMEM, size_in, 0, None, tr2 @ [Kfree Sg_table_obj])
              else
                let tr3 = tr2 @ [Kmalloc Page_array]
                in if \<not> kmalloc_ok env (length tr2) Page_array
                   then Returns (- ENOMEM, size_in, 0, None, tr3 @ [Sg_free_table, Kfree Sg_table_obj])
                   else (case mm of
                      None \<Rightarrow> Oops
                    | Some m \<Rightarrow>
                        let n = (word_of_int (kcl_get_user_pages env (length tr3) task m pa nents cma_write) :: u64);
                            tr4 = tr3 @ [Get_user_pages task m pa nents cma_write]
                        in if n = 0
                           then Returns (- EFAULT, size_in, 0, None,
                                         tr4 @ [Kfree Page_array, Sg_free_table, Kfree Sg_table_obj])
                           else if n > nents then Oops
                           else
                             let size_out = (if n \<noteq> nents then n * PAGE_SIZE - ucast offset_in_page
                                             else size_in);
                                 sg = \<lparr> sg_pa = pa, sg_nents = nents, sg_pinned = n \<rparr>
                             in Returns (0, size_out, n * PAGE_SIZE, Some sg, tr4 @ [Kfree Page_array])))"

text \<open>
  The labels \<^verbatim>\<open>pdd_fail\<close> and \<^verbatim>\<open>sg_fail\<close> of \<^verbatim>\<open>kfd_create_cma_system_bo\<close>, and the
  return of \<open>ret\<close> that follows them, with \<^verbatim>\<open>*size\<close> and a NULL \<^verbatim>\<open>*cma_bo\<close>.
\<close>

definition cma_system_bo_pdd_fail ::
  "int \<Rightarrow> u64 \<Rightarrow> sg_table option \<Rightarrow> kevent list
     \<Rightarrow> (int \<times> u64 \<times> cma_system_bo option \<times> kevent list) outcome" where
  "cma_system_bo_pdd_fail ret size_out sg tr =
     (case sg of
        None \<Rightarrow> Returns (ret, size_out, None, tr @ [Kfree Cma_bo_obj])
      | Some s \<Rightarrow>
          (case kfd_put_sg_table s tr of
             Oops \<Rightarrow> Oops
           | Out_of_fuel \<Rightarrow> Out_of_fuel
           | Returns tr1 \<Rightarrow>
               Returns (ret, size_out, None,
                        tr1 @ [Sg_free_table, Kfree Sg_table_obj, Kfree Cma_bo_obj])))"

text \<open>
  \<^verbatim>\<open>kfd_create_cma_system_bo\<close>. The result is the return code, \<^verbatim>\<open>*size\<close> and \<^verbatim>\<open>*cma_bo\<close>.
  Locking the mutex of a NULL process stops the thread. The label \<^verbatim>\<open>copy_fail\<close>, which is
  reached for a buffer in device memory only, frees \<^verbatim>\<open>bo->mem\<close>, as the source has it.
\<close>

definition kfd_create_cma_system_bo ::
  "kenv \<Rightarrow> kfd_dev \<Rightarrow> kfd_bo \<Rightarrow> u64 \<Rightarrow> u64 \<Rightarrow> bool \<Rightarrow> kfd_process option \<Rightarrow> mm_struct option
     \<Rightarrow> task_struct option \<Rightarrow> kevent list
     \<Rightarrow> (int \<times> u64 \<times> cma_system_bo option \<times> kevent list) outcome" where
  "kfd_create_cma_system_bo env kdev bo size_in offset cma_write p mm task tr =
     (let tr1 = tr @ [Kmalloc Cma_bo_obj]
      in if \<not> kmalloc_ok env (length tr) Cma_bo_obj then Returns (- ENOMEM, size_in, None, tr1)
         else
           let staged =
                 (if mem_type bo = KFD_IOC_ALLOC_MEM_FLAGS_VRAM
                  then Returns (0, size_in, min size_in MAX_SYSTEM_BO_SIZE, None, tr1)
                  else if cpuva bo \<noteq> 0
                  then kfd_create_sg_table_from_userptr_bo env bo offset cma_write mm task size_in tr1
                  else Returns (- EINVAL, size_in, 0, None, tr1))
           in case staged of
                Oops \<Rightarrow> Oops
              | Out_of_fuel \<Rightarrow> Out_of_fuel
              | Returns (ret, size1, bo_size, sg, tr2) \<Rightarrow>
                  if ret \<noteq> 0 then Returns (ret, size1, None, tr2 @ [Kfree Cma_bo_obj])
                  else (case p of
                     None \<Rightarrow> Oops
                   | Some proc \<Rightarrow>
                       (case kfd_get_process_device_data proc kdev of
                          None \<Rightarrow> cma_system_bo_pdd_fail (- EINVAL) size1 sg tr2
                        | Some vm \<Rightarrow>
                            let a = alloc_memory_of_gpu env (length tr2) (dev_kgd kdev) bo_size vm sg;
                                cbo_mem_new = snd a;
                                tr3 = tr2 @ [Alloc_memory_of_gpu (dev_kgd kdev) bo_size sg]
                            in if fst a \<noteq> 0
                               then cma_system_bo_pdd_fail (fst a) size1 sg tr3
                               else if mem_type bo = KFD_IOC_ALLOC_MEM_FLAGS_VRAM
                               then
                                 let c = copy_mem_to_mem env (length tr3) (dev_kgd kdev) (bo_mem bo) offset
                                           cbo_mem_new 0 bo_size;
                                     tr4 = tr3 @ [Copy_mem_to_mem (dev_kgd kdev) (bo_mem bo) offset
                                                    cbo_mem_new 0 bo_size];
                                     f = fst (snd c);
                                     size2 = snd (snd c);
                                     copy_fail = (\<lambda>ret t. cma_system_bo_pdd_fail ret size2 sg
                                                    (t @ [Free_memory_of_gpu (Some (dev_kgd kdev)) (bo_mem bo)]))
                                 in if fst c \<noteq> 0
                                    then copy_fail (fst c) tr4
                                    else (case kfd_cma_fence_wait env f tr4 of
                                            Oops \<Rightarrow> Oops
                                          | Out_of_fuel \<Rightarrow> Out_of_fuel
                                          | Returns (ret2, tr5) \<Rightarrow>
                                              let tr6 = dma_fence_put f tr5
                                              in if ret2 \<noteq> 0
                                                 then copy_fail ret2 tr6
                                                 else Returns (ret2, size2,
                                                        Some \<lparr> cbo_mem = cbo_mem_new, cbo_sg = sg,
                                                               cbo_dev = kdev \<rparr>, tr6))
                               else Returns (fst a, size1,
                                      Some \<lparr> cbo_mem = cbo_mem_new, cbo_sg = sg, cbo_dev = kdev \<rparr>,
                                      tr3))))"

text \<open>
  \<^verbatim>\<open>kfd_free_cma_bos\<close>: the loop over \<^verbatim>\<open>cma_list\<close>, which empties the list. It stops where
  \<^verbatim>\<open>kfd_put_sg_table\<close> stops, before the memory of that shadow buffer is freed.
\<close>

fun free_cma_bos_loop :: "cma_system_bo list \<Rightarrow> kevent list \<Rightarrow> kevent list outcome" where
  "free_cma_bos_loop [] tr = Returns tr"
| "free_cma_bos_loop (cma_bo # rest) tr =
     (case (case cbo_sg cma_bo of None \<Rightarrow> Returns tr | Some sg \<Rightarrow> kfd_put_sg_table sg tr) of
        Oops \<Rightarrow> Oops
      | Out_of_fuel \<Rightarrow> Out_of_fuel
      | Returns tr1 \<Rightarrow>
          free_cma_bos_loop rest
            (tr1 @ [Free_memory_of_gpu (Some (dev_kgd (cbo_dev cma_bo))) (cbo_mem cma_bo),
                    Kfree Cma_bo_obj]))"

definition kfd_free_cma_bos :: "cma_iter \<Rightarrow> kevent list \<Rightarrow> (cma_iter \<times> kevent list) outcome" where
  "kfd_free_cma_bos ci tr =
     (case free_cma_bos_loop (ci_cma_list ci) tr of
        Oops \<Rightarrow> Oops
      | Out_of_fuel \<Rightarrow> Out_of_fuel
      | Returns tr1 \<Rightarrow> Returns (ci \<lparr> ci_cma_list := [] \<rparr>, tr1))"

text \<open>\<^verbatim>\<open>kfd_create_kgd_mem\<close>: the return code and the handle in \<^verbatim>\<open>*mem\<close> afterwards.\<close>

definition kfd_create_kgd_mem ::
  "kenv \<Rightarrow> kfd_dev \<Rightarrow> u64 \<Rightarrow> kfd_process option \<Rightarrow> kgd_mem \<Rightarrow> kevent list
     \<Rightarrow> int \<times> kgd_mem \<times> kevent list" where
  "kfd_create_kgd_mem env kdev sz p mem_in tr =
     (case p of
        None \<Rightarrow> (- EINVAL, mem_in, tr)
      | Some proc \<Rightarrow>
          if sz = 0 then (- EINVAL, mem_in, tr)
          else (case kfd_get_process_device_data proc kdev of
                  None \<Rightarrow> (- EINVAL, 0, tr)
                | Some vm \<Rightarrow>
                    let a = alloc_memory_of_gpu env (length tr) (dev_kgd kdev) sz vm None;
                        tr1 = tr @ [Alloc_memory_of_gpu (dev_kgd kdev) sz None]
                    in if fst a \<noteq> 0 then (- EINVAL, snd a, tr1) else (0, snd a, tr1)))"

definition kfd_destroy_kgd_mem :: "kenv \<Rightarrow> kgd_mem \<Rightarrow> kevent list \<Rightarrow> int \<times> kevent list" where
  "kfd_destroy_kgd_mem env m tr =
     (if m = 0 then (- EINVAL, tr)
      else (free_memory_of_gpu env (length tr) None m, tr @ [Free_memory_of_gpu None m]))"

subsection \<open>Copying between two userptr buffers\<close>

text \<open>
  The inner loop of \<^verbatim>\<open>kfd_copy_userptr_bos\<close> over the pinned pages: \<open>k\<close> pages are left.
  The state is \<^verbatim>\<open>to_copy\<close>, \<^verbatim>\<open>lva\<close>, \<^verbatim>\<open>rva\<close>, \<^verbatim>\<open>offset_in_page\<close>, \<^verbatim>\<open>copy_size\<close> and the trace;
  the result is \<^verbatim>\<open>ret\<close> and the state.
\<close>

fun userptr_copy_pages ::
  "kenv \<Rightarrow> bool \<Rightarrow> nat \<Rightarrow> u64 \<times> u64 \<times> u64 \<times> u32 \<times> u64 \<times> kevent list
     \<Rightarrow> int \<times> u64 \<times> u64 \<times> u64 \<times> u32 \<times> u64 \<times> kevent list" where
  "userptr_copy_pages env cma_write 0 st = (0, st)"
| "userptr_copy_pages env cma_write (Suc k) (to_copy, lva, rva, offset_in_page, copy_size, tr) =
     (let n = (ucast (copy_user env (length tr) cma_write lva copy_size) :: u32);
          tr1 = tr @ [User_copy cma_write lva copy_size]
      in if n \<noteq> 0 then (- EFAULT, to_copy, lva, rva, offset_in_page, copy_size, tr1)
         else
           let to_copy1 = to_copy - copy_size
           in if to_copy1 = 0 then (0, to_copy1, lva, rva, offset_in_page, copy_size, tr1)
              else userptr_copy_pages env cma_write k
                     (to_copy1, lva + copy_size, rva + (copy_size + ucast offset_in_page), 0,
                      min to_copy1 PAGE_SIZE, tr1))"

text \<open>
  The outer loop \<^verbatim>\<open>while (nents && to_copy)\<close>, with fuel. The count \<open>nl\<close> of pinned pages
  is an \<^verbatim>\<open>unsigned int\<close>, so \<^verbatim>\<open>nl <= 0\<close> holds for 0 only; a count above the number of
  pages asked for makes the inner loop read pages that were never stored, which stops
  the thread. The result is \<^verbatim>\<open>ret\<close>, \<^verbatim>\<open>to_copy\<close> and the trace.
\<close>

fun userptr_copy_loop ::
  "nat \<Rightarrow> kenv \<Rightarrow> cma_iter \<Rightarrow> bool \<Rightarrow> u32 \<times> u64 \<times> u64 \<times> u64 \<times> u32 \<times> u64 \<times> kevent list
     \<Rightarrow> (int \<times> u64 \<times> kevent list) outcome" where
  "userptr_copy_loop fuel env ri cma_write (nents, to_copy, lva, rva, offset_in_page, copy_size, tr) =
     (if nents = 0 \<or> to_copy = 0 then Returns (0, to_copy, tr)
      else case fuel of
        0 \<Rightarrow> Out_of_fuel
      | Suc fuel' \<Rightarrow>
          (case ci_mm ri of
             None \<Rightarrow> Oops
           | Some m \<Rightarrow>
               let nl0 = min MAX_PP_KMALLOC_COUNT nents;
                   nl = (word_of_int (kcl_get_user_pages env (length tr) (ci_task ri) m rva
                                        (ucast nl0) cma_write) :: u32);
                   tr1 = tr @ [Get_user_pages (ci_task ri) m rva (ucast nl0) cma_write]
               in if nl = 0 then Returns (- EFAULT, to_copy, tr1)
                  else if nl > nl0 then Oops
                  else (case userptr_copy_pages env cma_write (unat nl)
                               (to_copy, lva, rva, offset_in_page, copy_size, tr1) of
                          (ret, to_copy1, lva1, rva1, offset_in_page1, copy_size1, tr2) \<Rightarrow>
                            let tr3 = tr2 @ [Put_pages nl]
                            in if ret \<noteq> 0 then Returns (ret, to_copy1, tr3)
                               else userptr_copy_loop fuel' env ri cma_write
                                      (nents - nl, to_copy1, lva1, rva1, offset_in_page1,
                                       copy_size1, tr3))))"

text \<open>
  \<^verbatim>\<open>kfd_copy_userptr_bos\<close>: the return code, \<^verbatim>\<open>*copied\<close> and the trace. Reading the current
  buffer of an iterator that has none stops the thread.
\<close>

definition kfd_copy_userptr_bos ::
  "nat \<Rightarrow> kenv \<Rightarrow> cma_iter \<Rightarrow> cma_iter \<Rightarrow> bool \<Rightarrow> u64 \<Rightarrow> kevent list
     \<Rightarrow> (int \<times> u64 \<times> kevent list) outcome" where
  "kfd_copy_userptr_bos fuel env si di cma_write sz tr =
     (let ri = (if cma_write then di else si);
          li = (if cma_write then si else di)
      in case ci_cur_bo ri of
           None \<Rightarrow> Oops
         | Some rbo \<Rightarrow>
             (case ci_cur_bo li of
                None \<Rightarrow> Oops
              | Some lbo \<Rightarrow>
                  let offset_in_page = (ucast (ci_bo_offset ri AND (PAGE_SIZE - 1)) :: u32);
                      rva = (cpuva rbo + ci_bo_offset ri) AND PAGE_MASK;
                      lva = cpuva lbo + ci_bo_offset li;
                      nents = (ucast ((sz + ucast offset_in_page + PAGE_SIZE - 1) div PAGE_SIZE) :: u32);
                      copy_size = min sz (PAGE_SIZE - ucast offset_in_page);
                      on_heap = (nents > MAX_PP_STACK_COUNT);
                      tr1 = (if on_heap then tr @ [Kmalloc Page_array] else tr)
                  in if on_heap \<and> \<not> kmalloc_ok env (length tr) Page_array
                     then Returns (- ENOMEM, 0, tr1)
                     else (case userptr_copy_loop fuel env ri cma_write
                                  (nents, sz, lva, rva, offset_in_page, copy_size, tr1) of
                             Oops \<Rightarrow> Oops
                           | Out_of_fuel \<Rightarrow> Out_of_fuel
                           | Returns (ret, to_copy, tr2) \<Rightarrow>
                               Returns (ret, sz - to_copy,
                                        if on_heap then tr2 @ [Kfree Page_array] else tr2))))"

subsection \<open>Copying one segment\<close>

text \<open>
  The end of \<^verbatim>\<open>kfd_copy_bos\<close>, from the test of \<^verbatim>\<open>err\<close> on: the copy by the device \<open>dev\<close> and,
  on the path through the intermediate buffer (\<open>d2d\<close>), the wait for its fence. The result
  of \<^verbatim>\<open>kfd_copy_bos\<close> is the return code, the fence in \<^verbatim>\<open>*f\<close>, \<^verbatim>\<open>*copied\<close>, the two iterators,
  \<^verbatim>\<open>*tmp_mem\<close> and the trace.
\<close>

definition kfd_copy_bos_copy ::
  "kenv \<Rightarrow> kfd_dev \<Rightarrow> kgd_mem \<Rightarrow> u64 \<Rightarrow> kgd_mem \<Rightarrow> u64 \<Rightarrow> u64 \<Rightarrow> int \<Rightarrow> bool
     \<Rightarrow> cma_iter \<Rightarrow> cma_iter \<Rightarrow> kgd_mem \<Rightarrow> kevent list
     \<Rightarrow> (int \<times> dma_fence option \<times> u64 \<times> cma_iter \<times> cma_iter \<times> kgd_mem \<times> kevent list) outcome" where
  "kfd_copy_bos_copy env dev src_mem src_offset dst_mem dst_offset sz err d2d si di tmp_mem tr =
     (if err \<noteq> 0 then Returns (- EINVAL, None, 0, si, di, tmp_mem, tr)
      else
        let c = copy_mem_to_mem env (length tr) (dev_kgd dev) src_mem src_offset dst_mem dst_offset sz;
            tr1 = tr @ [Copy_mem_to_mem (dev_kgd dev) src_mem src_offset dst_mem dst_offset sz];
            f = fst (snd c);
            copied = snd (snd c)
        in if tmp_mem \<noteq> 0 \<and> d2d \<and> fst c = 0
           then (case kfd_cma_fence_wait env f tr1 of
                   Oops \<Rightarrow> Oops
                 | Out_of_fuel \<Rightarrow> Out_of_fuel
                 | Returns (w, tr2) \<Rightarrow>
                     Returns (fst c, None, copied, si, di, tmp_mem, dma_fence_put f tr2))
           else Returns (fst c, f, copied, si, di, tmp_mem, tr1))"

text \<open>
  \<^verbatim>\<open>kfd_copy_bos\<close>. After \<^verbatim>\<open>kfd_create_cma_system_bo\<close> the code reads \<^verbatim>\<open>cma_bo->mem\<close> before it
  tests \<^verbatim>\<open>err\<close>: when no shadow buffer was made the pointer is NULL and the thread stops.
\<close>

definition kfd_copy_bos ::
  "nat \<Rightarrow> kenv \<Rightarrow> cma_iter \<Rightarrow> cma_iter \<Rightarrow> bool \<Rightarrow> u64 \<Rightarrow> kgd_mem \<Rightarrow> kevent list
     \<Rightarrow> (int \<times> dma_fence option \<times> u64 \<times> cma_iter \<times> cma_iter \<times> kgd_mem \<times> kevent list) outcome" where
  "kfd_copy_bos fuel env si di cma_write sz tmp_mem tr =
     (case ci_cur_bo di of
        None \<Rightarrow> Oops
      | Some dst_bo \<Rightarrow>
     (case ci_cur_bo si of
        None \<Rightarrow> Oops
      | Some src_bo \<Rightarrow>
          if cpuva src_bo \<noteq> 0 \<and> cpuva dst_bo \<noteq> 0
          then (case kfd_copy_userptr_bos fuel env si di cma_write sz tr of
                  Oops \<Rightarrow> Oops
                | Out_of_fuel \<Rightarrow> Out_of_fuel
                | Returns (ret, copied, tr1) \<Rightarrow> Returns (ret, None, copied, si, di, tmp_mem, tr1))
          else if cpuva src_bo \<noteq> 0
          then (case kfd_create_cma_system_bo env (bo_dev dst_bo) src_bo sz (ci_bo_offset si)
                       cma_write (ci_p si) (ci_mm si) (ci_task si) tr of
                  Oops \<Rightarrow> Oops
                | Out_of_fuel \<Rightarrow> Out_of_fuel
                | Returns (err, sz1, cma_bo, tr1) \<Rightarrow>
                    (case cma_bo of
                       None \<Rightarrow> Oops
                     | Some cbo \<Rightarrow>
                         kfd_copy_bos_copy env (bo_dev dst_bo)
                           (cbo_mem cbo) (ci_bo_offset si AND (PAGE_SIZE - 1))
                           (bo_mem dst_bo) (ci_bo_offset di) sz1 err False
                           (si \<lparr> ci_cma_bo := Some cbo, ci_cma_list := ci_cma_list si @ [cbo] \<rparr>)
                           di tmp_mem tr1))
          else if cpuva dst_bo \<noteq> 0
          then (case kfd_create_cma_system_bo env (bo_dev src_bo) dst_bo sz (ci_bo_offset di)
                       cma_write (ci_p di) (ci_mm di) (ci_task di) tr of
                  Oops \<Rightarrow> Oops
                | Out_of_fuel \<Rightarrow> Out_of_fuel
                | Returns (err, sz1, cma_bo, tr1) \<Rightarrow>
                    (case cma_bo of
                       None \<Rightarrow> Oops
                     | Some cbo \<Rightarrow>
                         kfd_copy_bos_copy env (bo_dev src_bo)
                           (bo_mem src_bo) (ci_bo_offset si)
                           (cbo_mem cbo) (ci_bo_offset di AND (PAGE_SIZE - 1)) sz1 err False
                           si
                           (di \<lparr> ci_cma_bo := Some cbo, ci_cma_list := ci_cma_list di @ [cbo] \<rparr>)
                           tmp_mem tr1))
          else if dev_kgd (bo_dev src_bo) \<noteq> dev_kgd (bo_dev dst_bo)
          then
            if mem_type src_bo = KFD_IOC_ALLOC_MEM_FLAGS_VRAM
               \<and> mem_type dst_bo = KFD_IOC_ALLOC_MEM_FLAGS_VRAM
            then
              let sz1 = min sz MAX_SYSTEM_BO_SIZE;
                  made = (if tmp_mem = 0
                          then kfd_create_kgd_mem env (bo_dev src_bo) MAX_SYSTEM_BO_SIZE (ci_p si)
                                 tmp_mem tr
                          else (0, tmp_mem, tr))
              in (case made of
                    (r, tmp1, tr1) \<Rightarrow>
                      if r \<noteq> 0 then Returns (- EINVAL, None, 0, si, di, tmp1, tr1)
                      else
                        let c = copy_mem_to_mem env (length tr1) (dev_kgd (bo_dev src_bo))
                                  (bo_mem src_bo) (ci_bo_offset si) tmp1 0 sz1;
                            tr2 = tr1 @ [Copy_mem_to_mem (dev_kgd (bo_dev src_bo)) (bo_mem src_bo)
                                           (ci_bo_offset si) tmp1 0 sz1];
                            f1 = fst (snd c);
                            sz2 = snd (snd c)
                        in if fst c \<noteq> 0 then Returns (- EINVAL, f1, 0, si, di, tmp1, tr2)
                           else (case kfd_cma_fence_wait env f1 tr2 of
                                   Oops \<Rightarrow> Oops
                                 | Out_of_fuel \<Rightarrow> Out_of_fuel
                                 | Returns (w, tr3) \<Rightarrow>
                                     kfd_copy_bos_copy env (bo_dev dst_bo) tmp1 0
                                       (bo_mem dst_bo) (ci_bo_offset di) sz2 0 True
                                       si di tmp1 (dma_fence_put f1 tr3)))
            else if mem_type src_bo = KFD_IOC_ALLOC_MEM_FLAGS_VRAM
            then kfd_copy_bos_copy env (bo_dev src_bo) (bo_mem src_bo) (ci_bo_offset si)
                   (bo_mem dst_bo) (ci_bo_offset di) sz 0 False si di tmp_mem tr
            else kfd_copy_bos_copy env (bo_dev dst_bo) (bo_mem src_bo) (ci_bo_offset si)
                   (bo_mem dst_bo) (ci_bo_offset di) sz 0 False si di tmp_mem tr
          else kfd_copy_bos_copy env (bo_dev dst_bo) (bo_mem src_bo) (ci_bo_offset si)
                 (bo_mem dst_bo) (ci_bo_offset di) sz 0 False si di tmp_mem tr))"

subsection \<open>Copying one source range\<close>

text \<open>
  The block \<^verbatim>\<open>if (fence) { err = kfd_fence_put_wait_if_diff_context(fence, lfence);
  lfence = fence; ... }\<close>, which both copy loops run on the fence that a copy has returned:
  the result is \<^verbatim>\<open>err\<close>, \<^verbatim>\<open>lfence\<close> and the trace, and the loop is left when \<^verbatim>\<open>err\<close> is not 0.
\<close>

definition new_fence_step ::
  "kenv \<Rightarrow> dma_fence option \<Rightarrow> dma_fence option \<Rightarrow> kevent list
     \<Rightarrow> (int \<times> dma_fence option \<times> kevent list) outcome" where
  "new_fence_step env fence lfence tr =
     (case fence of
        None \<Rightarrow> Returns (0, lfence, tr)
      | Some f \<Rightarrow>
          (case kfd_fence_put_wait_if_diff_context env fence lfence tr of
             Oops \<Rightarrow> Oops
           | Out_of_fuel \<Rightarrow> Out_of_fuel
           | Returns (err, tr1) \<Rightarrow> Returns (err, fence, tr1)))"

text \<open>
  The loop \<^verbatim>\<open>while (size && !kfd_cma_iter_end(di))\<close> of \<^verbatim>\<open>kfd_copy_single_range\<close>, with fuel.
  The state is \<^verbatim>\<open>size\<close>, \<^verbatim>\<open>*copied\<close>, \<^verbatim>\<open>lfence\<close>, the two iterators, \<^verbatim>\<open>*tmp_mem\<close> and the trace;
  the result is \<^verbatim>\<open>err\<close> and the state when the loop is left.
\<close>

fun kfd_copy_single_range_loop ::
  "nat \<Rightarrow> kenv \<Rightarrow> bool
     \<Rightarrow> u64 \<times> u64 \<times> dma_fence option \<times> cma_iter \<times> cma_iter \<times> kgd_mem \<times> kevent list
     \<Rightarrow> (int \<times> u64 \<times> u64 \<times> dma_fence option \<times> cma_iter \<times> cma_iter \<times> kgd_mem \<times> kevent list) outcome"
  where
  "kfd_copy_single_range_loop fuel env cma_write (sz, copied, lfence, si, di, tmp_mem, tr) =
     (if sz = 0 \<or> kfd_cma_iter_end di then Returns (0, sz, copied, lfence, si, di, tmp_mem, tr)
      else case fuel of
        0 \<Rightarrow> Out_of_fuel
      | Suc fuel' \<Rightarrow>
          let copy_size = min sz (range_size (ci_array di 0) - ci_offset di)
          in (case kfd_copy_bos fuel' env si di cma_write copy_size tmp_mem tr of
                Oops \<Rightarrow> Oops
              | Out_of_fuel \<Rightarrow> Out_of_fuel
              | Returns (err, fence, n, si1, di1, tmp1, tr1) \<Rightarrow>
                  if err \<noteq> 0 then Returns (err, sz, copied, lfence, si1, di1, tmp1, tr1)
                  else
                    (case new_fence_step env fence lfence tr1 of
                       Oops \<Rightarrow> Oops
                     | Out_of_fuel \<Rightarrow> Out_of_fuel
                     | Returns (err2, lfence1, tr2) \<Rightarrow>
                         if err2 \<noteq> 0 then Returns (err2, sz, copied, lfence1, si1, di1, tmp1, tr2)
                         else
                           (case kfd_cma_iter_advance si1 n of
                              Oops \<Rightarrow> Oops
                            | Out_of_fuel \<Rightarrow> Out_of_fuel
                            | Returns (err3, si2) \<Rightarrow>
                                if err3 \<noteq> 0
                                then Returns (err3, sz - n, copied + n, lfence1, si2, di1, tmp1, tr2)
                                else
                                  (case kfd_cma_iter_advance di1 n of
                                     Oops \<Rightarrow> Oops
                                   | Out_of_fuel \<Rightarrow> Out_of_fuel
                                   | Returns (err4, di2) \<Rightarrow>
                                       if err4 \<noteq> 0
                                       then Returns (err4, sz - n, copied + n, lfence1, si2, di2, tmp1, tr2)
                                       else kfd_copy_single_range_loop fuel' env cma_write
                                              (sz - n, copied + n, lfence1, si2, di2, tmp1, tr2))))))"

text \<open>
  \<^verbatim>\<open>kfd_copy_single_range\<close>. \<open>f_in\<close> and \<open>copied_in\<close> are what \<^verbatim>\<open>*f\<close> and \<^verbatim>\<open>*copied\<close> hold at the
  call: they are left as they are when the source iterator has no current buffer. The
  result is the return code, \<^verbatim>\<open>*f\<close>, \<^verbatim>\<open>*copied\<close>, the two iterators, \<^verbatim>\<open>*tmp_mem\<close> and the trace.
\<close>

definition kfd_copy_single_range ::
  "nat \<Rightarrow> kenv \<Rightarrow> cma_iter \<Rightarrow> cma_iter \<Rightarrow> bool \<Rightarrow> dma_fence option \<Rightarrow> u64 \<Rightarrow> kgd_mem \<Rightarrow> kevent list
     \<Rightarrow> (int \<times> dma_fence option \<times> u64 \<times> cma_iter \<times> cma_iter \<times> kgd_mem \<times> kevent list) outcome" where
  "kfd_copy_single_range fuel env si di cma_write f_in copied_in tmp_mem tr =
     (case ci_cur_bo si of
        None \<Rightarrow> Returns (- EINVAL, f_in, copied_in, si, di, tmp_mem, tr)
      | Some src_bo \<Rightarrow>
          (case kfd_copy_single_range_loop fuel env cma_write
                  (range_size (ci_array si 0), 0, None, si, di, tmp_mem, tr) of
             Oops \<Rightarrow> Oops
           | Out_of_fuel \<Rightarrow> Out_of_fuel
           | Returns (err, sz, copied, lfence, si1, di1, tmp1, tr1) \<Rightarrow>
               Returns (err, lfence, copied, si1, di1, tmp1,
                        dma_fence_put lfence (dma_fence_get lfence tr1))))"

subsection \<open>The request\<close>

record kfd_ioctl_cross_memory_copy_args =
  args_pid :: u32
  args_flags :: u32
  src_mem_range_array :: u64
  src_mem_array_size :: u64
  dst_mem_range_array :: u64
  dst_mem_array_size :: u64
  bytes_copied :: u64

text \<open>
  The loop \<^verbatim>\<open>while (!kfd_cma_iter_end(&si) && !kfd_cma_iter_end(&di))\<close> of
  \<^verbatim>\<open>kfd_ioctl_cross_memory_copy\<close>, with fuel. The state is the two iterators, \<^verbatim>\<open>lfence\<close>,
  \<^verbatim>\<open>copied\<close>, \<^verbatim>\<open>total_copied\<close>, \<^verbatim>\<open>tmp_mem\<close> and the trace; the result is \<^verbatim>\<open>err\<close> and the state
  when the loop is left.
\<close>

fun cross_memory_copy_loop ::
  "nat \<Rightarrow> kenv \<Rightarrow> bool
     \<Rightarrow> cma_iter \<times> cma_iter \<times> dma_fence option \<times> u64 \<times> u64 \<times> kgd_mem \<times> kevent list
     \<Rightarrow> (int \<times> cma_iter \<times> cma_iter \<times> dma_fence option \<times> u64 \<times> u64 \<times> kgd_mem \<times> kevent list) outcome"
  where
  "cross_memory_copy_loop fuel env cma_write (si, di, lfence, copied, total_copied, tmp_mem, tr) =
     (if kfd_cma_iter_end si \<or> kfd_cma_iter_end di
      then Returns (0, si, di, lfence, copied, total_copied, tmp_mem, tr)
      else case fuel of
        0 \<Rightarrow> Out_of_fuel
      | Suc fuel' \<Rightarrow>
          (case kfd_copy_single_range fuel' env si di cma_write None copied tmp_mem tr of
             Oops \<Rightarrow> Oops
           | Out_of_fuel \<Rightarrow> Out_of_fuel
           | Returns (err, fence, copied1, si1, di1, tmp1, tr1) \<Rightarrow>
               let total1 = total_copied + copied1
               in if err \<noteq> 0 then Returns (err, si1, di1, lfence, copied1, total1, tmp1, tr1)
                  else
                    (case new_fence_step env fence lfence tr1 of
                       Oops \<Rightarrow> Oops
                     | Out_of_fuel \<Rightarrow> Out_of_fuel
                     | Returns (err2, lfence1, tr2) \<Rightarrow>
                         if err2 \<noteq> 0
                         then Returns (err2, si1, di1, lfence1, copied1, total1, tmp1, tr2)
                         else cross_memory_copy_loop fuel' env cma_write
                                (si1, di1, lfence1, copied1, total1, tmp1, tr2))))"

text \<open>
  The labels at the end of \<^verbatim>\<open>kfd_ioctl_cross_memory_copy\<close>: what is released from each of
  them on, and the return with \<^verbatim>\<open>args->bytes_copied\<close> set to \<^verbatim>\<open>total_copied\<close>.
\<close>

definition copy_from_user_fail ::
  "int \<Rightarrow> u64 \<Rightarrow> kfd_ioctl_cross_memory_copy_args \<Rightarrow> kevent list
     \<Rightarrow> (int \<times> kfd_ioctl_cross_memory_copy_args \<times> kevent list) outcome" where
  "copy_from_user_fail err total_copied args tr =
     Returns (err, args \<lparr> bytes_copied := total_copied \<rparr>, tr @ [Kfree Range_array])"

definition get_pid_task_fail ::
  "pid_struct \<Rightarrow> int \<Rightarrow> u64 \<Rightarrow> kfd_ioctl_cross_memory_copy_args \<Rightarrow> kevent list
     \<Rightarrow> (int \<times> kfd_ioctl_cross_memory_copy_args \<times> kevent list) outcome" where
  "get_pid_task_fail remote_pid err total_copied args tr =
     copy_from_user_fail err total_copied args (tr @ [Put_pid remote_pid])"

definition mm_access_fail ::
  "task_struct option \<Rightarrow> pid_struct \<Rightarrow> int \<Rightarrow> u64 \<Rightarrow> kfd_ioctl_cross_memory_copy_args
     \<Rightarrow> kevent list \<Rightarrow> (int \<times> kfd_ioctl_cross_memory_copy_args \<times> kevent list) outcome" where
  "mm_access_fail remote_task remote_pid err total_copied args tr =
     get_pid_task_fail remote_pid err total_copied args (tr @ [Put_task_struct remote_task])"

definition kfd_process_fail ::
  "mm_struct \<Rightarrow> task_struct option \<Rightarrow> pid_struct \<Rightarrow> int \<Rightarrow> u64
     \<Rightarrow> kfd_ioctl_cross_memory_copy_args \<Rightarrow> kevent list
     \<Rightarrow> (int \<times> kfd_ioctl_cross_memory_copy_args \<times> kevent list) outcome" where
  "kfd_process_fail remote_mm remote_task remote_pid err total_copied args tr =
     mm_access_fail remote_task remote_pid err total_copied args (tr @ [Mmput remote_mm])"

text \<open>
  \<^verbatim>\<open>kfd_ioctl_cross_memory_copy\<close> from the test of \<^verbatim>\<open>remote_mm\<close> on: \<open>remote_mm\<close> is what
  \<^verbatim>\<open>kcl_mm_access\<close> returned for \<open>remote_task\<close>. A NULL process behind a pointer that
  \<^verbatim>\<open>IS_ERR\<close> lets pass is handed to the iterators as it is.
\<close>

definition cross_memory_copy_checked ::
  "nat \<Rightarrow> kenv \<Rightarrow> kfd_process \<Rightarrow> kfd_ioctl_cross_memory_copy_args
     \<Rightarrow> (nat \<Rightarrow> kfd_memory_range) \<Rightarrow> (nat \<Rightarrow> kfd_memory_range)
     \<Rightarrow> pid_struct \<Rightarrow> task_struct option \<Rightarrow> mm_struct kptr \<Rightarrow> kevent list
     \<Rightarrow> (int \<times> kfd_ioctl_cross_memory_copy_args \<times> kevent list) outcome" where
  "cross_memory_copy_checked fuel env local_p args src_array dst_array remote_pid remote_task
     remote_mm tr =
     (case remote_mm of
        NULL \<Rightarrow> mm_access_fail remote_task remote_pid (- ESRCH) 0 args tr
      | ERR_PTR e \<Rightarrow>
          mm_access_fail remote_task remote_pid (if e = - EACCES then - EPERM else e) 0 args tr
      | PTR mm \<Rightarrow>
          let got = kfd_get_process env (length tr) remote_task;
              tr1 = tr @ [Kfd_get_process remote_task]
          in if IS_ERR got
             then kfd_process_fail mm remote_task remote_pid (- EINVAL) 0 args tr1
             else
               let remote_p = (case got of PTR proc \<Rightarrow> Some proc | _ \<Rightarrow> None);
                   cma_write = KFD_IS_CROSS_MEMORY_WRITE (args_flags args);
                   dst_p = (if cma_write then remote_p else Some local_p);
                   dst_mm = (if cma_write then Some mm else current_mm env);
                   dst_task = (if cma_write then remote_task else Some (current_task env));
                   src_p = (if cma_write then Some local_p else remote_p);
                   src_mm = (if cma_write then current_mm env else Some mm);
                   src_task = (if cma_write then Some (current_task env) else remote_task)
               in (case kfd_cma_iter_init (Some dst_array) (dst_mem_array_size args)
                          dst_p dst_mm dst_task of
                     Oops \<Rightarrow> Oops
                   | Out_of_fuel \<Rightarrow> Out_of_fuel
                   | Returns (err, di0) \<Rightarrow>
                       (case di0 of
                          None \<Rightarrow> kfd_process_fail mm remote_task remote_pid err 0 args tr1
                        | Some di \<Rightarrow>
                            if err \<noteq> 0
                            then kfd_process_fail mm remote_task remote_pid err 0 args tr1
                            else
                              (case kfd_cma_iter_init (Some src_array) (src_mem_array_size args)
                                      src_p src_mm src_task of
                                 Oops \<Rightarrow> Oops
                               | Out_of_fuel \<Rightarrow> Out_of_fuel
                               | Returns (err1, si0) \<Rightarrow>
                                   (case si0 of
                                      None \<Rightarrow> kfd_process_fail mm remote_task remote_pid err1 0 args tr1
                                    | Some si \<Rightarrow>
                                        if err1 \<noteq> 0
                                        then kfd_process_fail mm remote_task remote_pid err1 0 args tr1
                                        else
                                          (case cross_memory_copy_loop fuel env cma_write
                                                  (si, di, None, 0, 0, 0, tr1) of
                                             Oops \<Rightarrow> Oops
                                           | Out_of_fuel \<Rightarrow> Out_of_fuel
                                           | Returns (err2, si1, di1, lfence, copied, total_copied,
                                                      tmp_mem, tr2) \<Rightarrow>
                                               (case (case lfence of
                                                        None \<Rightarrow> Returns (err2, tr2)
                                                      | Some f \<Rightarrow>
                                                          (case kfd_cma_fence_wait env lfence tr2 of
                                                             Oops \<Rightarrow> Oops
                                                           | Out_of_fuel \<Rightarrow> Out_of_fuel
                                                           | Returns (e, tr3) \<Rightarrow>
                                                               Returns (e, dma_fence_put lfence tr3))) of
                                                  Oops \<Rightarrow> Oops
                                                | Out_of_fuel \<Rightarrow> Out_of_fuel
                                                | Returns (err3, tr3) \<Rightarrow>
                                                    let tr4 = (if tmp_mem \<noteq> 0
                                                               then snd (kfd_destroy_kgd_mem env tmp_mem tr3)
                                                               else tr3)
                                                    in (case kfd_free_cma_bos si1 tr4 of
                                                          Oops \<Rightarrow> Oops
                                                        | Out_of_fuel \<Rightarrow> Out_of_fuel
                                                        | Returns (si2, tr5) \<Rightarrow>
                                                            (case kfd_free_cma_bos di1 tr5 of
                                                               Oops \<Rightarrow> Oops
                                                             | Out_of_fuel \<Rightarrow> Out_of_fuel
                                                             | Returns (di2, tr6) \<Rightarrow>
                                                                 kfd_process_fail mm remote_task
                                                                   remote_pid err3 total_copied args
                                                                   tr6)))))))))"

text \<open>
  \<^verbatim>\<open>kfd_ioctl_cross_memory_copy\<close>: the return code, the arguments as the call leaves them
  and the trace. After \<^verbatim>\<open>get_pid_task\<close> the source tests \<^verbatim>\<open>remote_pid\<close> once more, and not
  \<^verbatim>\<open>remote_task\<close>. The address space of the remote task is asked for with the mode
  \<^verbatim>\<open>PTRACE_MODE_ATTACH_REALCREDS\<close>.
\<close>

definition kfd_ioctl_cross_memory_copy ::
  "nat \<Rightarrow> kenv \<Rightarrow> kfd_process \<Rightarrow> kfd_ioctl_cross_memory_copy_args \<Rightarrow> kevent list
     \<Rightarrow> (int \<times> kfd_ioctl_cross_memory_copy_args \<times> kevent list) outcome" where
  "kfd_ioctl_cross_memory_copy fuel env local_p args0 tr =
     (if src_mem_range_array args0 = 0 \<or> dst_mem_range_array args0 = 0
         \<or> src_mem_array_size args0 = 0 \<or> dst_mem_array_size args0 = 0
      then Returns (- EINVAL, args0, tr)
      else
        let args = args0 \<lparr> bytes_copied := 0 \<rparr>;
            tr1 = tr @ [Kmalloc Range_array]
        in if \<not> kmalloc_ok env (length tr) Range_array then Returns (- ENOMEM, args, tr1)
           else
             let src = copy_ranges_from_user env (length tr1) (src_mem_range_array args)
                         (src_mem_array_size args);
                 tr2 = tr1 @ [Copy_from_user (src_mem_range_array args) (src_mem_array_size args)]
             in (case src of
                   None \<Rightarrow> copy_from_user_fail (- EFAULT) 0 args tr2
                 | Some src_array \<Rightarrow>
                     let dst = copy_ranges_from_user env (length tr2) (dst_mem_range_array args)
                                 (dst_mem_array_size args);
                         tr3 = tr2 @ [Copy_from_user (dst_mem_range_array args) (dst_mem_array_size args)]
                     in (case dst of
                           None \<Rightarrow> copy_from_user_fail (- EFAULT) 0 args tr3
                         | Some dst_array \<Rightarrow>
                             let remote_pid = find_get_pid env (length tr3) (args_pid args);
                                 tr4 = tr3 @ [Find_get_pid (args_pid args)]
                             in (case remote_pid of
                                   None \<Rightarrow> copy_from_user_fail (- ESRCH) 0 args tr4
                                 | Some pid_found \<Rightarrow>
                                     let remote_task = get_pid_task env (length tr4) pid_found;
                                         tr5 = tr4 @ [Get_pid_task pid_found]
                                     in if remote_pid = None
                                        then get_pid_task_fail pid_found (- ESRCH) 0 args tr5
                                        else
                                          let remote_mm = kcl_mm_access env (length tr5) remote_task
                                                            PTRACE_MODE_ATTACH_REALCREDS;
                                              tr6 = tr5 @ [Mm_access remote_task
                                                             PTRACE_MODE_ATTACH_REALCREDS]
                                          in cross_memory_copy_checked fuel env local_p args
                                               src_array dst_array pid_found remote_task
                                               remote_mm tr6))))"

subsection \<open>Sequences of calls and example data for the iterator\<close>

text \<open>
  The life of an iterator after its initialisation: a sequence of calls of
  \<^verbatim>\<open>kfd_cma_iter_advance\<close>, each made after the one before has returned 0, as the copy loops
  make them.
\<close>

fun advance_sequence :: "cma_iter \<Rightarrow> u64 list \<Rightarrow> (int \<times> cma_iter) outcome" where
  "advance_sequence ci [] = Returns (0, ci)"
| "advance_sequence ci (n # ns) =
     (case kfd_cma_iter_advance ci n of
        Oops \<Rightarrow> Oops
      | Out_of_fuel \<Rightarrow> Out_of_fuel
      | Returns (ret, ci') \<Rightarrow> if ret = 0 then advance_sequence ci' ns else Returns (ret, ci'))"

text \<open>The sum of the lengths of the first \<open>n\<close> ranges, as a natural number.\<close>

definition total_length :: "(nat \<Rightarrow> kfd_memory_range) \<Rightarrow> nat \<Rightarrow> nat" where
  "total_length arr n = (\<Sum>i<n. unat (range_size (arr i)))"

text \<open>
  A device, a buffer object of 64 KiB in device memory at the address \<open>0x10000\<close>, a process
  that owns this buffer alone and finds it for every interval that overlaps it, and a
  process that owns no buffer.
\<close>

definition dev_example :: kfd_dev where
  "dev_example = \<lparr> dev_kgd = 11 \<rparr>"

definition bo_example :: kfd_bo where
  "bo_example = \<lparr> bo_mem = 5, bo_dev = dev_example, mem_type = KFD_IOC_ALLOC_MEM_FLAGS_VRAM,
                   cpuva = 0, it_start = 0x10000, it_last = 0x1FFFF \<rparr>"

definition process_example :: kfd_process where
  "process_example =
     \<lparr> pasid = 21,
       kfd_process_find_bo_from_interval =
         (\<lambda>start last. if start \<le> it_last bo_example \<and> it_start bo_example \<le> last
                       then Some bo_example else None),
       kfd_get_process_device_data = (\<lambda>d. Some 31) \<rparr>"


text \<open>Two ranges of 4 KiB and 8 KiB inside the buffer, and one empty range.\<close>

definition ranges_example :: "nat \<Rightarrow> kfd_memory_range" where
  "ranges_example i =
     (if i = 0 then \<lparr> va_addr = 0x10000, range_size = 0x1000 \<rparr>
      else \<lparr> va_addr = 0x12000, range_size = 0x2000 \<rparr>)"



text \<open>One range that begins below the first address of the buffer and ends in it.\<close>

definition range_below_example :: "nat \<Rightarrow> kfd_memory_range" where
  "range_below_example i = \<lparr> va_addr = 0xF000, range_size = 0x2000 \<rparr>"

text \<open>The iterator over the two ranges, as \<^verbatim>\<open>kfd_cma_iter_init\<close> leaves it.\<close>

definition iter_example :: cma_iter where
  "iter_example =
     \<lparr> ci_array = ranges_example, ci_nr_segs = 2, ci_p = Some process_example,
       ci_mm = Some 41, ci_task = Some 51, ci_offset = 0, ci_cur_bo = Some bo_example,
       ci_bo_offset = 0, ci_total = 0x3000, ci_cma_bo = None, ci_cma_list = [] \<rparr>"

subsection \<open>Example data for the engine\<close>

text \<open>
  A kernel in which every allocation succeeds, every page can be pinned and copied, the
  process 1234 exists and may be attached to, every copy by a device copies all it is
  asked to and returns a fence in the context of that device, and every fence is
  signalled in time.
\<close>

definition env_example :: kenv where
  "env_example =
     \<lparr> kmalloc_ok = (\<lambda>t obj. True),
       copy_ranges_from_user = (\<lambda>t ptr n. Some ranges_example),
       find_get_pid = (\<lambda>t nr. if nr = 1234 then Some 61 else None),
       get_pid_task = (\<lambda>t pid. Some 51),
       kcl_mm_access = (\<lambda>t task mode. PTR 41),
       kfd_get_process = (\<lambda>t task. PTR process_example),
       current_mm = Some 42,
       current_task = 52,
       sg_alloc_table = (\<lambda>t n. 0),
       kcl_get_user_pages = (\<lambda>t task mm start nr_pages w. uint nr_pages),
       copy_user = (\<lambda>t w lva len. 0),
       alloc_memory_of_gpu = (\<lambda>t kgd sz vm sg. (0, 100 + t)),
       free_memory_of_gpu = (\<lambda>t kgd m. 0),
       copy_mem_to_mem =
         (\<lambda>t kgd src_mem src_offset dst_mem dst_offset sz.
            (0, Some \<lparr> fence_seqno = t, fence_context = of_nat kgd \<rparr>, sz)),
       dma_fence_wait_timeout = (\<lambda>t f. 250) \<rparr>"


text \<open>The same kernel when the task of the remote process has died.\<close>

definition env_task_died :: kenv where
  "env_task_died = env_example \<lparr> get_pid_task := (\<lambda>t pid. None) \<rparr>"

definition args_example :: kfd_ioctl_cross_memory_copy_args where
  "args_example =
     \<lparr> args_pid = 1234, args_flags = 0,
       src_mem_range_array = 0x7000, src_mem_array_size = 2,
       dst_mem_range_array = 0x8000, dst_mem_array_size = 2,
       bytes_copied = 77 \<rparr>"

text \<open>
  A second device, a buffer of 8 MiB in its memory, and a userptr buffer of 8 MiB of the
  first device; each with one iterator over a single range of 4 MiB, which is 1024
  pages.
\<close>

definition dev_second :: kfd_dev where
  "dev_second = \<lparr> dev_kgd = 12 \<rparr>"

definition bo_vram_second :: kfd_bo where
  "bo_vram_second =
     \<lparr> bo_mem = 6, bo_dev = dev_second, mem_type = KFD_IOC_ALLOC_MEM_FLAGS_VRAM,
       cpuva = 0, it_start = 0x2000000, it_last = 0x27FFFFF \<rparr>"

definition bo_vram_first :: kfd_bo where
  "bo_vram_first =
     \<lparr> bo_mem = 8, bo_dev = dev_example, mem_type = KFD_IOC_ALLOC_MEM_FLAGS_VRAM,
       cpuva = 0, it_start = 0x3000000, it_last = 0x37FFFFF \<rparr>"

definition bo_userptr :: kfd_bo where
  "bo_userptr =
     \<lparr> bo_mem = 7, bo_dev = dev_example, mem_type = 4,
       cpuva = 0x7F0000000000, it_start = 0x1000000, it_last = 0x17FFFFF \<rparr>"

definition iter_on :: "kfd_bo \<Rightarrow> cma_iter" where
  "iter_on bo =
     \<lparr> ci_array = (\<lambda>i. \<lparr> va_addr = it_start bo, range_size = 0x400000 \<rparr>),
       ci_nr_segs = 1, ci_p = Some process_example, ci_mm = Some 41, ci_task = Some 51,
       ci_offset = 0, ci_cur_bo = Some bo, ci_bo_offset = 0, ci_total = 0x400000,
       ci_cma_bo = None, ci_cma_list = [] \<rparr>"

text \<open>
  A second buffer of 8 MiB in the memory of the first device, the fence of the first copy
  by that device, and the iterator over the single range of 4 MiB once it is used up or
  half used.
\<close>

definition bo_vram_other :: kfd_bo where
  "bo_vram_other =
     \<lparr> bo_mem = 9, bo_dev = dev_example, mem_type = KFD_IOC_ALLOC_MEM_FLAGS_VRAM,
       cpuva = 0, it_start = 0x4000000, it_last = 0x47FFFFF \<rparr>"

definition fence_first :: dma_fence where
  "fence_first = \<lparr> fence_seqno = 0, fence_context = 11 \<rparr>"

definition iter_done :: "kfd_bo \<Rightarrow> cma_iter" where
  "iter_done bo = (iter_on bo) \<lparr> ci_nr_segs := 0, ci_offset := 0x400000, ci_total := 0 \<rparr>"

definition iter_half :: "kfd_bo \<Rightarrow> cma_iter" where
  "iter_half bo = (iter_on bo) \<lparr> ci_offset := 0x200000, ci_bo_offset := 0x200000,
                                ci_total := 0x200000 \<rparr>"

text \<open>
  The 1024 pinned pages of the userptr buffer, the shadow buffer made from them on the
  second device, and the fence of the copy that uses it.
\<close>

definition sg_example :: sg_table where
  "sg_example = \<lparr> sg_pa = 0x7F0000000000, sg_nents = 1024, sg_pinned = 1024 \<rparr>"

definition shadow_example :: cma_system_bo where
  "shadow_example = \<lparr> cbo_mem = 106, cbo_sg = Some sg_example, cbo_dev = dev_second \<rparr>"

definition fence_shadow :: dma_fence where
  "fence_shadow = \<lparr> fence_seqno = 7, fence_context = 12 \<rparr>"

text \<open>The fences of the copies of the two ranges of the example request.\<close>

definition fence_range_first :: dma_fence where
  "fence_range_first = \<lparr> fence_seqno = 7, fence_context = 11 \<rparr>"


text \<open>
  A process that owns the userptr buffer and the buffer in the memory of the second
  device, and a request to read two pages of the first into the second: one source range
  and one destination range of 8 KiB.
\<close>

definition process_userptr :: kfd_process where
  "process_userptr =
     \<lparr> pasid = 23,
       kfd_process_find_bo_from_interval =
         (\<lambda>start last. if start \<le> it_last bo_userptr \<and> it_start bo_userptr \<le> last
                       then Some bo_userptr
                       else if start \<le> it_last bo_vram_second \<and> it_start bo_vram_second \<le> last
                       then Some bo_vram_second else None),
       kfd_get_process_device_data = (\<lambda>d. Some 33) \<rparr>"

definition userptr_range :: "nat \<Rightarrow> kfd_memory_range" where
  "userptr_range i = \<lparr> va_addr = 0x1000000, range_size = 0x2000 \<rparr>"

definition vram_range :: "nat \<Rightarrow> kfd_memory_range" where
  "vram_range i = \<lparr> va_addr = 0x2000000, range_size = 0x2000 \<rparr>"

definition args_one_range :: kfd_ioctl_cross_memory_copy_args where
  "args_one_range =
     \<lparr> args_pid = 1234, args_flags = 0,
       src_mem_range_array = 0x7000, src_mem_array_size = 1,
       dst_mem_range_array = 0x8000, dst_mem_array_size = 1,
       bytes_copied = 0 \<rparr>"

definition env_userptr :: kenv where
  "env_userptr =
     env_example \<lparr> copy_ranges_from_user :=
                     (\<lambda>t ptr n. if ptr = 0x7000 then Some userptr_range else Some vram_range),
                   kfd_get_process := (\<lambda>t task. PTR process_userptr) \<rparr>"

text \<open>The two iterators of that request, as \<^verbatim>\<open>kfd_cma_iter_init\<close> leaves them.\<close>

definition iter_userptr_range :: cma_iter where
  "iter_userptr_range =
     \<lparr> ci_array = userptr_range, ci_nr_segs = 1, ci_p = Some process_userptr,
       ci_mm = Some 41, ci_task = Some 51, ci_offset = 0, ci_cur_bo = Some bo_userptr,
       ci_bo_offset = 0, ci_total = 0x2000, ci_cma_bo = None, ci_cma_list = [] \<rparr>"

definition iter_vram_range :: cma_iter where
  "iter_vram_range =
     \<lparr> ci_array = vram_range, ci_nr_segs = 1, ci_p = Some process_userptr,
       ci_mm = Some 42, ci_task = Some 52, ci_offset = 0, ci_cur_bo = Some bo_vram_second,
       ci_bo_offset = 0, ci_total = 0x2000, ci_cma_bo = None, ci_cma_list = [] \<rparr>"

text \<open>
  The same kernel when \<^verbatim>\<open>get_user_pages\<close> pins one page at each call, whatever the number
  asked for, and when only the first page of the userptr buffer can be pinned. With two
  pages asked for and one pinned, the scatter list has two entries and one page.
\<close>

definition env_partial_pin :: kenv where
  "env_partial_pin = env_userptr \<lparr> kcl_get_user_pages := (\<lambda>t task mm start nr_pages w. 1) \<rparr>"

definition env_page_unmapped :: kenv where
  "env_page_unmapped =
     env_userptr \<lparr> kcl_get_user_pages :=
       (\<lambda>t task mm start nr_pages w. if start = 0x7F0000000000 then 1 else 0) \<rparr>"

definition sg_partial :: sg_table where
  "sg_partial = \<lparr> sg_pa = 0x7F0000000000, sg_nents = 2, sg_pinned = 1 \<rparr>"

definition sg_rest :: sg_table where
  "sg_rest = \<lparr> sg_pa = 0x7F0000001000, sg_nents = 1, sg_pinned = 1 \<rparr>"

definition shadow_partial :: cma_system_bo where
  "shadow_partial = \<lparr> cbo_mem = 106, cbo_sg = Some sg_partial, cbo_dev = dev_second \<rparr>"

definition shadow_rest :: cma_system_bo where
  "shadow_rest = \<lparr> cbo_mem = 114, cbo_sg = Some sg_rest, cbo_dev = dev_second \<rparr>"

text \<open>
  A buffer of the first device in system memory (GTT), a process that owns it and the two
  buffers in the memory of the two devices, and a request to read one page of each device
  into it: the first copy is made by the first device and the second by the second, so
  that their fences are of different contexts.
\<close>

definition bo_gtt :: kfd_bo where
  "bo_gtt =
     \<lparr> bo_mem = 10, bo_dev = dev_example, mem_type = 2,
       cpuva = 0, it_start = 0x5000000, it_last = 0x57FFFFF \<rparr>"

definition process_devices :: kfd_process where
  "process_devices =
     \<lparr> pasid = 24,
       kfd_process_find_bo_from_interval =
         (\<lambda>start last. if start \<le> it_last bo_vram_first \<and> it_start bo_vram_first \<le> last
                       then Some bo_vram_first
                       else if start \<le> it_last bo_vram_second \<and> it_start bo_vram_second \<le> last
                       then Some bo_vram_second
                       else if start \<le> it_last bo_gtt \<and> it_start bo_gtt \<le> last
                       then Some bo_gtt else None),
       kfd_get_process_device_data = (\<lambda>d. Some 34) \<rparr>"

definition src_two_devices :: "nat \<Rightarrow> kfd_memory_range" where
  "src_two_devices i =
     (if i = 0 then \<lparr> va_addr = 0x3000000, range_size = 0x1000 \<rparr>
      else \<lparr> va_addr = 0x2000000, range_size = 0x1000 \<rparr>)"

definition dst_gtt :: "nat \<Rightarrow> kfd_memory_range" where
  "dst_gtt i =
     (if i = 0 then \<lparr> va_addr = 0x5000000, range_size = 0x1000 \<rparr>
      else \<lparr> va_addr = 0x5001000, range_size = 0x1000 \<rparr>)"

text \<open>
  The same kernel for that request, when no fence of the first device is signalled within
  the timeout and every other fence is.
\<close>

definition env_first_fence_late :: kenv where
  "env_first_fence_late =
     env_example \<lparr> copy_ranges_from_user :=
                     (\<lambda>t ptr n. if ptr = 0x7000 then Some src_two_devices else Some dst_gtt),
                   kfd_get_process := (\<lambda>t task. PTR process_devices),
                   dma_fence_wait_timeout := (\<lambda>t f. if fence_context f = 11 then 0 else 250) \<rparr>"

definition fence_second_device :: dma_fence where
  "fence_second_device = \<lparr> fence_seqno = 10, fence_context = 12 \<rparr>"

section \<open>Properties of the hardware queue descriptor operations\<close>

declare hqd_dump_regs.simps [simp del]
declare hqd_load_regs.simps [simp del]

subsection \<open>The guessed write pointer\<close>

lemma qs_mask: "n < 31 \<Longrightarrow> (push_bit n 2 :: u32) - 1 = mask (Suc n)"
  by (simp add: mask_eq_exp_minus_1 push_bit_eq_mult)

lemma ucast_qs: "n < 31 \<Longrightarrow> (ucast (push_bit n 2 :: u32) :: u64) = 2 ^ Suc n"
  apply (rule bit_word_eqI)
  apply (auto simp: bit_simps)
  done

lemma ucast_less: "((ucast (a::u32) :: u64) < ucast (b::u32)) = (a < b)"
  by (simp add: word_less_iff_unsigned[where 'a=nat] unsigned_ucast_eq take_bit_nat_eq_self unsigned_less[THEN less_trans])

lemma sum_is_or:
  assumes "k \<le> 32"
  shows "(ucast ((r::u32) AND mask k) :: u64) + ucast ((lo::u32) AND NOT (mask k)) + push_bit 32 (ucast (hi::u32))
     = ((push_bit 32 (ucast hi) OR ucast lo) AND NOT (mask k)) OR (ucast r AND mask k)"
proof -
  have d1: "(ucast (r AND mask k) :: u64) AND ucast (lo AND NOT (mask k)) = 0"
    by (rule bit_word_eqI) (auto simp: bit_simps)
  have d2: "((ucast (r AND mask k) :: u64) OR ucast (lo AND NOT (mask k))) AND push_bit 32 (ucast hi) = 0"
    using assms by (intro bit_word_eqI) (auto simp: bit_simps dest: bit_imp_le_length)
  have "(ucast (r AND mask k) :: u64) + ucast (lo AND NOT (mask k)) + push_bit 32 (ucast hi)
      = ((ucast (r AND mask k) :: u64) OR ucast (lo AND NOT (mask k))) OR push_bit 32 (ucast hi)"
    using d1 d2 by (simp add: disjunctive_add_eq_or)
  also have "\<dots> = ((push_bit 32 (ucast hi) OR ucast lo) AND NOT (mask k)) OR (ucast r AND mask k)"
    using assms by (intro bit_word_eqI) (auto simp: bit_simps dest: bit_imp_le_length)
  finally show ?thesis .
qed

lemma guessed_wptr_spec:
  assumes "n < 31"
  shows "guessed_wptr (push_bit n 2) m
       = wptr_by_spec (Suc n) (cp_hqd_pq_rptr m) (cp_hqd_pq_wptr_lo m) (cp_hqd_pq_wptr_hi m)"
proof -
  define A :: u64 where "A = ucast (cp_hqd_pq_rptr m AND mask (Suc n))"
  define B :: u64 where "B = ucast (cp_hqd_pq_wptr_lo m AND NOT (mask (Suc n)))"
  define C :: u64 where "C = push_bit 32 (ucast (cp_hqd_pq_wptr_hi m))"
  define R :: u64 where "R = ((push_bit 32 (ucast (cp_hqd_pq_wptr_hi m)) OR ucast (cp_hqd_pq_wptr_lo m))
                               AND NOT (mask (Suc n))) OR (ucast (cp_hqd_pq_rptr m) AND mask (Suc n))"
  define c where "c = (cp_hqd_pq_wptr_lo m AND mask (Suc n) < cp_hqd_pq_rptr m AND mask (Suc n))"
  have k: "Suc n \<le> 32" using assms by simp
  have s: "A + B + C = R"
    unfolding A_def B_def C_def R_def by (rule sum_is_or[OF k])
  have g: "guessed_wptr (push_bit n 2) m = (if c then A + 2 ^ Suc n else A) + B + C"
    unfolding guessed_wptr_def Let_def qs_mask[OF assms] ucast_qs[OF assms] ucast_less
      A_def B_def C_def c_def by (rule refl)
  have w: "wptr_by_spec (Suc n) (cp_hqd_pq_rptr m) (cp_hqd_pq_wptr_lo m) (cp_hqd_pq_wptr_hi m)
         = (if c then R + 2 ^ Suc n else R)"
    unfolding wptr_by_spec_def Let_def R_def c_def take_bit_eq_mask by (rule refl)
  show ?thesis
    unfolding g w using s by (cases c) (simp_all add: algebra_simps)
qed

lemma last_write_append:
  "last_write r (xs @ ys) =
     (case last_write r ys of Some v \<Rightarrow> Some v | None \<Rightarrow> last_write r xs)"
  by (induction xs) (auto split: option.splits hw_event.splits)

lemma upper_lower_32_bits: "push_bit 32 (ucast (upper_32_bits w)) OR ucast (lower_32_bits w) = w"
  unfolding upper_32_bits_def lower_32_bits_def
  by (rule bit_word_eqI) (auto simp: bit_simps)

lemma last_write_here:
  "last_write r rest = None \<Longrightarrow> last_write r (xs @ WREG32 r v # rest) = Some v"
  by (simp add: last_write_append)

lemma kgd_hqd_load_trace:
  assumes "num_pipe_per_mec adev \<noteq> 0"
  shows "\<exists>xs. kgd_hqd_load gc adev hw m pipe_id queue_id (Some wptr_addr) tr =
     Returns (0, xs @
       [WREG32 (reg_CP_HQD_PQ_WPTR_LO gc) (lower_32_bits (guessed_wptr (queue_size_of gc m) m)),
        WREG32 (reg_CP_HQD_PQ_WPTR_HI gc) (upper_32_bits (guessed_wptr (queue_size_of gc m) m)),
        WREG32 (reg_CP_HQD_PQ_WPTR_POLL_ADDR gc) (lower_32_bits wptr_addr),
        WREG32 (reg_CP_HQD_PQ_WPTR_POLL_ADDR_HI gc) (upper_32_bits wptr_addr),
        WREG32 (reg_CP_PQ_WPTR_POLL_CNTL1 gc) (get_queue_mask adev pipe_id queue_id),
        WREG32 (reg_CP_HQD_EOP_RPTR gc)
          (REG_SET_FIELD (cp_hqd_eop_rptr m) (CP_HQD_EOP_RPTR__INIT_FETCHER_MASK gc)
             (CP_HQD_EOP_RPTR__INIT_FETCHER_SHIFT gc) 1),
        WREG32 (reg_CP_HQD_ACTIVE gc)
          (REG_SET_FIELD (cp_hqd_active m) (CP_HQD_ACTIVE__ACTIVE_MASK gc)
             (CP_HQD_ACTIVE__ACTIVE_SHIFT gc) 1),
        Grbm_select 0 0 0 0, Mutex_unlock_srbm])"
  using assms
  by (simp add: kgd_hqd_load_def acquire_queue_def Let_def release_queue_def unlock_srbm_def)

text \<open>
  Claim C9. When a user write pointer address is given to \<open>kgd_hqd_load\<close>, the 64-bit
  write pointer left in the hardware is the saved 64-bit write pointer with its low
  \<open>log2 queue_size\<close> bits replaced by those of the saved 32-bit read pointer, plus one
  queue size exactly when the low bits of the saved write pointer are less than those
  read pointer bits. The queue size is \<open>2 << n\<close> for the queue size field \<open>n\<close>; it is a
  power of two that fits its \<^verbatim>\<open>uint32_t\<close> when \<open>n < 31\<close>. The write pointer registers
  are different from the registers written after them.
\<close>

theorem kgd_hqd_load_write_pointer:
  assumes pipes: "num_pipe_per_mec adev \<noteq> 0"
    and n: "n = unat (REG_GET_FIELD (cp_hqd_pq_control m)
                        (CP_HQD_PQ_CONTROL__QUEUE_SIZE_MASK gc)
                        (CP_HQD_PQ_CONTROL__QUEUE_SIZE_SHIFT gc))"
    and size: "n < 31"
    and lo: "reg_CP_HQD_PQ_WPTR_LO gc \<notin>
               {reg_CP_HQD_PQ_WPTR_HI gc, reg_CP_HQD_PQ_WPTR_POLL_ADDR gc,
                reg_CP_HQD_PQ_WPTR_POLL_ADDR_HI gc, reg_CP_PQ_WPTR_POLL_CNTL1 gc,
                reg_CP_HQD_EOP_RPTR gc, reg_CP_HQD_ACTIVE gc}"
    and hi: "reg_CP_HQD_PQ_WPTR_HI gc \<notin>
               {reg_CP_HQD_PQ_WPTR_POLL_ADDR gc,
                reg_CP_HQD_PQ_WPTR_POLL_ADDR_HI gc, reg_CP_PQ_WPTR_POLL_CNTL1 gc,
                reg_CP_HQD_EOP_RPTR gc, reg_CP_HQD_ACTIVE gc}"
  shows "wptr_programmed gc (kgd_hqd_load gc adev hw m pipe_id queue_id (Some wptr_addr) tr)
       = Some (wptr_by_spec (Suc n) (cp_hqd_pq_rptr m) (cp_hqd_pq_wptr_lo m) (cp_hqd_pq_wptr_hi m))"
proof -
  define g where "g = guessed_wptr (queue_size_of gc m) m"
  have q: "queue_size_of gc m = push_bit n 2"
    unfolding queue_size_of_def n by (rule refl)
  have gs: "g = wptr_by_spec (Suc n) (cp_hqd_pq_rptr m) (cp_hqd_pq_wptr_lo m) (cp_hqd_pq_wptr_hi m)"
    unfolding g_def q by (rule guessed_wptr_spec[OF size])
  define after_hi where "after_hi =
       [WREG32 (reg_CP_HQD_PQ_WPTR_POLL_ADDR gc) (lower_32_bits wptr_addr),
        WREG32 (reg_CP_HQD_PQ_WPTR_POLL_ADDR_HI gc) (upper_32_bits wptr_addr),
        WREG32 (reg_CP_PQ_WPTR_POLL_CNTL1 gc) (get_queue_mask adev pipe_id queue_id),
        WREG32 (reg_CP_HQD_EOP_RPTR gc)
          (REG_SET_FIELD (cp_hqd_eop_rptr m) (CP_HQD_EOP_RPTR__INIT_FETCHER_MASK gc)
             (CP_HQD_EOP_RPTR__INIT_FETCHER_SHIFT gc) 1),
        WREG32 (reg_CP_HQD_ACTIVE gc)
          (REG_SET_FIELD (cp_hqd_active m) (CP_HQD_ACTIVE__ACTIVE_MASK gc)
             (CP_HQD_ACTIVE__ACTIVE_SHIFT gc) 1),
        Grbm_select 0 0 0 0, Mutex_unlock_srbm]"
  obtain xs where r: "kgd_hqd_load gc adev hw m pipe_id queue_id (Some wptr_addr) tr =
      Returns (0, xs @ WREG32 (reg_CP_HQD_PQ_WPTR_LO gc) (lower_32_bits g)
                     # WREG32 (reg_CP_HQD_PQ_WPTR_HI gc) (upper_32_bits g) # after_hi)"
    using kgd_hqd_load_trace[OF pipes, of gc hw m pipe_id queue_id wptr_addr tr]
    unfolding g_def after_hi_def by auto
  have h0: "last_write (reg_CP_HQD_PQ_WPTR_HI gc) after_hi = None"
    using hi unfolding after_hi_def by simp
  have l0: "last_write (reg_CP_HQD_PQ_WPTR_LO gc)
              (WREG32 (reg_CP_HQD_PQ_WPTR_HI gc) (upper_32_bits g) # after_hi) = None"
    using lo unfolding after_hi_def by simp
  have h: "last_write (reg_CP_HQD_PQ_WPTR_HI gc)
             (xs @ WREG32 (reg_CP_HQD_PQ_WPTR_LO gc) (lower_32_bits g)
                 # WREG32 (reg_CP_HQD_PQ_WPTR_HI gc) (upper_32_bits g) # after_hi)
           = Some (upper_32_bits g)"
    using last_write_here[OF h0, of "xs @ [WREG32 (reg_CP_HQD_PQ_WPTR_LO gc) (lower_32_bits g)]"]
    by simp
  have l: "last_write (reg_CP_HQD_PQ_WPTR_LO gc)
             (xs @ WREG32 (reg_CP_HQD_PQ_WPTR_LO gc) (lower_32_bits g)
                 # WREG32 (reg_CP_HQD_PQ_WPTR_HI gc) (upper_32_bits g) # after_hi)
           = Some (lower_32_bits g)"
    by (rule last_write_here[OF l0])
  show ?thesis
    unfolding r gs[symmetric] by (simp only: wptr_programmed.simps h l option.case upper_lower_32_bits)
qed

theorem kgd_hqd_load_write_pointer_witness:
  "num_pipe_per_mec adev_example \<noteq> 0
   \<and> unat (REG_GET_FIELD (cp_hqd_pq_control mqd_example)
              (CP_HQD_PQ_CONTROL__QUEUE_SIZE_MASK gc_example)
              (CP_HQD_PQ_CONTROL__QUEUE_SIZE_SHIFT gc_example)) = 9
   \<and> wptr_programmed gc_example
        (kgd_hqd_load gc_example adev_example hw_example mqd_example 0 0 (Some 0x1000) [])
       = Some 0x100000923"
proof -
  have f: "(9::nat) = unat (REG_GET_FIELD (cp_hqd_pq_control mqd_example)
              (CP_HQD_PQ_CONTROL__QUEUE_SIZE_MASK gc_example)
              (CP_HQD_PQ_CONTROL__QUEUE_SIZE_SHIFT gc_example))"
    by (simp add: REG_GET_FIELD_def mqd_example_def gc_example_def)
  have p: "num_pipe_per_mec adev_example \<noteq> 0" by (simp add: adev_example_def)
  have w: "wptr_by_spec (Suc 9) (cp_hqd_pq_rptr mqd_example) (cp_hqd_pq_wptr_lo mqd_example)
             (cp_hqd_pq_wptr_hi mqd_example) = 0x100000923"
    by (simp add: wptr_by_spec_def mqd_example_def Let_def mask_numeral)
  have lo: "reg_CP_HQD_PQ_WPTR_LO gc_example \<notin>
               {reg_CP_HQD_PQ_WPTR_HI gc_example, reg_CP_HQD_PQ_WPTR_POLL_ADDR gc_example,
                reg_CP_HQD_PQ_WPTR_POLL_ADDR_HI gc_example, reg_CP_PQ_WPTR_POLL_CNTL1 gc_example,
                reg_CP_HQD_EOP_RPTR gc_example, reg_CP_HQD_ACTIVE gc_example}"
    by (simp add: gc_example_def)
  have hi: "reg_CP_HQD_PQ_WPTR_HI gc_example \<notin>
               {reg_CP_HQD_PQ_WPTR_POLL_ADDR gc_example,
                reg_CP_HQD_PQ_WPTR_POLL_ADDR_HI gc_example, reg_CP_PQ_WPTR_POLL_CNTL1 gc_example,
                reg_CP_HQD_EOP_RPTR gc_example, reg_CP_HQD_ACTIVE gc_example}"
    by (simp add: gc_example_def)
  have s: "(9::nat) < 31" by simp
  show ?thesis
    using kgd_hqd_load_write_pointer[OF p f s lo hi, of hw_example 0 0 "0x1000" "[]"] p f[symmetric]
    by (simp only: w simp_thms)
qed

subsection \<open>Destroying a queue during a reset\<close>

text \<open>
  Claim C7. When the device is in reset, \<open>kgd_hqd_destroy\<close> returns \<open>- EIO\<close> at once: the
  trace is the one it was given, so the slot lock was not taken and no register was
  written.
\<close>

theorem kgd_hqd_destroy_in_reset:
  "in_gpu_reset adev \<Longrightarrow>
   kgd_hqd_destroy fuel gc adev hw m reset_type utimeout pipe_id queue_id tr = Returns (- EIO, tr)"
  by (simp add: kgd_hqd_destroy_def)

theorem kgd_hqd_destroy_in_reset_witness:
  "in_gpu_reset adev_in_reset \<and>
   kgd_hqd_destroy 5 gc_example adev_in_reset hw_example mqd_example
     KFD_PREEMPT_TYPE_WAVEFRONT_DRAIN 10 0 0 [] = Returns (- EIO, [])"
proof -
  have r: "in_gpu_reset adev_in_reset" by (simp add: adev_in_reset_def)
  show ?thesis
    using r kgd_hqd_destroy_in_reset[OF r, of 5 gc_example hw_example mqd_example
        KFD_PREEMPT_TYPE_WAVEFRONT_DRAIN 10 0 0 "[]"]
    by simp
qed

subsection \<open>Dumping a queue\<close>

lemma hqd_dump_regs_closed:
  assumes "i \<le> HQD_N_REGS"
  shows "hqd_dump_regs hw reg last_reg (i, dump, tr) =
     (let n = min (Suc last_reg - reg) (HQD_N_REGS - i) in
      (i + n,
       dump @ map (\<lambda>r. (push_bit 2 (of_nat r), rreg hw (length tr + (r - reg)) r)) [reg..<reg + n],
       tr @ map RREG32 [reg..<reg + n] @ replicate (Suc last_reg - reg - n) Warn_on_once))"
  using assms
proof (induction "Suc last_reg - reg" arbitrary: reg i dump tr)
  case 0
  then have "\<not> reg \<le> last_reg" by simp
  then show ?case using 0 by (simp add: hqd_dump_regs.simps)
next
  case (Suc c)
  then have le: "reg \<le> last_reg" and c: "c = Suc last_reg - Suc reg" by simp_all
  show ?case
  proof (cases "i \<ge> HQD_N_REGS")
    case True
    then have i: "i = HQD_N_REGS" using Suc.prems by simp
    have "hqd_dump_regs hw reg last_reg (i, dump, tr)
        = hqd_dump_regs hw (Suc reg) last_reg (i, dump, tr @ [Warn_on_once])"
      using le True by (subst hqd_dump_regs.simps) simp
    also have "\<dots> = (i, dump, (tr @ [Warn_on_once]) @ replicate (Suc last_reg - Suc reg) Warn_on_once)"
      using Suc.hyps(1)[OF c Suc.prems, of dump "tr @ [Warn_on_once]"] i by simp
    finally show ?thesis using i le
      by (simp add: Suc_diff_le replicate_append_same)
  next
    case False
    then have lt: "i < HQD_N_REGS" by simp
    define n' where "n' = min (Suc last_reg - Suc reg) (HQD_N_REGS - Suc i)"
    have n: "min (Suc last_reg - reg) (HQD_N_REGS - i) = Suc n'"
      using le lt unfolding n'_def by auto
    have "hqd_dump_regs hw reg last_reg (i, dump, tr)
        = hqd_dump_regs hw (Suc reg) last_reg
            (Suc i, dump @ [(push_bit 2 (of_nat reg), rreg hw (length tr) reg)], tr @ [RREG32 reg])"
      using le False by (subst hqd_dump_regs.simps) simp
    also have "\<dots> = (Suc i + n',
        (dump @ [(push_bit 2 (of_nat reg), rreg hw (length tr) reg)]) @
          map (\<lambda>r. (push_bit 2 (of_nat r), rreg hw (length (tr @ [RREG32 reg]) + (r - Suc reg)) r))
            [Suc reg..<Suc reg + n'],
        (tr @ [RREG32 reg]) @ map RREG32 [Suc reg..<Suc reg + n'] @
          replicate (Suc last_reg - Suc reg - n') Warn_on_once)"
      using Suc.hyps(1)[OF c, of "Suc i"] lt unfolding n'_def by (simp add: Let_def)
    also have "map (\<lambda>r. (push_bit 2 (of_nat r) :: u32, rreg hw (length (tr @ [RREG32 reg]) + (r - Suc reg)) r))
            [Suc reg..<Suc reg + n']
          = map (\<lambda>r. (push_bit 2 (of_nat r), rreg hw (length tr + (r - reg)) r)) [Suc reg..<Suc reg + n']"
    proof (rule map_cong[OF refl])
      fix r assume "r \<in> set [Suc reg..<Suc reg + n']"
      then have "length (tr @ [RREG32 reg]) + (r - Suc reg) = length tr + (r - reg)" by auto
      then show "(push_bit 2 (of_nat r) :: u32, rreg hw (length (tr @ [RREG32 reg]) + (r - Suc reg)) r)
               = (push_bit 2 (of_nat r), rreg hw (length tr + (r - reg)) r)"
        by (simp only:)
    qed
    finally have step: "hqd_dump_regs hw reg last_reg (i, dump, tr) =
        (Suc i + n',
         (dump @ [(push_bit 2 (of_nat reg), rreg hw (length tr) reg)]) @
           map (\<lambda>r. (push_bit 2 (of_nat r), rreg hw (length tr + (r - reg)) r)) [Suc reg..<Suc reg + n'],
         (tr @ [RREG32 reg]) @ map RREG32 [Suc reg..<Suc reg + n'] @
           replicate (Suc last_reg - Suc reg - n') Warn_on_once)" .
    have u: "[reg..<reg + Suc n'] = reg # [Suc reg..<Suc reg + n']"
      by (simp add: upt_conv_Cons del: upt_Suc)
    have r: "Suc last_reg - reg - Suc n' = Suc last_reg - Suc reg - n'" by simp
    show ?thesis
      unfolding Let_def n u r step by (simp del: upt_Suc)
  qed
qed


lemma kgd_hqd_dump_closed:
  assumes "num_pipe_per_mec adev \<noteq> 0"
  shows "kgd_hqd_dump gc adev hw True pipe_id queue_id tr =
     (let first = reg_CP_MQD_BASE_ADDR gc;
          count = Suc (reg_CP_HQD_PQ_WPTR_HI gc) - first;
          n = min count HQD_N_REGS;
          tr1 = tr @ [Mutex_lock_srbm,
                      Grbm_select (pipe_id div num_pipe_per_mec adev + 1)
                        (pipe_id mod num_pipe_per_mec adev) queue_id 0]
      in Returns (0,
           Some (map (\<lambda>r. (push_bit 2 (of_nat r), rreg hw (length tr1 + (r - first)) r))
                   [first..<first + n],
                 of_nat n),
           tr1 @ map RREG32 [first..<first + n] @ replicate (count - n) Warn_on_once
             @ [Grbm_select 0 0 0 0, Mutex_unlock_srbm]
             @ (if n \<noteq> HQD_N_REGS then [Warn_on_once] else [])))"
proof -
  have z: "(0::nat) \<le> HQD_N_REGS" by simp
  show ?thesis
    using assms
    unfolding kgd_hqd_dump_def acquire_queue_def lock_srbm_def release_queue_def unlock_srbm_def
      hqd_dump_regs_closed[OF z]
    by (simp add: Let_def)
qed

text \<open>
  Claim C8, as the code has it. \<open>kgd_hqd_dump\<close> returns \<open>- ENOMEM\<close> when the array cannot be
  allocated. Otherwise it takes the slot lock, reads the registers of the block in
  order, stores the pair of four times the register offset and the value read for the
  first \<open>HQD_N_REGS = 56\<close> of them, warns for each register beyond the cap, releases the
  lock and returns 0 with the number of pairs stored.
\<close>

theorem kgd_hqd_dump_capped:
  assumes "num_pipe_per_mec adev \<noteq> 0"
  shows "kgd_hqd_dump gc adev hw False pipe_id queue_id tr = Returns (- ENOMEM, None, tr)
    \<and> kgd_hqd_dump gc adev hw True pipe_id queue_id tr =
     (let first = reg_CP_MQD_BASE_ADDR gc;
          count = Suc (reg_CP_HQD_PQ_WPTR_HI gc) - first;
          n = min count HQD_N_REGS;
          tr1 = tr @ [Mutex_lock_srbm,
                      Grbm_select (pipe_id div num_pipe_per_mec adev + 1)
                        (pipe_id mod num_pipe_per_mec adev) queue_id 0]
      in Returns (0,
           Some (map (\<lambda>r. (push_bit 2 (of_nat r), rreg hw (length tr1 + (r - first)) r))
                   [first..<first + n],
                 of_nat n),
           tr1 @ map RREG32 [first..<first + n] @ replicate (count - n) Warn_on_once
             @ [Grbm_select 0 0 0 0, Mutex_unlock_srbm]
             @ (if n \<noteq> HQD_N_REGS then [Warn_on_once] else [])))"
  using kgd_hqd_dump_closed[OF assms] by (simp add: kgd_hqd_dump_def)

theorem kgd_hqd_dump_capped_witness:
  "num_pipe_per_mec adev_example \<noteq> 0
   \<and> map_option (\<lambda>(r, out, tr). (r, map_option snd out))
        (returned (kgd_hqd_dump gc_example_57 adev_example hw_example True 0 0 []))
     = Some (0, Some 56)
   \<and> kgd_hqd_dump gc_example_57 adev_example hw_example False 0 0 [] = Returns (- ENOMEM, None, [])"
proof -
  have p: "num_pipe_per_mec adev_example \<noteq> 0" by (simp add: adev_example_def)
  show ?thesis
    using kgd_hqd_dump_capped[OF p, of gc_example_57 hw_example 0 0 "[]"] p
    by (simp add: Let_def gc_example_57_def gc_example_def HQD_N_REGS_def)
qed


text \<open>
  Claim C8 as stated fails: on a block of 57 registers, one more than the cap, the
  operation returns 0 and not an error.
\<close>

theorem kgd_hqd_dump_no_capacity_error:
  "HQD_N_REGS < Suc (reg_CP_HQD_PQ_WPTR_HI gc_example_57) - reg_CP_MQD_BASE_ADDR gc_example_57
   \<and> map_option fst (returned (kgd_hqd_dump gc_example_57 adev_example hw_example True 0 0 []))
     = Some 0"
proof -
  have p: "num_pipe_per_mec adev_example \<noteq> 0" by (simp add: adev_example_def)
  show ?thesis
    unfolding kgd_hqd_dump_closed[OF p]
    by (simp add: Let_def gc_example_57_def gc_example_def HQD_N_REGS_def)
qed

section \<open>Properties of the iterator over the ranges\<close>

lemma advance_total:
  assumes "kfd_cma_iter_advance ci n = Returns (0, ci')"
  shows "unat n + unat (ci_total ci') = unat (ci_total ci)"
proof -
  have le: "n \<le> ci_total ci"
    using assms by (auto simp: kfd_cma_iter_advance_def Let_def EFAULT_def split: if_splits)
  have t: "ci_total ci' = ci_total ci - n"
    using assms
    by (auto simp: kfd_cma_iter_advance_def kfd_cma_iter_update_bo_def Let_def EFAULT_def
        split: if_splits option.splits outcome.splits)
  show ?thesis unfolding t using le by (simp add: unat_sub word_le_nat_alt)
qed

lemma advance_sequence_total:
  "advance_sequence ci ns = Returns (0, ci') \<Longrightarrow>
   sum_list (map unat ns) + unat (ci_total ci') = unat (ci_total ci)"
proof (induction ns arbitrary: ci)
  case Nil
  then show ?case by simp
next
  case (Cons n ns)
  from Cons.prems obtain ci1 where
    a: "kfd_cma_iter_advance ci n = Returns (0, ci1)" and
    r: "advance_sequence ci1 ns = Returns (0, ci')"
    by (auto split: outcome.splits if_splits)
  show ?case
    using Cons.IH[OF r] advance_total[OF a] by simp
qed

lemma sum_range_sizes_le: "unat (sum_range_sizes arr n) \<le> total_length arr n"
proof (induction n)
  case 0
  then show ?case by (simp add: total_length_def)
next
  case (Suc n)
  have "unat (sum_range_sizes arr n + range_size (arr n))
      \<le> unat (sum_range_sizes arr n) + unat (range_size (arr n))"
    by (simp add: unat_word_ariths)
  then show ?case using Suc by (simp add: total_length_def)
qed

lemma init_total:
  assumes "kfd_cma_iter_init (Some arr) segs p mm task = Returns (0, Some ci)"
  shows "ci_total ci = sum_range_sizes arr (unat segs)"
  using assms
  by (auto simp: kfd_cma_iter_init_def kfd_cma_iter_update_bo_def Let_def
      split: if_splits option.splits outcome.splits)

lemma find_bo_example:
  "start \<le> 0x1FFFF \<Longrightarrow> 0x10000 \<le> last' \<Longrightarrow>
   kfd_process_find_bo_from_interval process_example start last' = Some bo_example"
  by (simp add: process_example_def bo_example_def)

lemma init_example:
  "kfd_cma_iter_init (Some ranges_example) 2 (Some process_example) (Some 41) (Some 51)
     = Returns (0, Some iter_example)"
proof -
  have f: "kfd_process_find_bo_from_interval process_example 0x10000 0x10FFF = Some bo_example"
    by (rule find_bo_example) simp_all
  have s: "sum_range_sizes ranges_example (Suc (Suc 0)) = 0x3000"
    by (simp add: ranges_example_def)
  have l: "it_last bo_example = 0x1FFFF" "it_start bo_example = 0x10000"
    by (simp_all add: bo_example_def)
  have r: "ranges_example 0 = \<lparr> va_addr = 0x10000, range_size = 0x1000 \<rparr>"
    "ranges_example (Suc 0) = \<lparr> va_addr = 0x12000, range_size = 0x2000 \<rparr>"
    by (simp_all add: ranges_example_def)
  have n: "unat (2::u64) = Suc (Suc 0)" by simp
  show ?thesis
    unfolding kfd_cma_iter_init_def kfd_cma_iter_update_bo_def n
    by (simp add: Let_def r f l iter_example_def)
qed

lemma advance_example:
  "\<exists>ci'. advance_sequence iter_example [0x800, 0x800, 0x2000] = Returns (0, ci')"
proof -
  have f: "kfd_process_find_bo_from_interval process_example 0x12000 0x13FFF = Some bo_example"
    by (rule find_bo_example) simp_all
  have l: "it_last bo_example = 0x1FFFF" "it_start bo_example = 0x10000"
    by (simp_all add: bo_example_def)
  have r: "ranges_example 0 = \<lparr> va_addr = 0x10000, range_size = 0x1000 \<rparr>"
    "ranges_example (Suc 0) = \<lparr> va_addr = 0x12000, range_size = 0x2000 \<rparr>"
    by (simp_all add: ranges_example_def)
  show ?thesis
    by (simp add: iter_example_def kfd_cma_iter_advance_def kfd_cma_iter_update_bo_def Let_def r f l)
qed


text \<open>
  Claim C3. A call of \<open>kfd_cma_iter_advance\<close> with a byte count above the remaining total,
  or that leaves the offset in the current range above the size of that range, returns
  \<open>- EFAULT\<close>. So, after an initialisation that succeeded, the byte counts of any sequence
  of calls that all returned 0 add up to the remaining total at the start minus the one at
  the end, which is at most the sum of the lengths of the ranges. And \<open>kfd_cma_iter_end\<close>
  holds exactly when the remaining total is zero or no range remains.
\<close>

theorem kfd_cma_iter_bounds:
  "(sz > ci_total ci \<or> ci_offset ci + sz > range_size (ci_array ci 0) \<longrightarrow>
      kfd_cma_iter_advance ci sz = Returns (- EFAULT, ci \<lparr> ci_offset := ci_offset ci + sz \<rparr>))
   \<and> (kfd_cma_iter_init (Some arr) segs p mm task = Returns (0, Some ci0) \<longrightarrow>
      advance_sequence ci0 ns = Returns (0, ci') \<longrightarrow>
      sum_list (map unat ns) + unat (ci_total ci') = unat (ci_total ci0)
      \<and> sum_list (map unat ns) \<le> total_length arr (unat segs))
   \<and> (kfd_cma_iter_end ci \<longleftrightarrow> ci_total ci = 0 \<or> ci_nr_segs ci = 0)"
proof (intro conjI impI)
  assume "sz > ci_total ci \<or> ci_offset ci + sz > range_size (ci_array ci 0)"
  then show "kfd_cma_iter_advance ci sz = Returns (- EFAULT, ci \<lparr> ci_offset := ci_offset ci + sz \<rparr>)"
    by (auto simp: kfd_cma_iter_advance_def Let_def)
next
  assume i: "kfd_cma_iter_init (Some arr) segs p mm task = Returns (0, Some ci0)"
    and a: "advance_sequence ci0 ns = Returns (0, ci')"
  show s: "sum_list (map unat ns) + unat (ci_total ci') = unat (ci_total ci0)"
    by (rule advance_sequence_total[OF a])
  have "unat (ci_total ci0) \<le> total_length arr (unat segs)"
    unfolding init_total[OF i] by (rule sum_range_sizes_le)
  then show "sum_list (map unat ns) \<le> total_length arr (unat segs)"
    using s by linarith
next
  show "kfd_cma_iter_end ci \<longleftrightarrow> ci_total ci = 0 \<or> ci_nr_segs ci = 0"
    by (auto simp: kfd_cma_iter_end_def)
qed

theorem kfd_cma_iter_bounds_witness:
  "ci_total iter_example < 0x3001
   \<and> kfd_cma_iter_advance iter_example 0x3001
       = Returns (- EFAULT, iter_example \<lparr> ci_offset := ci_offset iter_example + 0x3001 \<rparr>)
   \<and> map_option fst (returned (kfd_cma_iter_init (Some ranges_example) 2 (Some process_example)
        (Some 41) (Some 51))) = Some 0
   \<and> map_option fst (returned (advance_sequence iter_example [0x800, 0x800, 0x2000])) = Some 0
   \<and> sum_list (map unat [0x800, 0x800, 0x2000 :: u64]) \<le> total_length ranges_example (unat (2::u64))
   \<and> (kfd_cma_iter_end iter_example \<longleftrightarrow> False)"
proof -
  obtain ci' where a: "advance_sequence iter_example [0x800, 0x800, 0x2000] = Returns (0, ci')"
    using advance_example by blast
  have t: "ci_total iter_example < 0x3001" by (simp add: iter_example_def)
  note w = kfd_cma_iter_bounds[where sz="0x3001" and ci=iter_example and arr=ranges_example
      and segs=2 and p="Some process_example" and mm="Some 41" and task="Some 51"
      and ?ci0.0=iter_example and ns="[0x800, 0x800, 0x2000]" and ci'=ci']
  have w1: "kfd_cma_iter_advance iter_example 0x3001
       = Returns (- EFAULT, iter_example \<lparr> ci_offset := ci_offset iter_example + 0x3001 \<rparr>)"
    using w t by blast
  have w2: "sum_list (map unat [0x800, 0x800, 0x2000 :: u64]) \<le> total_length ranges_example (unat (2::u64))"
    using w init_example a by blast
  have "kfd_cma_iter_end iter_example \<longleftrightarrow> ci_total iter_example = 0 \<or> ci_nr_segs iter_example = 0"
    using w by blast
  then have w3: "kfd_cma_iter_end iter_example \<longleftrightarrow> False"
    by (simp add: iter_example_def)
  have i: "map_option fst (returned (kfd_cma_iter_init (Some ranges_example) 2 (Some process_example)
        (Some 41) (Some 51))) = Some 0"
    unfolding init_example by simp
  have s: "map_option fst (returned (advance_sequence iter_example [0x800, 0x800, 0x2000])) = Some 0"
    unfolding a by simp
  show ?thesis
    using t w1 i s w2 w3 by blast
qed



text \<open>
  The case the theorem leaves out, in which the code does not do what the claim says: the
  only test of \<open>kfd_cma_iter_update_bo\<close> is that the interval does not end beyond the last
  address of the buffer object found. For a range of 8 KiB that begins 4 KiB below the
  buffer and ends in it, the lookup finds the buffer, which the interval overlaps, and the
  initialisation returns 0 with an offset in the buffer that has wrapped around.
\<close>

lemma kfd_cma_iter_init_below_start:
  "va_addr (range_below_example 0) < it_start bo_example
   \<and> kfd_process_find_bo_from_interval process_example 0xF000 0x10FFF = Some bo_example
   \<and> kfd_cma_iter_init (Some range_below_example) 1 (Some process_example) (Some 41) (Some 51)
     = Returns (0, Some \<lparr> ci_array = range_below_example, ci_nr_segs = 1,
                          ci_p = Some process_example, ci_mm = Some 41, ci_task = Some 51,
                          ci_offset = 0, ci_cur_bo = Some bo_example,
                          ci_bo_offset = 0xFFFFFFFFFFFFF000, ci_total = 0x2000,
                          ci_cma_bo = None, ci_cma_list = [] \<rparr>)"
  by (simp add: kfd_cma_iter_init_def kfd_cma_iter_update_bo_def Let_def
      range_below_example_def process_example_def bo_example_def)


section \<open>Properties of the cross memory attach engine\<close>

subsection \<open>The trace only grows\<close>

text \<open>
  Every function of the engine adds events at the end of the trace and removes none: the
  trace it returns has the trace it was given as a prefix.
\<close>

lemma prefix_snoc_list: "prefix tr (tr @ ys)"
  by simp

lemma prefix_step: "prefix tr tr1 \<Longrightarrow> prefix tr (tr1 @ ys)"
  by (metis prefix_order.trans prefix_snoc_list)

lemma dma_fence_put_prefix: "prefix tr (dma_fence_put f tr)"
  by (simp add: dma_fence_put_def split: option.splits)

lemma dma_fence_get_prefix: "prefix tr (dma_fence_get f tr)"
  by (simp add: dma_fence_get_def split: option.splits)

lemma kfd_cma_fence_wait_prefix:
  "kfd_cma_fence_wait env f tr = Returns (r, tr') \<Longrightarrow> prefix tr tr'"
  by (auto simp: kfd_cma_fence_wait_def Let_def split: option.splits if_splits)

lemma kfd_fence_put_wait_if_diff_context_prefix:
  "kfd_fence_put_wait_if_diff_context env cf pf tr = Returns (r, tr') \<Longrightarrow> prefix tr tr'"
  by (auto simp: kfd_fence_put_wait_if_diff_context_def dma_fence_put_def
      split: option.splits if_splits outcome.splits
      dest!: kfd_cma_fence_wait_prefix intro: prefix_step)

lemma new_fence_step_prefix:
  "new_fence_step env fence lfence tr = Returns (r, l, tr') \<Longrightarrow> prefix tr tr'"
  by (auto simp: new_fence_step_def split: option.splits outcome.splits
      dest: kfd_fence_put_wait_if_diff_context_prefix)

lemma kfd_create_sg_table_from_userptr_bo_prefix:
  "kfd_create_sg_table_from_userptr_bo env bo offset w mm task sz tr = Returns (r, s1, s2, sg, tr')
   \<Longrightarrow> prefix tr tr'"
  by (auto simp: kfd_create_sg_table_from_userptr_bo_def Let_def split: option.splits if_splits)

lemma kfd_put_sg_table_prefix: "kfd_put_sg_table sg tr = Returns tr' \<Longrightarrow> prefix tr tr'"
  by (auto simp: kfd_put_sg_table_def split: if_splits)

lemma cma_system_bo_pdd_fail_prefix:
  "cma_system_bo_pdd_fail ret sz sg tr = Returns (r, s1, cbo, tr') \<Longrightarrow> prefix tr tr'"
  by (auto simp: cma_system_bo_pdd_fail_def split: option.splits outcome.splits
      dest!: kfd_put_sg_table_prefix intro: prefix_step)


lemma kfd_create_cma_system_bo_prefix:
  assumes "kfd_create_cma_system_bo env kdev bo sz offset w p mm task tr = Returns (r, s1, cbo, tr')"
  shows "prefix tr tr'"
proof -
  have ap: "\<And>a b c :: kevent list. prefix (a @ b) c \<Longrightarrow> prefix a c"
    by (rule append_prefixD)
  show ?thesis
    using assms
    unfolding kfd_create_cma_system_bo_def Let_def
    apply (simp split: if_split_asm outcome.splits option.splits prod.splits)
           apply (auto dest!: kfd_create_sg_table_from_userptr_bo_prefix kfd_cma_fence_wait_prefix
        cma_system_bo_pdd_fail_prefix ap
        intro: prefix_step prefix_order.trans[OF _ dma_fence_put_prefix]
        elim: prefix_order.trans[rotated])
    done
qed

lemma userptr_copy_pages_prefix:
  "userptr_copy_pages env w k (a, b, c, d, e, tr) = (r, a', b', c', d', e', tr') \<Longrightarrow> prefix tr tr'"
proof (induction k arbitrary: a b c d e tr)
  case 0
  then show ?case by simp
next
  case (Suc k)
  show ?case
    using Suc.prems
    by (auto simp: Let_def split: if_splits dest!: Suc.IH elim: prefix_order.trans[rotated])
qed


lemma prefix_after: "prefix tr1 tr' \<Longrightarrow> prefix tr tr1 \<Longrightarrow> prefix tr tr'"
  by (rule prefix_order.trans)

lemma dma_fence_put_prefix_after: "prefix tr b \<Longrightarrow> prefix tr (dma_fence_put f b)"
  using dma_fence_put_prefix prefix_order.trans by blast

lemma dma_fence_get_prefix_after: "prefix tr b \<Longrightarrow> prefix tr (dma_fence_get f b)"
  using dma_fence_get_prefix prefix_order.trans by blast

declare userptr_copy_loop.simps [simp del]
declare kfd_copy_single_range_loop.simps [simp del]
declare cross_memory_copy_loop.simps [simp del]

lemma userptr_copy_loop_prefix:
  "userptr_copy_loop fuel env ri w (n, a, b, c, d, e, tr) = Returns (r, a', tr') \<Longrightarrow> prefix tr tr'"
proof (induction fuel arbitrary: n a b c d e tr)
  case 0
  then show ?case
    by (auto simp: userptr_copy_loop.simps[of 0] split: if_splits)
next
  case (Suc fuel)
  show ?case
    using Suc.prems
    by (auto simp: userptr_copy_loop.simps[of "Suc fuel"] Let_def
        split: if_splits option.splits prod.splits
        dest!: Suc.IH userptr_copy_pages_prefix
        elim!: prefix_after intro: prefix_step)
qed

lemma kfd_copy_userptr_bos_prefix:
  "kfd_copy_userptr_bos fuel env si di w sz tr = Returns (r, n, tr') \<Longrightarrow> prefix tr tr'"
  unfolding kfd_copy_userptr_bos_def Let_def
  by (auto split: if_splits option.splits outcome.splits
      dest!: userptr_copy_loop_prefix elim!: prefix_after intro: prefix_step)

lemma kfd_create_kgd_mem_prefix:
  "kfd_create_kgd_mem env kdev sz p m tr = (r, m', tr') \<Longrightarrow> prefix tr tr'"
  by (auto simp: kfd_create_kgd_mem_def Let_def split: if_splits option.splits)

lemma kfd_destroy_kgd_mem_prefix: "prefix tr (snd (kfd_destroy_kgd_mem env m tr))"
  by (simp add: kfd_destroy_kgd_mem_def)

lemma kfd_copy_bos_copy_prefix:
  "kfd_copy_bos_copy env dev sm so dm d_o sz err d2d si di tmp tr = Returns (r, f, n, si', di', tmp', tr')
   \<Longrightarrow> prefix tr tr'"
  unfolding kfd_copy_bos_copy_def Let_def
  by (auto split: if_splits outcome.splits
      dest!: kfd_cma_fence_wait_prefix
      intro!: dma_fence_put_prefix_after elim: prefix_after intro: prefix_step)


lemma kfd_copy_bos_prefix:
  assumes "kfd_copy_bos fuel env si di w sz tmp tr = Returns (r, f, n, si', di', tmp', tr')"
  shows "prefix tr tr'"
  using assms
  unfolding kfd_copy_bos_def Let_def
  by (auto split: if_splits outcome.splits option.splits prod.splits
      dest!: kfd_copy_userptr_bos_prefix kfd_create_cma_system_bo_prefix kfd_copy_bos_copy_prefix
        kfd_create_kgd_mem_prefix kfd_cma_fence_wait_prefix
      elim!: prefix_after
      intro: prefix_step dma_fence_put_prefix_after)

lemma kfd_copy_single_range_loop_prefix:
  "kfd_copy_single_range_loop fuel env w (sz, c, l, si, di, tmp, tr)
     = Returns (r, sz', c', l', si', di', tmp', tr') \<Longrightarrow> prefix tr tr'"
proof (induction fuel arbitrary: sz c l si di tmp tr)
  case 0
  then show ?case
    by (auto simp: kfd_copy_single_range_loop.simps[of 0] split: if_splits)
next
  case (Suc fuel)
  show ?case
    using Suc.prems
    by (auto simp: kfd_copy_single_range_loop.simps[of "Suc fuel"] Let_def
        split: if_splits outcome.splits
        dest!: Suc.IH kfd_copy_bos_prefix new_fence_step_prefix)
       (meson prefix_order.trans)+
qed

lemma kfd_copy_single_range_prefix:
  "kfd_copy_single_range fuel env si di w f c tmp tr = Returns (r, f', c', si', di', tmp', tr')
   \<Longrightarrow> prefix tr tr'"
  unfolding kfd_copy_single_range_def
  by (auto split: option.splits outcome.splits
      dest!: kfd_copy_single_range_loop_prefix
      intro!: dma_fence_put_prefix_after dma_fence_get_prefix_after)

lemma cross_memory_copy_loop_prefix:
  "cross_memory_copy_loop fuel env w (si, di, l, c, t, tmp, tr)
     = Returns (r, si', di', l', c', t', tmp', tr') \<Longrightarrow> prefix tr tr'"
proof (induction fuel arbitrary: si di l c t tmp tr)
  case 0
  then show ?case
    by (auto simp: cross_memory_copy_loop.simps[of 0] split: if_splits)
next
  case (Suc fuel)
  show ?case
    using Suc.prems
    by (auto simp: cross_memory_copy_loop.simps[of "Suc fuel"] Let_def
        split: if_splits outcome.splits
        dest!: Suc.IH kfd_copy_single_range_prefix new_fence_step_prefix)
       (meson prefix_order.trans)+
qed

lemma free_cma_bos_loop_prefix: "free_cma_bos_loop cs tr = Returns tr' \<Longrightarrow> prefix tr tr'"
proof (induction cs arbitrary: tr)
  case Nil
  then show ?case by simp
next
  case (Cons c cs)
  from Cons.prems obtain tr1 where
    a: "(case cbo_sg c of None \<Rightarrow> Returns tr | Some sg \<Rightarrow> kfd_put_sg_table sg tr) = Returns tr1" and
    b: "free_cma_bos_loop cs
          (tr1 @ [Free_memory_of_gpu (Some (dev_kgd (cbo_dev c))) (cbo_mem c), Kfree Cma_bo_obj])
        = Returns tr'"
    by (auto split: outcome.splits)
  have "prefix tr tr1"
    using a by (auto split: option.splits dest: kfd_put_sg_table_prefix)
  then show ?case
    using Cons.IH[OF b] by (meson prefix_order.trans prefix_step prefix_order.refl)
qed

lemma kfd_free_cma_bos_prefix: "kfd_free_cma_bos ci tr = Returns (ci', tr') \<Longrightarrow> prefix tr tr'"
  by (auto simp: kfd_free_cma_bos_def split: outcome.splits dest: free_cma_bos_loop_prefix)

lemma kfd_process_fail_prefix:
  "kfd_process_fail mm task pid err tot args tr = Returns (r, a, tr') \<Longrightarrow> prefix tr tr'"
  by (auto simp: kfd_process_fail_def mm_access_fail_def get_pid_task_fail_def copy_from_user_fail_def)

lemma mm_access_fail_prefix:
  "mm_access_fail task pid err tot args tr = Returns (r, a, tr') \<Longrightarrow> prefix tr tr'"
  by (auto simp: mm_access_fail_def get_pid_task_fail_def copy_from_user_fail_def)

lemma cross_memory_copy_checked_prefix:
  assumes "cross_memory_copy_checked fuel env local_p args src dst pid task mm tr = Returns (r, a, tr')"
  shows "prefix tr tr'"
proof -
  have ap: "\<And>a b c :: kevent list. prefix (a @ b) c \<Longrightarrow> prefix a c"
    by (rule append_prefixD)
  have fp: "\<And>f a b :: kevent list. prefix (dma_fence_put f a) b \<Longrightarrow> prefix a b"
    using dma_fence_put_prefix prefix_order.trans by blast
  have dp: "\<And>m a b. prefix (snd (kfd_destroy_kgd_mem env m a)) b \<Longrightarrow> prefix a b"
    using kfd_destroy_kgd_mem_prefix prefix_order.trans by blast
  show ?thesis
    using assms
    unfolding cross_memory_copy_checked_def Let_def
    apply (simp split: kptr.splits if_split_asm outcome.splits option.splits prod.splits)
    apply (auto dest!: mm_access_fail_prefix kfd_process_fail_prefix cross_memory_copy_loop_prefix
        kfd_cma_fence_wait_prefix kfd_free_cma_bos_prefix fp dp ap
        elim: prefix_order.trans[rotated])
    done
qed

subsection \<open>The request up to the access check\<close>

lemma ioctl_prefix:
  assumes "src_mem_range_array args \<noteq> 0" and "dst_mem_range_array args \<noteq> 0"
    and "src_mem_array_size args \<noteq> 0" and "dst_mem_array_size args \<noteq> 0"
    and "kmalloc_ok env (length tr) Range_array"
    and "copy_ranges_from_user env (length tr + 1) (src_mem_range_array args)
           (src_mem_array_size args) = Some src_array"
    and "copy_ranges_from_user env (length tr + 2) (dst_mem_range_array args)
           (dst_mem_array_size args) = Some dst_array"
    and "find_get_pid env (length tr + 3) (args_pid args) = Some remote_pid"
  shows "kfd_ioctl_cross_memory_copy fuel env local_p args tr =
     cross_memory_copy_checked fuel env local_p (args \<lparr> bytes_copied := 0 \<rparr>) src_array dst_array
       remote_pid (get_pid_task env (length tr + 4) remote_pid)
       (kcl_mm_access env (length tr + 5) (get_pid_task env (length tr + 4) remote_pid)
           PTRACE_MODE_ATTACH_REALCREDS)
       (tr @ [Kmalloc Range_array,
              Copy_from_user (src_mem_range_array args) (src_mem_array_size args),
              Copy_from_user (dst_mem_range_array args) (dst_mem_array_size args),
              Find_get_pid (args_pid args),
              Get_pid_task remote_pid,
              Mm_access (get_pid_task env (length tr + 4) remote_pid)
                  PTRACE_MODE_ATTACH_REALCREDS])"
proof -
  have t: "length tr + 3 = Suc (Suc (Suc (length tr)))"
    "length tr + 4 = Suc (Suc (Suc (Suc (length tr))))"
    "length tr + 5 = Suc (Suc (Suc (Suc (Suc (length tr)))))"
    by simp_all
  show ?thesis
    using assms unfolding t by (simp add: kfd_ioctl_cross_memory_copy_def Let_def)
qed





lemmas request_defs =
  kfd_ioctl_cross_memory_copy_def cross_memory_copy_checked_def
  kfd_cma_iter_init_def kfd_cma_iter_update_bo_def kfd_cma_iter_advance_def kfd_cma_iter_end_def
  cross_memory_copy_loop.simps kfd_copy_single_range_def kfd_copy_single_range_loop.simps
  kfd_copy_bos_def kfd_copy_bos_copy_def kfd_create_cma_system_bo_def
  kfd_create_sg_table_from_userptr_bo_def cma_system_bo_pdd_fail_def kfd_put_sg_table_def
  new_fence_step_def kfd_fence_put_wait_if_diff_context_def kfd_cma_fence_wait_def
  dma_fence_put_def dma_fence_get_def kfd_free_cma_bos_def kfd_destroy_kgd_mem_def
  kfd_process_fail_def mm_access_fail_def get_pid_task_fail_def copy_from_user_fail_def
  KFD_IS_CROSS_MEMORY_WRITE_def KFD_IOC_ALLOC_MEM_FLAGS_VRAM_def
  PAGE_SIZE_def PAGE_MASK_def MAX_SYSTEM_BO_SIZE_def EFAULT_def EINVAL_def ENOMEM_def Let_def





text \<open>
  Claim C10. After \<^verbatim>\<open>get_pid_task\<close> the code tests \<^verbatim>\<open>remote_pid\<close>, which is known not to
  be NULL. So when the remote task has died and \<^verbatim>\<open>get_pid_task\<close> gives NULL, the request
  goes on as if the task were there: the NULL task is handed to \<^verbatim>\<open>mm_access\<close>, and what the
  request does is what \<^verbatim>\<open>mm_access\<close> on NULL leads to. It is never the return of the branch
  for the task that died, which would return \<^verbatim>\<open>-ESRCH\<close> after releasing the pid and the
  array, without having asked for access.
\<close>

theorem cross_memory_copy_task_died:
  assumes "src_mem_range_array args \<noteq> 0" and "dst_mem_range_array args \<noteq> 0"
    and "src_mem_array_size args \<noteq> 0" and "dst_mem_array_size args \<noteq> 0"
    and "kmalloc_ok env (length tr) Range_array"
    and "copy_ranges_from_user env (length tr + 1) (src_mem_range_array args)
           (src_mem_array_size args) = Some src_array"
    and "copy_ranges_from_user env (length tr + 2) (dst_mem_range_array args)
           (dst_mem_array_size args) = Some dst_array"
    and "find_get_pid env (length tr + 3) (args_pid args) = Some remote_pid"
    and died: "get_pid_task env (length tr + 4) remote_pid = None"
  shows "kfd_ioctl_cross_memory_copy fuel env local_p args tr =
           cross_memory_copy_checked fuel env local_p (args \<lparr> bytes_copied := 0 \<rparr>)
             src_array dst_array remote_pid None (kcl_mm_access env (length tr + 5) None
                 PTRACE_MODE_ATTACH_REALCREDS)
             (tr @ [Kmalloc Range_array,
                    Copy_from_user (src_mem_range_array args) (src_mem_array_size args),
                    Copy_from_user (dst_mem_range_array args) (dst_mem_array_size args),
                    Find_get_pid (args_pid args), Get_pid_task remote_pid, Mm_access None
                        PTRACE_MODE_ATTACH_REALCREDS])
       \<and> kfd_ioctl_cross_memory_copy fuel env local_p args tr \<noteq>
           get_pid_task_fail remote_pid (- ESRCH) 0 (args \<lparr> bytes_copied := 0 \<rparr>)
             (tr @ [Kmalloc Range_array,
                    Copy_from_user (src_mem_range_array args) (src_mem_array_size args),
                    Copy_from_user (dst_mem_range_array args) (dst_mem_array_size args),
                    Find_get_pid (args_pid args), Get_pid_task remote_pid])"
proof -
  define tr5 where "tr5 = tr @ [Kmalloc Range_array,
                    Copy_from_user (src_mem_range_array args) (src_mem_array_size args),
                    Copy_from_user (dst_mem_range_array args) (dst_mem_array_size args),
                    Find_get_pid (args_pid args), Get_pid_task remote_pid]"
  have t6: "tr @ [Kmalloc Range_array,
                    Copy_from_user (src_mem_range_array args) (src_mem_array_size args),
                    Copy_from_user (dst_mem_range_array args) (dst_mem_array_size args),
                    Find_get_pid (args_pid args), Get_pid_task remote_pid, Mm_access None
                        PTRACE_MODE_ATTACH_REALCREDS]
            = tr5 @ [Mm_access None PTRACE_MODE_ATTACH_REALCREDS]"
    by (simp add: tr5_def)
  note p = ioctl_prefix[OF assms(1-8), of fuel local_p, unfolded died t6]
  have ne: "cross_memory_copy_checked fuel env local_p (args \<lparr> bytes_copied := 0 \<rparr>)
             src_array dst_array remote_pid None (kcl_mm_access env (length tr + 5) None
                 PTRACE_MODE_ATTACH_REALCREDS)
             (tr5 @ [Mm_access None PTRACE_MODE_ATTACH_REALCREDS])
          \<noteq> get_pid_task_fail remote_pid (- ESRCH) 0 (args \<lparr> bytes_copied := 0 \<rparr>) tr5"
  proof
    assume "cross_memory_copy_checked fuel env local_p (args \<lparr> bytes_copied := 0 \<rparr>)
             src_array dst_array remote_pid None (kcl_mm_access env (length tr + 5) None
                 PTRACE_MODE_ATTACH_REALCREDS)
             (tr5 @ [Mm_access None PTRACE_MODE_ATTACH_REALCREDS])
          = get_pid_task_fail remote_pid (- ESRCH) 0 (args \<lparr> bytes_copied := 0 \<rparr>) tr5"
    then have "cross_memory_copy_checked fuel env local_p (args \<lparr> bytes_copied := 0 \<rparr>)
             src_array dst_array remote_pid None (kcl_mm_access env (length tr + 5) None
                 PTRACE_MODE_ATTACH_REALCREDS)
             (tr5 @ [Mm_access None PTRACE_MODE_ATTACH_REALCREDS])
          = Returns (- ESRCH, args \<lparr> bytes_copied := 0 \<rparr>,
                     tr5 @ [Put_pid remote_pid, Kfree Range_array])"
      by (simp add: get_pid_task_fail_def copy_from_user_fail_def)
    then have "prefix (tr5 @ [Mm_access None PTRACE_MODE_ATTACH_REALCREDS]) (tr5 @ [Put_pid remote_pid, Kfree Range_array])"
      by (rule cross_memory_copy_checked_prefix)
    then show False by simp
  qed
  show ?thesis
    unfolding t6 tr5_def[symmetric] using p ne by simp
qed

theorem cross_memory_copy_task_died_witness:
  "src_mem_range_array args_example \<noteq> 0 \<and> dst_mem_range_array args_example \<noteq> 0
   \<and> src_mem_array_size args_example \<noteq> 0 \<and> dst_mem_array_size args_example \<noteq> 0
   \<and> kmalloc_ok env_task_died (length ([] :: kevent list)) Range_array
   \<and> find_get_pid env_task_died (length ([] :: kevent list) + 3) (args_pid args_example) = Some 61
   \<and> get_pid_task env_task_died (length ([] :: kevent list) + 4) 61 = None
   \<and> kfd_ioctl_cross_memory_copy 10 env_task_died process_example args_example [] =
       cross_memory_copy_checked 10 env_task_died process_example
         (args_example \<lparr> bytes_copied := 0 \<rparr>) ranges_example ranges_example 61 None (PTR 41)
         [Kmalloc Range_array, Copy_from_user 0x7000 2, Copy_from_user 0x8000 2,
          Find_get_pid 1234, Get_pid_task 61, Mm_access None PTRACE_MODE_ATTACH_REALCREDS]
   \<and> kfd_ioctl_cross_memory_copy 10 env_task_died process_example args_example [] \<noteq>
       Returns (- ESRCH, args_example \<lparr> bytes_copied := 0 \<rparr>,
         [Kmalloc Range_array, Copy_from_user 0x7000 2, Copy_from_user 0x8000 2,
          Find_get_pid 1234, Get_pid_task 61, Put_pid 61, Kfree Range_array])"
proof -
  have a: "src_mem_range_array args_example \<noteq> 0" "dst_mem_range_array args_example \<noteq> 0"
    "src_mem_array_size args_example \<noteq> 0" "dst_mem_array_size args_example \<noteq> 0"
    by (simp_all add: args_example_def)
  have k: "kmalloc_ok env_task_died (length ([] :: kevent list)) Range_array"
    by (simp add: env_task_died_def env_example_def)
  have s: "copy_ranges_from_user env_task_died (length ([] :: kevent list) + 1)
             (src_mem_range_array args_example) (src_mem_array_size args_example) = Some ranges_example"
    by (simp add: env_task_died_def env_example_def)
  have d: "copy_ranges_from_user env_task_died (length ([] :: kevent list) + 2)
             (dst_mem_range_array args_example) (dst_mem_array_size args_example) = Some ranges_example"
    by (simp add: env_task_died_def env_example_def)
  have f: "find_get_pid env_task_died (length ([] :: kevent list) + 3) (args_pid args_example) = Some 61"
    by (simp add: env_task_died_def env_example_def args_example_def)
  have t: "get_pid_task env_task_died (length ([] :: kevent list) + 4) 61 = None"
    by (simp add: env_task_died_def env_example_def)
  have m: "kcl_mm_access env_task_died (length ([] :: kevent list) + 5) None
      PTRACE_MODE_ATTACH_REALCREDS = PTR 41"
    by (simp add: env_task_died_def env_example_def)
  have e: "args_pid args_example = 1234" "src_mem_range_array args_example = 0x7000"
    "src_mem_array_size args_example = 2" "dst_mem_range_array args_example = 0x8000"
    "dst_mem_array_size args_example = 2"
    by (simp_all add: args_example_def)
  note w = cross_memory_copy_task_died[OF a k s d f t, of 10 process_example, unfolded m e]
  have w1: "kfd_ioctl_cross_memory_copy 10 env_task_died process_example args_example [] =
       cross_memory_copy_checked 10 env_task_died process_example
         (args_example \<lparr> bytes_copied := 0 \<rparr>) ranges_example ranges_example 61 None (PTR 41)
         [Kmalloc Range_array, Copy_from_user 0x7000 2, Copy_from_user 0x8000 2,
          Find_get_pid 1234, Get_pid_task 61, Mm_access None PTRACE_MODE_ATTACH_REALCREDS]"
    using w by simp
  have w2: "kfd_ioctl_cross_memory_copy 10 env_task_died process_example args_example [] \<noteq>
       Returns (- ESRCH, args_example \<lparr> bytes_copied := 0 \<rparr>,
         [Kmalloc Range_array, Copy_from_user 0x7000 2, Copy_from_user 0x8000 2,
          Find_get_pid 1234, Get_pid_task 61, Put_pid 61, Kfree Range_array])"
    using conjunct2[OF w] by (simp add: get_pid_task_fail_def copy_from_user_fail_def)
  show ?thesis
    using a k f t w1 w2 by blast
qed

subsection \<open>The release of the shadow buffers\<close>

text \<open>
  Claim C5 does not hold of the code. A shadow buffer made from a userptr buffer is put on
  the list of its iterator, but it is not always released before the request is over.

  When \<^verbatim>\<open>get_user_pages\<close> pins fewer pages than the scatter list has entries (here one page
  of two), the shadow buffer is made from the pages that were pinned, the copy is made and
  the loop goes on and ends with 0, with the two shadow buffers of the two segments on the
  list. At the end of the request \<^verbatim>\<open>kfd_free_cma_bos\<close> calls \<^verbatim>\<open>kfd_put_sg_table\<close>, which reaches
  the entry that holds no page: the thread stops there, before the memory of any shadow
  buffer is freed, and the request does not return.

  When the second page of the userptr buffer cannot be pinned at all, the first segment
  leaves its shadow buffer on the list, and for the second segment
  \<^verbatim>\<open>kfd_create_cma_system_bo\<close> fails and leaves \<^verbatim>\<open>si->cma_bo\<close> NULL; \<^verbatim>\<open>kfd_copy_bos\<close> reads
  \<^verbatim>\<open>si->cma_bo->mem\<close> before it tests the error, and the thread stops with the first shadow
  buffer not released.
\<close>

theorem cross_memory_copy_shadow_not_released:
  "kfd_cma_iter_init (Some userptr_range) 1 (Some process_userptr) (Some 41) (Some 51)
     = Returns (0, Some iter_userptr_range)
   \<and> kfd_cma_iter_init (Some vram_range) 1 (Some process_userptr) (current_mm env_partial_pin)
       (Some (current_task env_partial_pin)) = Returns (0, Some iter_vram_range)
   \<and> map_option (\<lambda>(err, si, di, rest). (err, ci_cma_list si, ci_cma_list di))
       (returned (cross_memory_copy_loop 3 env_partial_pin False
                    (iter_userptr_range, iter_vram_range, None, 0, 0, 0, [])))
     = Some (0, [shadow_partial, shadow_rest], [])
   \<and> cbo_sg shadow_partial = Some sg_partial
   \<and> sg_pinned sg_partial < sg_nents sg_partial
   \<and> (\<forall>rest tr. free_cma_bos_loop (shadow_partial # rest) tr = Oops)
   \<and> kfd_ioctl_cross_memory_copy 3 env_partial_pin process_userptr args_one_range [] = Oops
   \<and> map_option (\<lambda>(err, f, n, si, di, rest). (err, n, ci_cma_list si))
       (returned (kfd_copy_bos 3 env_page_unmapped iter_userptr_range iter_vram_range False
                    0x2000 0 []))
     = Some (0, 0x1000, [shadow_partial])
   \<and> kfd_copy_single_range_loop 3 env_page_unmapped False
       (0x2000, 0, None, iter_userptr_range, iter_vram_range, 0, []) = Oops
   \<and> kfd_ioctl_cross_memory_copy 3 env_page_unmapped process_userptr args_one_range [] = Oops"
proof -
  note ex = env_partial_pin_def env_page_unmapped_def env_userptr_def env_example_def
    args_one_range_def process_userptr_def userptr_range_def vram_range_def bo_userptr_def
    bo_vram_second_def dev_example_def dev_second_def iter_userptr_range_def
    iter_vram_range_def sg_partial_def sg_rest_def shadow_partial_def shadow_rest_def
  have i1: "kfd_cma_iter_init (Some userptr_range) 1 (Some process_userptr) (Some 41) (Some 51)
     = Returns (0, Some iter_userptr_range)"
    by (simp add: request_defs ex)
  have i2: "kfd_cma_iter_init (Some vram_range) 1 (Some process_userptr) (current_mm env_partial_pin)
       (Some (current_task env_partial_pin)) = Returns (0, Some iter_vram_range)"
    by (simp add: request_defs ex)
  have l: "map_option (\<lambda>(err, si, di, rest). (err, ci_cma_list si, ci_cma_list di))
       (returned (cross_memory_copy_loop 3 env_partial_pin False
                    (iter_userptr_range, iter_vram_range, None, 0, 0, 0, [])))
     = Some (0, [shadow_partial, shadow_rest], [])"
    by (simp add: request_defs ex)
  have s: "cbo_sg shadow_partial = Some sg_partial" "sg_pinned sg_partial < sg_nents sg_partial"
    by (simp_all add: ex)
  have f: "\<forall>rest tr. free_cma_bos_loop (shadow_partial # rest) tr = Oops"
    by (simp add: kfd_put_sg_table_def ex)
  have r1: "kfd_ioctl_cross_memory_copy 3 env_partial_pin process_userptr args_one_range [] = Oops"
    by (simp add: request_defs ex)
  have c: "map_option (\<lambda>(err, f, n, si, di, rest). (err, n, ci_cma_list si))
       (returned (kfd_copy_bos 3 env_page_unmapped iter_userptr_range iter_vram_range False
                    0x2000 0 []))
     = Some (0, 0x1000, [shadow_partial])"
    by (simp add: request_defs ex)
  have l2: "kfd_copy_single_range_loop 3 env_page_unmapped False
       (0x2000, 0, None, iter_userptr_range, iter_vram_range, 0, []) = Oops"
    by (simp add: request_defs ex)
  have r2: "kfd_ioctl_cross_memory_copy 3 env_page_unmapped process_userptr args_one_range [] = Oops"
    by (simp add: request_defs ex)
  show ?thesis
    by (intro conjI) (rule i1 i2 l s f r1 c l2 r2)+
qed

subsection \<open>Waiting for the fence of another context\<close>

lemma new_fence_step_cases:
  "new_fence_step env (Some cf) (Some pf) tr =
     (if fence_context cf \<noteq> fence_context pf
      then Returns (if 0 < dma_fence_wait_timeout env (length tr) pf then 0
                    else if dma_fence_wait_timeout env (length tr) pf = 0 then - ETIME
                    else dma_fence_wait_timeout env (length tr) pf,
                    Some cf,
                    tr @ [Dma_fence_wait_timeout pf CMA_WAIT_TIMEOUT_MSECS, Dma_fence_put pf])
      else Returns (0, Some cf, tr @ [Dma_fence_put pf]))"
  by (simp add: new_fence_step_def kfd_fence_put_wait_if_diff_context_def kfd_cma_fence_wait_def
      dma_fence_put_def Let_def)

lemma single_range_loop_after_fence:
  assumes "sz \<noteq> 0" and "\<not> kfd_cma_iter_end di"
    and "kfd_copy_bos fuel env si di cma_write
           (min sz (range_size (ci_array di 0) - ci_offset di)) tmp_mem tr
         = Returns (0, fence, n, si1, di1, tmp1, tr1)"
    and "new_fence_step env fence lfence tr1 = Returns (err2, lfence1, tr2)"
    and "kfd_copy_single_range_loop (Suc fuel) env cma_write (sz, copied, lfence, si, di, tmp_mem, tr)
         = Returns (err, sz', copied', lf, si2, di2, tmp2, tr')"
  shows "prefix tr2 tr'"
  using assms(5)
  apply (subst (asm) kfd_copy_single_range_loop.simps)
  apply (simp add: assms(1-4) Let_def split: outcome.splits prod.splits if_splits)
  apply (auto dest: kfd_copy_single_range_loop_prefix)
  done

lemma single_range_loop_fence_error:
  assumes "sz \<noteq> 0" and "\<not> kfd_cma_iter_end di"
    and "kfd_copy_bos fuel env si di cma_write
           (min sz (range_size (ci_array di 0) - ci_offset di)) tmp_mem tr
         = Returns (0, fence, n, si1, di1, tmp1, tr1)"
    and "new_fence_step env fence lfence tr1 = Returns (err2, lfence1, tr2)"
    and "err2 \<noteq> 0"
  shows "kfd_copy_single_range_loop (Suc fuel) env cma_write (sz, copied, lfence, si, di, tmp_mem, tr)
         = Returns (err2, sz, copied, lfence1, si1, di1, tmp1, tr2)"
  apply (subst kfd_copy_single_range_loop.simps)
  apply (simp add: assms Let_def)
  done

lemma cross_loop_after_fence:
  assumes "\<not> kfd_cma_iter_end si" and "\<not> kfd_cma_iter_end di"
    and "kfd_copy_single_range fuel env si di cma_write None copied tmp_mem tr
         = Returns (0, fence, copied1, si1, di1, tmp1, tr1)"
    and "new_fence_step env fence lfence tr1 = Returns (err2, lfence1, tr2)"
    and "cross_memory_copy_loop (Suc fuel) env cma_write (si, di, lfence, copied, tot, tmp_mem, tr)
         = Returns (err, si2, di2, lf, copied', tot', tmp2, tr')"
  shows "prefix tr2 tr'"
  using assms(5)
  apply (subst (asm) cross_memory_copy_loop.simps)
  apply (simp add: assms(1-4) Let_def split: outcome.splits prod.splits if_splits)
  apply (auto dest: cross_memory_copy_loop_prefix)
  done

lemma cross_loop_fence_error:
  assumes "\<not> kfd_cma_iter_end si" and "\<not> kfd_cma_iter_end di"
    and "kfd_copy_single_range fuel env si di cma_write None copied tmp_mem tr
         = Returns (0, fence, copied1, si1, di1, tmp1, tr1)"
    and "new_fence_step env fence lfence tr1 = Returns (err2, lfence1, tr2)"
    and "err2 \<noteq> 0"
  shows "cross_memory_copy_loop (Suc fuel) env cma_write (si, di, lfence, copied, tot, tmp_mem, tr)
         = Returns (err2, si1, di1, lfence1, copied1, tot + copied1, tmp1, tr2)"
  apply (subst cross_memory_copy_loop.simps)
  apply (simp add: assms Let_def)
  done

text \<open>
  What both copy loops do with a new fence. In an iteration of either loop (the loop of
  \<^verbatim>\<open>kfd_copy_single_range\<close> over the segments of a range, and the loop of
  \<^verbatim>\<open>kfd_ioctl_cross_memory_copy\<close> over the ranges) in which the copy succeeds and returns a
  new fence \<open>cf\<close> while a fence \<open>pf\<close> is pending: when the contexts of the two differ, the next
  thing the loop does is to wait for \<open>pf\<close> with the timeout and then to release it, and when
  the wait times out the loop is left with \<^verbatim>\<open>-ETIME\<close>, before any iterator is advanced and
  before any further copy; when the contexts are equal, the next thing the loop does is to
  release \<open>pf\<close>, with no wait. In both cases the new fence becomes the pending one.
\<close>

lemma copy_loops_fence_step:
  fixes cf pf rf rpf :: dma_fence
  assumes "sz \<noteq> 0" and "\<not> kfd_cma_iter_end di"
    and "kfd_copy_bos fuel env si di cma_write
           (min sz (range_size (ci_array di 0) - ci_offset di)) tmp_mem tr
         = Returns (0, Some cf, n, si1, di1, tmp1, tr1)"
    and "\<not> kfd_cma_iter_end rsi" and "\<not> kfd_cma_iter_end rdi"
    and "kfd_copy_single_range rfuel env rsi rdi cma_write None rcopied rtmp rtr
         = Returns (0, Some rf, rcopied1, rsi1, rdi1, rtmp1, rtr1)"
  shows
    "(\<forall>err sz' copied' lf si2 di2 tmp2 tr'.
        kfd_copy_single_range_loop (Suc fuel) env cma_write
          (sz, copied, Some pf, si, di, tmp_mem, tr)
        = Returns (err, sz', copied', lf, si2, di2, tmp2, tr')
        \<longrightarrow> prefix (tr1 @ (if fence_context cf \<noteq> fence_context pf
                           then [Dma_fence_wait_timeout pf CMA_WAIT_TIMEOUT_MSECS, Dma_fence_put pf]
                           else [Dma_fence_put pf])) tr')
     \<and> (fence_context cf \<noteq> fence_context pf \<and> dma_fence_wait_timeout env (length tr1) pf = 0
        \<longrightarrow> kfd_copy_single_range_loop (Suc fuel) env cma_write
              (sz, copied, Some pf, si, di, tmp_mem, tr)
            = Returns (- ETIME, sz, copied, Some cf, si1, di1, tmp1,
                       tr1 @ [Dma_fence_wait_timeout pf CMA_WAIT_TIMEOUT_MSECS, Dma_fence_put pf]))
     \<and> (\<forall>err si2 di2 lf copied' tot' tmp2 tr'.
        cross_memory_copy_loop (Suc rfuel) env cma_write
          (rsi, rdi, Some rpf, rcopied, tot, rtmp, rtr)
        = Returns (err, si2, di2, lf, copied', tot', tmp2, tr')
        \<longrightarrow> prefix (rtr1 @ (if fence_context rf \<noteq> fence_context rpf
                            then [Dma_fence_wait_timeout rpf CMA_WAIT_TIMEOUT_MSECS, Dma_fence_put rpf]
                            else [Dma_fence_put rpf])) tr')
     \<and> (fence_context rf \<noteq> fence_context rpf \<and> dma_fence_wait_timeout env (length rtr1) rpf = 0
        \<longrightarrow> cross_memory_copy_loop (Suc rfuel) env cma_write
              (rsi, rdi, Some rpf, rcopied, tot, rtmp, rtr)
            = Returns (- ETIME, rsi1, rdi1, Some rf, rcopied1, tot + rcopied1, rtmp1,
                       rtr1 @ [Dma_fence_wait_timeout rpf CMA_WAIT_TIMEOUT_MSECS, Dma_fence_put rpf]))"
proof -
  have etime: "- ETIME \<noteq> (0 :: int)" by (simp add: ETIME_def)
  have a: "prefix (tr1 @ (if fence_context cf \<noteq> fence_context pf
                           then [Dma_fence_wait_timeout pf CMA_WAIT_TIMEOUT_MSECS, Dma_fence_put pf]
                           else [Dma_fence_put pf])) tr'"
    if "kfd_copy_single_range_loop (Suc fuel) env cma_write
          (sz, copied, Some pf, si, di, tmp_mem, tr)
        = Returns (err, sz', copied', lf, si2, di2, tmp2, tr')"
    for err sz' copied' lf si2 di2 tmp2 tr'
  proof (cases "fence_context cf \<noteq> fence_context pf")
    case True
    then show ?thesis
      using single_range_loop_after_fence[OF assms(1-3) _ that,
          where ?lfence1.0 = "Some cf"
            and ?tr2.0 = "tr1 @ [Dma_fence_wait_timeout pf CMA_WAIT_TIMEOUT_MSECS, Dma_fence_put pf]"]
      by (simp add: new_fence_step_cases)
  next
    case False
    then show ?thesis
      using single_range_loop_after_fence[OF assms(1-3) _ that,
          where ?lfence1.0 = "Some cf" and ?tr2.0 = "tr1 @ [Dma_fence_put pf]"]
      by (simp add: new_fence_step_cases)
  qed
  have b: "kfd_copy_single_range_loop (Suc fuel) env cma_write
              (sz, copied, Some pf, si, di, tmp_mem, tr)
            = Returns (- ETIME, sz, copied, Some cf, si1, di1, tmp1,
                       tr1 @ [Dma_fence_wait_timeout pf CMA_WAIT_TIMEOUT_MSECS, Dma_fence_put pf])"
    if "fence_context cf \<noteq> fence_context pf" "dma_fence_wait_timeout env (length tr1) pf = 0"
    using single_range_loop_fence_error[OF assms(1-3) _ etime,
        where lfence = "Some pf" and ?lfence1.0 = "Some cf"
          and ?tr2.0 = "tr1 @ [Dma_fence_wait_timeout pf CMA_WAIT_TIMEOUT_MSECS, Dma_fence_put pf]"]
      that
    by (simp add: new_fence_step_cases)
  have c: "prefix (rtr1 @ (if fence_context rf \<noteq> fence_context rpf
                            then [Dma_fence_wait_timeout rpf CMA_WAIT_TIMEOUT_MSECS, Dma_fence_put rpf]
                            else [Dma_fence_put rpf])) tr'"
    if "cross_memory_copy_loop (Suc rfuel) env cma_write
          (rsi, rdi, Some rpf, rcopied, tot, rtmp, rtr)
        = Returns (err, si2, di2, lf, copied', tot', tmp2, tr')"
    for err si2 di2 lf copied' tot' tmp2 tr'
  proof (cases "fence_context rf \<noteq> fence_context rpf")
    case True
    then show ?thesis
      using cross_loop_after_fence[OF assms(4-6) _ that,
          where ?lfence1.0 = "Some rf"
            and ?tr2.0 = "rtr1 @ [Dma_fence_wait_timeout rpf CMA_WAIT_TIMEOUT_MSECS, Dma_fence_put rpf]"]
      by (simp add: new_fence_step_cases)
  next
    case False
    then show ?thesis
      using cross_loop_after_fence[OF assms(4-6) _ that,
          where ?lfence1.0 = "Some rf" and ?tr2.0 = "rtr1 @ [Dma_fence_put rpf]"]
      by (simp add: new_fence_step_cases)
  qed
  have d: "cross_memory_copy_loop (Suc rfuel) env cma_write
              (rsi, rdi, Some rpf, rcopied, tot, rtmp, rtr)
            = Returns (- ETIME, rsi1, rdi1, Some rf, rcopied1, tot + rcopied1, rtmp1,
                       rtr1 @ [Dma_fence_wait_timeout rpf CMA_WAIT_TIMEOUT_MSECS, Dma_fence_put rpf])"
    if "fence_context rf \<noteq> fence_context rpf" "dma_fence_wait_timeout env (length rtr1) rpf = 0"
    using cross_loop_fence_error[OF assms(4-6) _ etime,
        where lfence = "Some rpf" and ?lfence1.0 = "Some rf"
          and ?tr2.0 = "rtr1 @ [Dma_fence_wait_timeout rpf CMA_WAIT_TIMEOUT_MSECS, Dma_fence_put rpf]"]
      that
    by (simp add: new_fence_step_cases)
  show ?thesis
    using a b c d by blast
qed

lemmas example_defs =
  iter_on_def iter_done_def bo_vram_first_def bo_vram_other_def dev_example_def fence_first_def
  env_example_def
  KFD_IOC_ALLOC_MEM_FLAGS_VRAM_def kfd_cma_iter_end_def

lemma copy_bos_example:
  "kfd_copy_bos (Suc 0) (env_example \<lparr> dma_fence_wait_timeout := w \<rparr>)
     (iter_on bo_vram_first) (iter_on bo_vram_other) False
     (min 0x400000 (range_size (ci_array (iter_on bo_vram_other) 0) - ci_offset (iter_on bo_vram_other)))
     0 []
   = Returns (0, Some fence_first, 0x400000, iter_on bo_vram_first, iter_on bo_vram_other, 0,
              [Copy_mem_to_mem 11 8 0 9 0 0x400000])"
  by (simp add: kfd_copy_bos_def kfd_copy_bos_copy_def example_defs Let_def)

lemma advance_example_done:
  "kfd_cma_iter_advance (iter_on bo) 0x400000 = Returns (0, iter_done bo)"
  by (simp add: kfd_cma_iter_advance_def example_defs Let_def)

lemma env_example_wait:
  "env_example = env_example \<lparr> dma_fence_wait_timeout := (\<lambda>t f. 250) \<rparr>"
  by (simp add: env_example_def)


text \<open>
  Claim C2 does not hold of the code: the timeout error of the wait for the previous fence
  is not what \<^verbatim>\<open>kfd_ioctl_cross_memory_copy\<close> returns. The request below reads one page from
  each of two devices. The fence of the second copy is of another context than the fence
  of the first, so the loop waits for the first fence, for 1000 milliseconds; the wait
  times out and gives \<^verbatim>\<open>-ETIME\<close>, and the loop is left. By then \<^verbatim>\<open>lfence\<close> is the new fence:
  the wait for the last fence that follows the loop succeeds, its result replaces the
  \<^verbatim>\<open>-ETIME\<close>, and the request returns 0 with all 8192 bytes counted as copied, although
  the first copy was never seen to complete.
\<close>

theorem cross_memory_copy_timeout_lost:
  "fence_context fence_second_device \<noteq> fence_context fence_range_first
   \<and> (\<forall>tr. kfd_cma_fence_wait env_first_fence_late (Some fence_range_first) tr
          = Returns (- ETIME, tr @ [Dma_fence_wait_timeout fence_range_first 1000]))
   \<and> - ETIME \<noteq> (0 :: int)
   \<and> kfd_ioctl_cross_memory_copy 3 env_first_fence_late process_devices args_example []
     = Returns (0, args_example \<lparr> bytes_copied := 0x2000 \<rparr>,
         [Kmalloc Range_array, Copy_from_user 0x7000 2, Copy_from_user 0x8000 2,
          Find_get_pid 1234, Get_pid_task 61, Mm_access (Some 51) PTRACE_MODE_ATTACH_REALCREDS,
          Kfd_get_process (Some 51),
          Copy_mem_to_mem 11 8 0 10 0 0x1000,
          Dma_fence_get fence_range_first, Dma_fence_put fence_range_first,
          Copy_mem_to_mem 12 6 0 10 0x1000 0x1000,
          Dma_fence_get fence_second_device, Dma_fence_put fence_second_device,
          Dma_fence_wait_timeout fence_range_first 1000, Dma_fence_put fence_range_first,
          Dma_fence_wait_timeout fence_second_device 1000, Dma_fence_put fence_second_device,
          Mmput 41, Put_task_struct (Some 51), Put_pid 61, Kfree Range_array])"
proof -
  note ex = env_first_fence_late_def env_example_def args_example_def process_devices_def
    src_two_devices_def dst_gtt_def bo_vram_first_def bo_vram_second_def bo_gtt_def
    dev_example_def dev_second_def fence_range_first_def fence_second_device_def
  have s: "sum_range_sizes src_two_devices 2 = 0x2000" "sum_range_sizes dst_gtt 2 = 0x2000"
    by (simp_all add: numeral_2_eq_2 src_two_devices_def dst_gtt_def)
  have c: "fence_context fence_second_device \<noteq> fence_context fence_range_first"
    by (simp add: ex)
  have w: "\<forall>tr. kfd_cma_fence_wait env_first_fence_late (Some fence_range_first) tr
          = Returns (- ETIME, tr @ [Dma_fence_wait_timeout fence_range_first 1000])"
    by (simp add: kfd_cma_fence_wait_def CMA_WAIT_TIMEOUT_MSECS_def ex)
  have e: "- ETIME \<noteq> (0 :: int)"
    by (simp add: ETIME_def)
  have r: "kfd_ioctl_cross_memory_copy 3 env_first_fence_late process_devices args_example []
     = Returns (0, args_example \<lparr> bytes_copied := 0x2000 \<rparr>,
         [Kmalloc Range_array, Copy_from_user 0x7000 2, Copy_from_user 0x8000 2,
          Find_get_pid 1234, Get_pid_task 61, Mm_access (Some 51) PTRACE_MODE_ATTACH_REALCREDS,
          Kfd_get_process (Some 51),
          Copy_mem_to_mem 11 8 0 10 0 0x1000,
          Dma_fence_get fence_range_first, Dma_fence_put fence_range_first,
          Copy_mem_to_mem 12 6 0 10 0x1000 0x1000,
          Dma_fence_get fence_second_device, Dma_fence_put fence_second_device,
          Dma_fence_wait_timeout fence_range_first 1000, Dma_fence_put fence_range_first,
          Dma_fence_wait_timeout fence_second_device 1000, Dma_fence_put fence_second_device,
          Mmput 41, Put_task_struct (Some 51), Put_pid 61, Kfree Range_array])"
    by (simp add: request_defs CMA_WAIT_TIMEOUT_MSECS_def ETIME_def ex s)
  show ?thesis
    by (intro conjI) (rule c w e r)+
qed

subsection \<open>The size of one copy\<close>

lemma kfd_copy_bos_copy_iters:
  "kfd_copy_bos_copy env dev sm so dm d_o sz err d2d si di tmp tr = Returns (r, f, n, si', di', tmp', tr')
   \<Longrightarrow> si' = si \<and> di' = di \<and> tmp' = tmp"
  unfolding kfd_copy_bos_copy_def Let_def
  by (auto split: if_splits outcome.splits)

lemma kfd_copy_bos_copy_direct:
  "kfd_copy_bos_copy env dev sm so dm d_o sz 0 False si di tmp tr = Returns (0, f, n, si', di', tmp', tr')
   \<Longrightarrow> tr' = tr @ [Copy_mem_to_mem (dev_kgd dev) sm so dm d_o sz]"
  unfolding kfd_copy_bos_copy_def Let_def
  by (auto split: if_splits outcome.splits)

lemma kfd_copy_bos_has_bos:
  assumes "kfd_copy_bos fuel env si di w sz tmp tr = Returns res"
  shows "\<exists>src_bo dst_bo. ci_cur_bo si = Some src_bo \<and> ci_cur_bo di = Some dst_bo"
proof (cases "ci_cur_bo di")
  case None
  then show ?thesis using assms by (simp add: kfd_copy_bos_def)
next
  case d: (Some dst_bo)
  show ?thesis
  proof (cases "ci_cur_bo si")
    case None
    then show ?thesis using assms d by (simp add: kfd_copy_bos_def)
  next
    case (Some src_bo)
    then show ?thesis using d by simp
  qed
qed

lemma kfd_copy_bos_position:
  assumes r: "kfd_copy_bos fuel env si di w sz tmp tr = Returns (r, f, n, si', di', tmp', tr')"
  shows "ci_array si' = ci_array si \<and> ci_offset si' = ci_offset si \<and> ci_total si' = ci_total si
       \<and> ci_array di' = ci_array di \<and> ci_offset di' = ci_offset di \<and> ci_total di' = ci_total di"
proof -
  obtain src_bo dst_bo where b: "ci_cur_bo si = Some src_bo" "ci_cur_bo di = Some dst_bo"
    using kfd_copy_bos_has_bos[OF r] by blast
  consider (uu) "cpuva src_bo \<noteq> 0" "cpuva dst_bo \<noteq> 0"
    | (us) "cpuva src_bo \<noteq> 0" "cpuva dst_bo = 0"
    | (ud) "cpuva src_bo = 0" "cpuva dst_bo \<noteq> 0"
    | (dd) "cpuva src_bo = 0" "cpuva dst_bo = 0"
    by blast
  then show ?thesis
  proof cases
    case uu
    then show ?thesis
      using r by (auto simp: kfd_copy_bos_def b split: outcome.splits)
  next
    case us
    then show ?thesis
      using r
      by (auto simp: kfd_copy_bos_def b split: outcome.splits option.splits
          dest!: kfd_copy_bos_copy_iters)
  next
    case ud
    then show ?thesis
      using r
      by (auto simp: kfd_copy_bos_def b split: outcome.splits option.splits
          dest!: kfd_copy_bos_copy_iters)
  next
    case dd
    then show ?thesis
      using r
      by (auto simp: kfd_copy_bos_def b Let_def split: outcome.splits prod.splits if_splits
          dest!: kfd_copy_bos_copy_iters)
  qed
qed


lemma sg_table_size:
  assumes "kfd_create_sg_table_from_userptr_bo env bo off w mm task req tr
           = Returns (0, size_out, bo_size, sgo, tr')"
  shows "sgo \<noteq> None"
    and "sgo = Some sg \<Longrightarrow>
         size_out = (if sg_pinned sg = sg_nents sg then req
                     else sg_pinned sg * PAGE_SIZE
                          - ucast (ucast (off AND (PAGE_SIZE - 1)) :: u32))"
  using assms
  unfolding kfd_create_sg_table_from_userptr_bo_def Let_def
  by (auto simp: ENOMEM_def EFAULT_def split: option.splits if_split_asm)

lemma cma_system_bo_pdd_fail_none:
  "cma_system_bo_pdd_fail ret sz sg tr = Returns (r, s1, cbo, tr') \<Longrightarrow> cbo = None"
  by (auto simp: cma_system_bo_pdd_fail_def split: option.splits outcome.splits)

lemma cma_system_bo_userptr:
  assumes v: "mem_type bo \<noteq> KFD_IOC_ALLOC_MEM_FLAGS_VRAM"
    and r: "kfd_create_cma_system_bo env kdev bo req off w p mm task tr = Returns (err, sz1, Some cbo, tr1)"
  shows "err = 0 \<and> cbo_sg cbo \<noteq> None
       \<and> (\<forall>sg. cbo_sg cbo = Some sg \<longrightarrow>
             sz1 = (if sg_pinned sg = sg_nents sg then req
                    else sg_pinned sg * PAGE_SIZE
                         - ucast (ucast (off AND (PAGE_SIZE - 1)) :: u32)))"
proof (cases "kmalloc_ok env (length tr) Cma_bo_obj \<and> cpuva bo \<noteq> 0")
  case False
  then show ?thesis
    using r v
    by (auto simp: kfd_create_cma_system_bo_def Let_def EINVAL_def split: if_split_asm
        dest: cma_system_bo_pdd_fail_none)
next
  case True
  then obtain ret size1 bo_size sgo tr2 where
    s: "kfd_create_sg_table_from_userptr_bo env bo off w mm task req (tr @ [Kmalloc Cma_bo_obj])
        = Returns (ret, size1, bo_size, sgo, tr2)"
    using r v
    by (simp add: kfd_create_cma_system_bo_def Let_def split: outcome.splits prod.splits)
  have z: "ret = 0"
    using r v True s by (auto simp: kfd_create_cma_system_bo_def Let_def split: if_split_asm)
  have c: "err = 0 \<and> sz1 = size1 \<and> cbo_sg cbo = sgo"
    using r v True s z
    by (auto simp: kfd_create_cma_system_bo_def Let_def split: if_split_asm option.splits
        dest: cma_system_bo_pdd_fail_none)
  show ?thesis
    using c sg_table_size[OF s[unfolded z]] by simp
qed


lemma kfd_copy_bos_userptr_src:
  assumes b: "ci_cur_bo si = Some src_bo" "ci_cur_bo di = Some dst_bo"
    and k: "cpuva src_bo \<noteq> 0" "cpuva dst_bo = 0"
    and v: "mem_type src_bo \<noteq> KFD_IOC_ALLOC_MEM_FLAGS_VRAM"
    and r: "kfd_copy_bos fuel env si di w req tmp tr = Returns (0, f, n, si1, di1, tmp1, tr1)"
  shows "\<exists>cbo sg tr0.
           ci_cma_list si1 = ci_cma_list si @ [cbo] \<and> cbo_sg cbo = Some sg
         \<and> tr1 = tr0 @ [Copy_mem_to_mem (dev_kgd (bo_dev dst_bo)) (cbo_mem cbo)
                          (ci_bo_offset si AND (PAGE_SIZE - 1)) (bo_mem dst_bo) (ci_bo_offset di)
                          (if sg_pinned sg = sg_nents sg then req
                           else sg_pinned sg * PAGE_SIZE
                                - ucast (ucast (ci_bo_offset si AND (PAGE_SIZE - 1)) :: u32))]"
proof -
  from r obtain err sz1 cbo tr0 where
    c: "kfd_create_cma_system_bo env (bo_dev dst_bo) src_bo req (ci_bo_offset si) w
          (ci_p si) (ci_mm si) (ci_task si) tr = Returns (err, sz1, Some cbo, tr0)" and
    d: "kfd_copy_bos_copy env (bo_dev dst_bo) (cbo_mem cbo) (ci_bo_offset si AND (PAGE_SIZE - 1))
          (bo_mem dst_bo) (ci_bo_offset di) sz1 err False
          (si \<lparr> ci_cma_bo := Some cbo, ci_cma_list := ci_cma_list si @ [cbo] \<rparr>) di tmp tr0
        = Returns (0, f, n, si1, di1, tmp1, tr1)"
    by (auto simp: kfd_copy_bos_def b k split: outcome.splits option.splits)
  from cma_system_bo_userptr[OF v c] obtain sg where
    e: "err = 0" "cbo_sg cbo = Some sg"
       "sz1 = (if sg_pinned sg = sg_nents sg then req
               else sg_pinned sg * PAGE_SIZE
                    - ucast (ucast (ci_bo_offset si AND (PAGE_SIZE - 1)) :: u32))"
    by auto
  show ?thesis
    using kfd_copy_bos_copy_iters[OF d] kfd_copy_bos_copy_direct[OF d[unfolded e(1)]] e(2,3)
    by auto
qed

lemma kfd_copy_bos_userptr_dst:
  assumes b: "ci_cur_bo si = Some src_bo" "ci_cur_bo di = Some dst_bo"
    and k: "cpuva src_bo = 0" "cpuva dst_bo \<noteq> 0"
    and v: "mem_type dst_bo \<noteq> KFD_IOC_ALLOC_MEM_FLAGS_VRAM"
    and r: "kfd_copy_bos fuel env si di w req tmp tr = Returns (0, f, n, si1, di1, tmp1, tr1)"
  shows "\<exists>cbo sg tr0.
           ci_cma_list di1 = ci_cma_list di @ [cbo] \<and> cbo_sg cbo = Some sg
         \<and> tr1 = tr0 @ [Copy_mem_to_mem (dev_kgd (bo_dev src_bo)) (bo_mem src_bo) (ci_bo_offset si)
                          (cbo_mem cbo) (ci_bo_offset di AND (PAGE_SIZE - 1))
                          (if sg_pinned sg = sg_nents sg then req
                           else sg_pinned sg * PAGE_SIZE
                                - ucast (ucast (ci_bo_offset di AND (PAGE_SIZE - 1)) :: u32))]"
proof -
  from r obtain err sz1 cbo tr0 where
    c: "kfd_create_cma_system_bo env (bo_dev src_bo) dst_bo req (ci_bo_offset di) w
          (ci_p di) (ci_mm di) (ci_task di) tr = Returns (err, sz1, Some cbo, tr0)" and
    d: "kfd_copy_bos_copy env (bo_dev src_bo) (bo_mem src_bo) (ci_bo_offset si)
          (cbo_mem cbo) (ci_bo_offset di AND (PAGE_SIZE - 1)) sz1 err False si
          (di \<lparr> ci_cma_bo := Some cbo, ci_cma_list := ci_cma_list di @ [cbo] \<rparr>) tmp tr0
        = Returns (0, f, n, si1, di1, tmp1, tr1)"
    by (auto simp: kfd_copy_bos_def b k split: outcome.splits option.splits)
  from cma_system_bo_userptr[OF v c] obtain sg where
    e: "err = 0" "cbo_sg cbo = Some sg"
       "sz1 = (if sg_pinned sg = sg_nents sg then req
               else sg_pinned sg * PAGE_SIZE
                    - ucast (ucast (ci_bo_offset di AND (PAGE_SIZE - 1)) :: u32))"
    by auto
  show ?thesis
    using kfd_copy_bos_copy_iters[OF d] kfd_copy_bos_copy_direct[OF d[unfolded e(1)]] e(2,3)
    by auto
qed

lemma kfd_copy_bos_copy_result:
  assumes "kfd_copy_bos_copy env dev sm so dm d_o sz err d2d si di tmp tr
           = Returns (r, f, n, si', di', tmp', tr')"
  shows "tmp' = tmp \<and> prefix tr tr'"
  using kfd_copy_bos_copy_iters[OF assms] kfd_copy_bos_copy_prefix[OF assms] by simp

lemma max_system_bo_size_nonzero: "MAX_SYSTEM_BO_SIZE \<noteq> 0"
  by (simp add: MAX_SYSTEM_BO_SIZE_def PAGE_SIZE_def)

lemma kfd_create_kgd_mem_ok:
  "kfd_create_kgd_mem env kdev sz p 0 tr = (0, m, tr') \<Longrightarrow>
   tr' = tr @ [Alloc_memory_of_gpu (dev_kgd kdev) sz None]"
  by (auto simp: kfd_create_kgd_mem_def Let_def EINVAL_def split: option.splits if_split_asm)

lemma kfd_copy_bos_d2d:
  assumes b: "ci_cur_bo si = Some src_bo" "ci_cur_bo di = Some dst_bo"
    and k: "cpuva src_bo = 0" "cpuva dst_bo = 0"
    and d: "dev_kgd (bo_dev src_bo) \<noteq> dev_kgd (bo_dev dst_bo)"
    and v: "mem_type src_bo = KFD_IOC_ALLOC_MEM_FLAGS_VRAM"
           "mem_type dst_bo = KFD_IOC_ALLOC_MEM_FLAGS_VRAM"
    and r: "kfd_copy_bos fuel env si di w req tmp tr = Returns (0, f, n, si1, di1, tmp1, tr1)"
  shows "prefix (tr @ (if tmp = 0
                       then [Alloc_memory_of_gpu (dev_kgd (bo_dev src_bo)) MAX_SYSTEM_BO_SIZE None]
                       else [])
                    @ [Copy_mem_to_mem (dev_kgd (bo_dev src_bo)) (bo_mem src_bo) (ci_bo_offset si)
                         tmp1 0 (min req MAX_SYSTEM_BO_SIZE)]) tr1"
proof -
  define made where "made = (if tmp = 0
                          then kfd_create_kgd_mem env (bo_dev src_bo) MAX_SYSTEM_BO_SIZE (ci_p si)
                                 tmp tr
                          else (0, tmp, tr))"
  obtain r0 tmp0 tr0 where m: "made = (r0, tmp0, tr0)"
    by (cases made) auto
  have r': "(if r0 \<noteq> 0 then Returns (- EINVAL, None, 0, si, di, tmp0, tr0)
             else
               let c = copy_mem_to_mem env (length tr0) (dev_kgd (bo_dev src_bo))
                         (bo_mem src_bo) (ci_bo_offset si) tmp0 0 (min req MAX_SYSTEM_BO_SIZE);
                   tr2 = tr0 @ [Copy_mem_to_mem (dev_kgd (bo_dev src_bo)) (bo_mem src_bo)
                                  (ci_bo_offset si) tmp0 0 (min req MAX_SYSTEM_BO_SIZE)];
                   f1 = fst (snd c);
                   sz2 = snd (snd c)
               in if fst c \<noteq> 0 then Returns (- EINVAL, f1, 0, si, di, tmp0, tr2)
                  else (case kfd_cma_fence_wait env f1 tr2 of
                          Oops \<Rightarrow> Oops
                        | Out_of_fuel \<Rightarrow> Out_of_fuel
                        | Returns (w, tr3) \<Rightarrow>
                            kfd_copy_bos_copy env (bo_dev dst_bo) tmp0 0
                              (bo_mem dst_bo) (ci_bo_offset di) sz2 0 True
                              si di tmp0 (dma_fence_put f1 tr3)))
            = Returns (0, f, n, si1, di1, tmp1, tr1)"
    using r m unfolding made_def
    by (simp add: kfd_copy_bos_def b k d v Let_def)
  have z: "r0 = 0"
    using r' by (auto simp: EINVAL_def split: if_split_asm)
  have t0: "tr0 = tr @ (if tmp = 0
                       then [Alloc_memory_of_gpu (dev_kgd (bo_dev src_bo)) MAX_SYSTEM_BO_SIZE None]
                       else [])"
    using m z kfd_create_kgd_mem_ok[of env "bo_dev src_bo" MAX_SYSTEM_BO_SIZE "ci_p si" tr tmp0 tr0]
    unfolding made_def by (auto split: if_split_asm)
  have "tmp1 = tmp0 \<and> prefix (tr0 @ [Copy_mem_to_mem (dev_kgd (bo_dev src_bo)) (bo_mem src_bo)
                                  (ci_bo_offset si) tmp0 0 (min req MAX_SYSTEM_BO_SIZE)]) tr1"
    using r' z
    by (auto simp: Let_def EINVAL_def split: if_split_asm outcome.splits
        dest!: kfd_copy_bos_copy_result kfd_cma_fence_wait_prefix
        elim!: prefix_after intro: dma_fence_put_prefix_after)
  then show ?thesis
    unfolding t0 by simp
qed


lemma advance_remaining:
  assumes a: "kfd_cma_iter_advance ci n = Returns (0, ci')"
    and s: "sz = range_size (ci_array ci 0) - ci_offset ci"
  shows "sz - n = 0 \<or> sz - n = range_size (ci_array ci' 0) - ci_offset ci'"
proof (cases "ci_offset ci + n = range_size (ci_array ci 0)")
  case True
  have "sz - n = (ci_offset ci + n) - ci_offset ci - n"
    unfolding s True by simp
  then show ?thesis by simp
next
  case False
  have "ci_array ci' = ci_array ci \<and> ci_offset ci' = ci_offset ci + n"
    using a False
    by (auto simp: kfd_cma_iter_advance_def Let_def EFAULT_def split: if_split_asm option.splits)
  then show ?thesis
    unfolding s by (simp add: diff_diff_add)
qed

lemma single_range_loop_step:
  assumes "sz \<noteq> 0" and "\<not> kfd_cma_iter_end di"
    and "kfd_copy_bos fuel env si di cma_write
           (min sz (range_size (ci_array di 0) - ci_offset di)) tmp_mem tr
         = Returns (0, fence, n, si1, di1, tmp1, tr1)"
    and "new_fence_step env fence lfence tr1 = Returns (0, lfence1, tr2)"
    and "kfd_cma_iter_advance si1 n = Returns (0, si2)"
    and "kfd_cma_iter_advance di1 n = Returns (0, di2)"
  shows "kfd_copy_single_range_loop (Suc fuel) env cma_write (sz, copied, lfence, si, di, tmp_mem, tr)
         = kfd_copy_single_range_loop fuel env cma_write
             (sz - n, copied + n, lfence1, si2, di2, tmp1, tr2)"
  apply (subst kfd_copy_single_range_loop.simps)
  apply (simp add: assms Let_def)
  done

lemmas engine_defs =
  kfd_copy_bos_def kfd_copy_bos_copy_def kfd_create_cma_system_bo_def
  kfd_create_sg_table_from_userptr_bo_def kfd_create_kgd_mem_def kfd_cma_fence_wait_def
  dma_fence_put_def dma_fence_get_def new_fence_step_def kfd_fence_put_wait_if_diff_context_def
  kfd_cma_iter_advance_def PAGE_SIZE_def PAGE_MASK_def MAX_SYSTEM_BO_SIZE_def Let_def

lemmas example_defs2 =
  example_defs bo_vram_second_def bo_userptr_def dev_second_def process_example_def
  sg_example_def shadow_example_def fence_shadow_def iter_half_def

lemma copy_bos_example_d2d:
  "kfd_copy_bos (Suc 0) env_example (iter_on bo_vram_first) (iter_on bo_vram_second) False
     (min 0x400000 (range_size (ci_array (iter_on bo_vram_second) 0) - ci_offset (iter_on bo_vram_second)))
     0 []
   = Returns (0, None, 0x200000, iter_on bo_vram_first, iter_on bo_vram_second, 100,
       [Alloc_memory_of_gpu 11 0x200000 None,
        Copy_mem_to_mem 11 8 0 100 0 0x200000,
        Dma_fence_wait_timeout \<lparr> fence_seqno = 1, fence_context = 11 \<rparr> CMA_WAIT_TIMEOUT_MSECS,
        Dma_fence_put \<lparr> fence_seqno = 1, fence_context = 11 \<rparr>,
        Copy_mem_to_mem 12 100 0 6 0 0x200000,
        Dma_fence_wait_timeout \<lparr> fence_seqno = 4, fence_context = 12 \<rparr> CMA_WAIT_TIMEOUT_MSECS,
        Dma_fence_put \<lparr> fence_seqno = 4, fence_context = 12 \<rparr>])"
  by (simp add: engine_defs example_defs2)

lemma copy_bos_example_userptr_src:
  "kfd_copy_bos (Suc 0) env_example (iter_on bo_userptr) (iter_on bo_vram_second) False
     (min 0x400000 (range_size (ci_array (iter_on bo_vram_second) 0) - ci_offset (iter_on bo_vram_second)))
     0 []
   = Returns (0, Some fence_shadow, 0x400000,
       (iter_on bo_userptr) \<lparr> ci_cma_bo := Some shadow_example, ci_cma_list := [shadow_example] \<rparr>,
       iter_on bo_vram_second, 0,
       [Kmalloc Cma_bo_obj, Kmalloc Sg_table_obj, Sg_alloc_table 1024, Kmalloc Page_array,
        Get_user_pages (Some 51) 41 0x7F0000000000 1024 False, Kfree Page_array,
        Alloc_memory_of_gpu 12 0x400000 (Some sg_example),
        Copy_mem_to_mem 12 106 0 6 0 0x400000])"
  by (simp add: engine_defs example_defs2)

lemma copy_bos_example_userptr_dst:
  "kfd_copy_bos (Suc 0) env_example (iter_on bo_vram_second) (iter_on bo_userptr) False
     (min 0x400000 (range_size (ci_array (iter_on bo_userptr) 0) - ci_offset (iter_on bo_userptr)))
     0 []
   = Returns (0, Some fence_shadow, 0x400000, iter_on bo_vram_second,
       (iter_on bo_userptr) \<lparr> ci_cma_bo := Some shadow_example, ci_cma_list := [shadow_example] \<rparr>,
       0,
       [Kmalloc Cma_bo_obj, Kmalloc Sg_table_obj, Sg_alloc_table 1024, Kmalloc Page_array,
        Get_user_pages (Some 51) 41 0x7F0000000000 1024 False, Kfree Page_array,
        Alloc_memory_of_gpu 12 0x400000 (Some sg_example),
        Copy_mem_to_mem 12 6 0 106 0 0x400000])"
  by (simp add: engine_defs example_defs2)

lemma advance_example_half:
  "kfd_cma_iter_advance (iter_on bo_vram_first) 0x200000 = Returns (0, iter_half bo_vram_first)"
  "kfd_cma_iter_advance (iter_on bo_vram_second) 0x200000 = Returns (0, iter_half bo_vram_second)"
  by (simp_all add: engine_defs example_defs2)

lemma advance_example_shadow:
  "kfd_cma_iter_advance
     ((iter_on bo) \<lparr> ci_cma_bo := Some shadow_example, ci_cma_list := [shadow_example] \<rparr>) 0x400000
   = Returns (0, (iter_done bo) \<lparr> ci_cma_bo := Some shadow_example,
                                   ci_cma_list := [shadow_example] \<rparr>)"
  by (simp add: engine_defs example_defs2)

lemma new_fence_step_first:
  "new_fence_step env (Some f) None tr = Returns (0, Some f, tr)"
  "new_fence_step env None lf tr = Returns (0, lf, tr)"
  by (simp_all add: engine_defs)

text \<open>
  Claim C1, as the code has it. In an iteration of the loop of \<^verbatim>\<open>kfd_copy_single_range\<close>
  the size handed to \<^verbatim>\<open>kfd_copy_bos\<close> is the minimum of \<^verbatim>\<open>size\<close>, which is what is left of the
  current source range, and of what is left of the current destination range. When the
  iteration succeeds, \<^verbatim>\<open>size\<close> decreases and \<^verbatim>\<open>*copied\<close> increases by the count \<open>n\<close> that
  \<^verbatim>\<open>kfd_copy_bos\<close> reports, and both iterators are advanced by that \<open>n\<close>. What the device is
  asked to copy depends on the path:
  \<^item> neither buffer is a userptr buffer, and the two are on the same device or not both in
    device memory: one copy of exactly that size;
  \<^item> both in device memory of different devices: the first copy, into the intermediate
    buffer of \<^verbatim>\<open>MAX_SYSTEM_BO_SIZE\<close> bytes, is of that size capped at \<^verbatim>\<open>MAX_SYSTEM_BO_SIZE\<close>;
  \<^item> one buffer is a userptr buffer: a shadow buffer is made from its pinned pages and
    put on the list of its iterator, and the copy is of that size, not capped, unless
    fewer pages than asked for were pinned, and then of the bytes that were pinned.
\<close>

theorem kfd_copy_single_range_segment:
  assumes live: "sz \<noteq> 0" "\<not> kfd_cma_iter_end di"
    and bos: "ci_cur_bo si = Some src_bo" "ci_cur_bo di = Some dst_bo"
    and copy: "kfd_copy_bos fuel env si di cma_write
                 (min sz (range_size (ci_array di 0) - ci_offset di)) tmp_mem tr
               = Returns (0, fence, n, si1, di1, tmp1, tr1)"
    and fence: "new_fence_step env fence lfence tr1 = Returns (0, lfence1, tr2)"
    and adv: "kfd_cma_iter_advance si1 n = Returns (0, si2)"
             "kfd_cma_iter_advance di1 n = Returns (0, di2)"
  shows
    "kfd_copy_single_range_loop (Suc fuel) env cma_write (sz, copied, lfence, si, di, tmp_mem, tr)
       = kfd_copy_single_range_loop fuel env cma_write
           (sz - n, copied + n, lfence1, si2, di2, tmp1, tr2)
     \<and> unat n + unat (ci_total si2) = unat (ci_total si)
     \<and> unat n + unat (ci_total di2) = unat (ci_total di)
     \<and> (sz = range_size (ci_array si 0) - ci_offset si
        \<longrightarrow> sz - n = 0 \<or> sz - n = range_size (ci_array si2 0) - ci_offset si2)
     \<and> (cpuva src_bo = 0 \<and> cpuva dst_bo = 0
          \<and> (dev_kgd (bo_dev src_bo) = dev_kgd (bo_dev dst_bo)
              \<or> mem_type src_bo \<noteq> KFD_IOC_ALLOC_MEM_FLAGS_VRAM
              \<or> mem_type dst_bo \<noteq> KFD_IOC_ALLOC_MEM_FLAGS_VRAM)
        \<longrightarrow> (\<exists>kgd. tr1 = tr @ [Copy_mem_to_mem kgd (bo_mem src_bo) (ci_bo_offset si)
                                    (bo_mem dst_bo) (ci_bo_offset di)
                                    (min sz (range_size (ci_array di 0) - ci_offset di))]))
     \<and> (cpuva src_bo = 0 \<and> cpuva dst_bo = 0
          \<and> dev_kgd (bo_dev src_bo) \<noteq> dev_kgd (bo_dev dst_bo)
          \<and> mem_type src_bo = KFD_IOC_ALLOC_MEM_FLAGS_VRAM
          \<and> mem_type dst_bo = KFD_IOC_ALLOC_MEM_FLAGS_VRAM
        \<longrightarrow> prefix (tr @ (if tmp_mem = 0
                            then [Alloc_memory_of_gpu (dev_kgd (bo_dev src_bo)) MAX_SYSTEM_BO_SIZE None]
                            else [])
                         @ [Copy_mem_to_mem (dev_kgd (bo_dev src_bo)) (bo_mem src_bo) (ci_bo_offset si)
                              tmp1 0
                              (min (min sz (range_size (ci_array di 0) - ci_offset di))
                                   MAX_SYSTEM_BO_SIZE)]) tr1)
     \<and> (cpuva src_bo \<noteq> 0 \<and> cpuva dst_bo = 0 \<and> mem_type src_bo \<noteq> KFD_IOC_ALLOC_MEM_FLAGS_VRAM
        \<longrightarrow> (\<exists>cbo sg tr0.
               ci_cma_list si1 = ci_cma_list si @ [cbo] \<and> cbo_sg cbo = Some sg
             \<and> tr1 = tr0 @ [Copy_mem_to_mem (dev_kgd (bo_dev dst_bo)) (cbo_mem cbo)
                              (ci_bo_offset si AND (PAGE_SIZE - 1)) (bo_mem dst_bo) (ci_bo_offset di)
                              (if sg_pinned sg = sg_nents sg
                               then min sz (range_size (ci_array di 0) - ci_offset di)
                               else sg_pinned sg * PAGE_SIZE
                                    - ucast (ucast (ci_bo_offset si AND (PAGE_SIZE - 1)) :: u32))]))
     \<and> (cpuva src_bo = 0 \<and> cpuva dst_bo \<noteq> 0 \<and> mem_type dst_bo \<noteq> KFD_IOC_ALLOC_MEM_FLAGS_VRAM
        \<longrightarrow> (\<exists>cbo sg tr0.
               ci_cma_list di1 = ci_cma_list di @ [cbo] \<and> cbo_sg cbo = Some sg
             \<and> tr1 = tr0 @ [Copy_mem_to_mem (dev_kgd (bo_dev src_bo)) (bo_mem src_bo) (ci_bo_offset si)
                              (cbo_mem cbo) (ci_bo_offset di AND (PAGE_SIZE - 1))
                              (if sg_pinned sg = sg_nents sg
                               then min sz (range_size (ci_array di 0) - ci_offset di)
                               else sg_pinned sg * PAGE_SIZE
                                    - ucast (ucast (ci_bo_offset di AND (PAGE_SIZE - 1)) :: u32))]))"
proof -
  note pos = kfd_copy_bos_position[OF copy]
  have p1: "kfd_copy_single_range_loop (Suc fuel) env cma_write (sz, copied, lfence, si, di, tmp_mem, tr)
       = kfd_copy_single_range_loop fuel env cma_write
           (sz - n, copied + n, lfence1, si2, di2, tmp1, tr2)"
    by (rule single_range_loop_step[OF live copy fence adv])
  have p2: "unat n + unat (ci_total si2) = unat (ci_total si)"
    using advance_total[OF adv(1)] pos by simp
  have p3: "unat n + unat (ci_total di2) = unat (ci_total di)"
    using advance_total[OF adv(2)] pos by simp
  have p4: "sz - n = 0 \<or> sz - n = range_size (ci_array si2 0) - ci_offset si2"
    if "sz = range_size (ci_array si 0) - ci_offset si"
    using advance_remaining[OF adv(1), of sz] that pos by simp
  have p5: "\<exists>kgd. tr1 = tr @ [Copy_mem_to_mem kgd (bo_mem src_bo) (ci_bo_offset si)
                                    (bo_mem dst_bo) (ci_bo_offset di)
                                    (min sz (range_size (ci_array di 0) - ci_offset di))]"
    if "cpuva src_bo = 0" "cpuva dst_bo = 0"
       "dev_kgd (bo_dev src_bo) = dev_kgd (bo_dev dst_bo)
              \<or> mem_type src_bo \<noteq> KFD_IOC_ALLOC_MEM_FLAGS_VRAM
              \<or> mem_type dst_bo \<noteq> KFD_IOC_ALLOC_MEM_FLAGS_VRAM"
    using copy that
    by (auto simp: kfd_copy_bos_def bos split: if_split_asm dest!: kfd_copy_bos_copy_direct)
  have p6: "prefix (tr @ (if tmp_mem = 0
                            then [Alloc_memory_of_gpu (dev_kgd (bo_dev src_bo)) MAX_SYSTEM_BO_SIZE None]
                            else [])
                         @ [Copy_mem_to_mem (dev_kgd (bo_dev src_bo)) (bo_mem src_bo) (ci_bo_offset si)
                              tmp1 0
                              (min (min sz (range_size (ci_array di 0) - ci_offset di))
                                   MAX_SYSTEM_BO_SIZE)]) tr1"
    if "cpuva src_bo = 0" "cpuva dst_bo = 0" "dev_kgd (bo_dev src_bo) \<noteq> dev_kgd (bo_dev dst_bo)"
       "mem_type src_bo = KFD_IOC_ALLOC_MEM_FLAGS_VRAM" "mem_type dst_bo = KFD_IOC_ALLOC_MEM_FLAGS_VRAM"
    by (rule kfd_copy_bos_d2d[OF bos that copy])
  note p7 = kfd_copy_bos_userptr_src[OF bos _ _ _ copy]
  note p8 = kfd_copy_bos_userptr_dst[OF bos _ _ _ copy]
  show ?thesis
    apply (intro conjI impI)
           apply (rule p1)
          apply (rule p2)
         apply (rule p3)
        apply (erule p4)
       apply (rule p5; simp)
      apply (rule p6; simp)
     apply (rule p7; simp)
    apply (rule p8; simp)
    done
qed

theorem kfd_copy_single_range_segment_witness:
  "(0x400000 :: u64) \<noteq> 0
   \<and> \<not> kfd_cma_iter_end (iter_on bo_vram_other)
   \<and> ci_cur_bo (iter_on bo_vram_first) = Some bo_vram_first
   \<and> ci_cur_bo (iter_on bo_vram_other) = Some bo_vram_other
   \<and> kfd_copy_bos (Suc 0) env_example (iter_on bo_vram_first) (iter_on bo_vram_other) False
       (min 0x400000 (range_size (ci_array (iter_on bo_vram_other) 0) - ci_offset (iter_on bo_vram_other))) 0 []
     = Returns (0, (Some fence_first), 0x400000, (iter_on bo_vram_first), (iter_on bo_vram_other), 0,
       [Copy_mem_to_mem 11 8 0 9 0 0x400000])
   \<and> new_fence_step env_example (Some fence_first) None
       [Copy_mem_to_mem 11 8 0 9 0 0x400000]
     = Returns (0, (Some fence_first),
       [Copy_mem_to_mem 11 8 0 9 0 0x400000])
   \<and> kfd_cma_iter_advance (iter_on bo_vram_first) 0x400000 = Returns (0, (iter_done bo_vram_first))
   \<and> kfd_cma_iter_advance (iter_on bo_vram_other) 0x400000 = Returns (0, (iter_done bo_vram_other))
   \<and> cpuva bo_vram_first = 0
   \<and> cpuva bo_vram_other = 0
   \<and> dev_kgd (bo_dev bo_vram_first) = dev_kgd (bo_dev bo_vram_other)
   \<and> kfd_copy_single_range_loop (Suc (Suc 0)) env_example False
       (0x400000, 0, None, (iter_on bo_vram_first), (iter_on bo_vram_other), 0, [])
     = kfd_copy_single_range_loop (Suc 0) env_example False
         (0, 0x400000, (Some fence_first), (iter_done bo_vram_first), (iter_done bo_vram_other), 0,
          [Copy_mem_to_mem 11 8 0 9 0 0x400000])
   \<and> (\<exists>kgd. [Copy_mem_to_mem 11 8 0 9 0 0x400000]
        = [] @ [Copy_mem_to_mem kgd (bo_mem bo_vram_first) (ci_bo_offset (iter_on bo_vram_first))
                  (bo_mem bo_vram_other) (ci_bo_offset (iter_on bo_vram_other))
                  (min 0x400000 (range_size (ci_array (iter_on bo_vram_other) 0) - ci_offset (iter_on bo_vram_other)))])
   \<and> \<not> kfd_cma_iter_end (iter_on bo_vram_second)
   \<and> ci_cur_bo (iter_on bo_vram_first) = Some bo_vram_first
   \<and> ci_cur_bo (iter_on bo_vram_second) = Some bo_vram_second
   \<and> kfd_copy_bos (Suc 0) env_example (iter_on bo_vram_first) (iter_on bo_vram_second) False
       (min 0x400000 (range_size (ci_array (iter_on bo_vram_second) 0) - ci_offset (iter_on bo_vram_second))) 0 []
     = Returns (0, None, 0x200000, (iter_on bo_vram_first), (iter_on bo_vram_second), 100,
       [Alloc_memory_of_gpu 11 0x200000 None,
        Copy_mem_to_mem 11 8 0 100 0 0x200000,
        Dma_fence_wait_timeout \<lparr> fence_seqno = 1, fence_context = 11 \<rparr> CMA_WAIT_TIMEOUT_MSECS,
        Dma_fence_put \<lparr> fence_seqno = 1, fence_context = 11 \<rparr>,
        Copy_mem_to_mem 12 100 0 6 0 0x200000,
        Dma_fence_wait_timeout \<lparr> fence_seqno = 4, fence_context = 12 \<rparr> CMA_WAIT_TIMEOUT_MSECS,
        Dma_fence_put \<lparr> fence_seqno = 4, fence_context = 12 \<rparr>])
   \<and> new_fence_step env_example None None
       [Alloc_memory_of_gpu 11 0x200000 None,
        Copy_mem_to_mem 11 8 0 100 0 0x200000,
        Dma_fence_wait_timeout \<lparr> fence_seqno = 1, fence_context = 11 \<rparr> CMA_WAIT_TIMEOUT_MSECS,
        Dma_fence_put \<lparr> fence_seqno = 1, fence_context = 11 \<rparr>,
        Copy_mem_to_mem 12 100 0 6 0 0x200000,
        Dma_fence_wait_timeout \<lparr> fence_seqno = 4, fence_context = 12 \<rparr> CMA_WAIT_TIMEOUT_MSECS,
        Dma_fence_put \<lparr> fence_seqno = 4, fence_context = 12 \<rparr>]
     = Returns (0, None,
       [Alloc_memory_of_gpu 11 0x200000 None,
        Copy_mem_to_mem 11 8 0 100 0 0x200000,
        Dma_fence_wait_timeout \<lparr> fence_seqno = 1, fence_context = 11 \<rparr> CMA_WAIT_TIMEOUT_MSECS,
        Dma_fence_put \<lparr> fence_seqno = 1, fence_context = 11 \<rparr>,
        Copy_mem_to_mem 12 100 0 6 0 0x200000,
        Dma_fence_wait_timeout \<lparr> fence_seqno = 4, fence_context = 12 \<rparr> CMA_WAIT_TIMEOUT_MSECS,
        Dma_fence_put \<lparr> fence_seqno = 4, fence_context = 12 \<rparr>])
   \<and> kfd_cma_iter_advance (iter_on bo_vram_first) 0x200000 = Returns (0, (iter_half bo_vram_first))
   \<and> kfd_cma_iter_advance (iter_on bo_vram_second) 0x200000 = Returns (0, (iter_half bo_vram_second))
   \<and> cpuva bo_vram_first = 0
   \<and> cpuva bo_vram_second = 0
   \<and> dev_kgd (bo_dev bo_vram_first) \<noteq> dev_kgd (bo_dev bo_vram_second)
   \<and> mem_type bo_vram_first = KFD_IOC_ALLOC_MEM_FLAGS_VRAM
   \<and> mem_type bo_vram_second = KFD_IOC_ALLOC_MEM_FLAGS_VRAM
   \<and> kfd_copy_single_range_loop (Suc (Suc 0)) env_example False
       (0x400000, 0, None, (iter_on bo_vram_first), (iter_on bo_vram_second), 0, [])
     = kfd_copy_single_range_loop (Suc 0) env_example False
         (0x200000, 0x200000, None, (iter_half bo_vram_first), (iter_half bo_vram_second), 100,
          [Alloc_memory_of_gpu 11 0x200000 None,
        Copy_mem_to_mem 11 8 0 100 0 0x200000,
        Dma_fence_wait_timeout \<lparr> fence_seqno = 1, fence_context = 11 \<rparr> CMA_WAIT_TIMEOUT_MSECS,
        Dma_fence_put \<lparr> fence_seqno = 1, fence_context = 11 \<rparr>,
        Copy_mem_to_mem 12 100 0 6 0 0x200000,
        Dma_fence_wait_timeout \<lparr> fence_seqno = 4, fence_context = 12 \<rparr> CMA_WAIT_TIMEOUT_MSECS,
        Dma_fence_put \<lparr> fence_seqno = 4, fence_context = 12 \<rparr>])
   \<and> prefix ([] @ [Alloc_memory_of_gpu (dev_kgd (bo_dev bo_vram_first)) MAX_SYSTEM_BO_SIZE None]
        @ [Copy_mem_to_mem (dev_kgd (bo_dev bo_vram_first)) (bo_mem bo_vram_first)
             (ci_bo_offset (iter_on bo_vram_first)) 100 0
             (min (min 0x400000 (range_size (ci_array (iter_on bo_vram_second) 0) - ci_offset (iter_on bo_vram_second))) MAX_SYSTEM_BO_SIZE)])
       [Alloc_memory_of_gpu 11 0x200000 None,
        Copy_mem_to_mem 11 8 0 100 0 0x200000,
        Dma_fence_wait_timeout \<lparr> fence_seqno = 1, fence_context = 11 \<rparr> CMA_WAIT_TIMEOUT_MSECS,
        Dma_fence_put \<lparr> fence_seqno = 1, fence_context = 11 \<rparr>,
        Copy_mem_to_mem 12 100 0 6 0 0x200000,
        Dma_fence_wait_timeout \<lparr> fence_seqno = 4, fence_context = 12 \<rparr> CMA_WAIT_TIMEOUT_MSECS,
        Dma_fence_put \<lparr> fence_seqno = 4, fence_context = 12 \<rparr>]
   \<and> \<not> kfd_cma_iter_end (iter_on bo_vram_second)
   \<and> ci_cur_bo (iter_on bo_userptr) = Some bo_userptr
   \<and> ci_cur_bo (iter_on bo_vram_second) = Some bo_vram_second
   \<and> kfd_copy_bos (Suc 0) env_example (iter_on bo_userptr) (iter_on bo_vram_second) False
       (min 0x400000 (range_size (ci_array (iter_on bo_vram_second) 0) - ci_offset (iter_on bo_vram_second))) 0 []
     = Returns (0, (Some fence_shadow), 0x400000, ((iter_on bo_userptr) \<lparr> ci_cma_bo := Some shadow_example, ci_cma_list := [shadow_example] \<rparr>), (iter_on bo_vram_second), 0,
       [Kmalloc Cma_bo_obj, Kmalloc Sg_table_obj, Sg_alloc_table 1024, Kmalloc Page_array,
        Get_user_pages (Some 51) 41 0x7F0000000000 1024 False, Kfree Page_array,
        Alloc_memory_of_gpu 12 0x400000 (Some sg_example),
        Copy_mem_to_mem 12 106 0 6 0 0x400000])
   \<and> new_fence_step env_example (Some fence_shadow) None
       [Kmalloc Cma_bo_obj, Kmalloc Sg_table_obj, Sg_alloc_table 1024, Kmalloc Page_array,
        Get_user_pages (Some 51) 41 0x7F0000000000 1024 False, Kfree Page_array,
        Alloc_memory_of_gpu 12 0x400000 (Some sg_example),
        Copy_mem_to_mem 12 106 0 6 0 0x400000]
     = Returns (0, (Some fence_shadow),
       [Kmalloc Cma_bo_obj, Kmalloc Sg_table_obj, Sg_alloc_table 1024, Kmalloc Page_array,
        Get_user_pages (Some 51) 41 0x7F0000000000 1024 False, Kfree Page_array,
        Alloc_memory_of_gpu 12 0x400000 (Some sg_example),
        Copy_mem_to_mem 12 106 0 6 0 0x400000])
   \<and> kfd_cma_iter_advance ((iter_on bo_userptr) \<lparr> ci_cma_bo := Some shadow_example, ci_cma_list := [shadow_example] \<rparr>) 0x400000 = Returns (0, ((iter_done bo_userptr) \<lparr> ci_cma_bo := Some shadow_example, ci_cma_list := [shadow_example] \<rparr>))
   \<and> kfd_cma_iter_advance (iter_on bo_vram_second) 0x400000 = Returns (0, (iter_done bo_vram_second))
   \<and> cpuva bo_userptr \<noteq> 0
   \<and> cpuva bo_vram_second = 0
   \<and> mem_type bo_userptr \<noteq> KFD_IOC_ALLOC_MEM_FLAGS_VRAM
   \<and> kfd_copy_single_range_loop (Suc (Suc 0)) env_example False
       (0x400000, 0, None, (iter_on bo_userptr), (iter_on bo_vram_second), 0, [])
     = kfd_copy_single_range_loop (Suc 0) env_example False
         (0, 0x400000, (Some fence_shadow), ((iter_done bo_userptr) \<lparr> ci_cma_bo := Some shadow_example, ci_cma_list := [shadow_example] \<rparr>), (iter_done bo_vram_second), 0,
          [Kmalloc Cma_bo_obj, Kmalloc Sg_table_obj, Sg_alloc_table 1024, Kmalloc Page_array,
        Get_user_pages (Some 51) 41 0x7F0000000000 1024 False, Kfree Page_array,
        Alloc_memory_of_gpu 12 0x400000 (Some sg_example),
        Copy_mem_to_mem 12 106 0 6 0 0x400000])
   \<and> (\<exists>cbo sg tr0. ci_cma_list ((iter_on bo_userptr) \<lparr> ci_cma_bo := Some shadow_example, ci_cma_list := [shadow_example] \<rparr>) = ci_cma_list (iter_on bo_userptr) @ [cbo]
        \<and> cbo_sg cbo = Some sg
        \<and> [Kmalloc Cma_bo_obj, Kmalloc Sg_table_obj, Sg_alloc_table 1024, Kmalloc Page_array,
        Get_user_pages (Some 51) 41 0x7F0000000000 1024 False, Kfree Page_array,
        Alloc_memory_of_gpu 12 0x400000 (Some sg_example),
        Copy_mem_to_mem 12 106 0 6 0 0x400000]
          = tr0 @ [Copy_mem_to_mem (dev_kgd (bo_dev bo_vram_second)) (cbo_mem cbo)
                   (ci_bo_offset (iter_on bo_userptr) AND (PAGE_SIZE - 1)) (bo_mem bo_vram_second)
                   (ci_bo_offset (iter_on bo_vram_second))
                   (if sg_pinned sg = sg_nents sg
                    then (min 0x400000 (range_size (ci_array (iter_on bo_vram_second) 0) - ci_offset (iter_on bo_vram_second)))
                    else sg_pinned sg * PAGE_SIZE
                         - ucast (ucast (ci_bo_offset (iter_on bo_userptr) AND (PAGE_SIZE - 1)) :: u32))])
   \<and> \<not> kfd_cma_iter_end (iter_on bo_userptr)
   \<and> ci_cur_bo (iter_on bo_vram_second) = Some bo_vram_second
   \<and> ci_cur_bo (iter_on bo_userptr) = Some bo_userptr
   \<and> kfd_copy_bos (Suc 0) env_example (iter_on bo_vram_second) (iter_on bo_userptr) False
       (min 0x400000 (range_size (ci_array (iter_on bo_userptr) 0) - ci_offset (iter_on bo_userptr))) 0 []
     = Returns (0, (Some fence_shadow), 0x400000, (iter_on bo_vram_second), ((iter_on bo_userptr) \<lparr> ci_cma_bo := Some shadow_example, ci_cma_list := [shadow_example] \<rparr>), 0,
       [Kmalloc Cma_bo_obj, Kmalloc Sg_table_obj, Sg_alloc_table 1024, Kmalloc Page_array,
        Get_user_pages (Some 51) 41 0x7F0000000000 1024 False, Kfree Page_array,
        Alloc_memory_of_gpu 12 0x400000 (Some sg_example),
        Copy_mem_to_mem 12 6 0 106 0 0x400000])
   \<and> new_fence_step env_example (Some fence_shadow) None
       [Kmalloc Cma_bo_obj, Kmalloc Sg_table_obj, Sg_alloc_table 1024, Kmalloc Page_array,
        Get_user_pages (Some 51) 41 0x7F0000000000 1024 False, Kfree Page_array,
        Alloc_memory_of_gpu 12 0x400000 (Some sg_example),
        Copy_mem_to_mem 12 6 0 106 0 0x400000]
     = Returns (0, (Some fence_shadow),
       [Kmalloc Cma_bo_obj, Kmalloc Sg_table_obj, Sg_alloc_table 1024, Kmalloc Page_array,
        Get_user_pages (Some 51) 41 0x7F0000000000 1024 False, Kfree Page_array,
        Alloc_memory_of_gpu 12 0x400000 (Some sg_example),
        Copy_mem_to_mem 12 6 0 106 0 0x400000])
   \<and> kfd_cma_iter_advance (iter_on bo_vram_second) 0x400000 = Returns (0, (iter_done bo_vram_second))
   \<and> kfd_cma_iter_advance ((iter_on bo_userptr) \<lparr> ci_cma_bo := Some shadow_example, ci_cma_list := [shadow_example] \<rparr>) 0x400000 = Returns (0, ((iter_done bo_userptr) \<lparr> ci_cma_bo := Some shadow_example, ci_cma_list := [shadow_example] \<rparr>))
   \<and> cpuva bo_vram_second = 0
   \<and> cpuva bo_userptr \<noteq> 0
   \<and> mem_type bo_userptr \<noteq> KFD_IOC_ALLOC_MEM_FLAGS_VRAM
   \<and> kfd_copy_single_range_loop (Suc (Suc 0)) env_example False
       (0x400000, 0, None, (iter_on bo_vram_second), (iter_on bo_userptr), 0, [])
     = kfd_copy_single_range_loop (Suc 0) env_example False
         (0, 0x400000, (Some fence_shadow), (iter_done bo_vram_second), ((iter_done bo_userptr) \<lparr> ci_cma_bo := Some shadow_example, ci_cma_list := [shadow_example] \<rparr>), 0,
          [Kmalloc Cma_bo_obj, Kmalloc Sg_table_obj, Sg_alloc_table 1024, Kmalloc Page_array,
        Get_user_pages (Some 51) 41 0x7F0000000000 1024 False, Kfree Page_array,
        Alloc_memory_of_gpu 12 0x400000 (Some sg_example),
        Copy_mem_to_mem 12 6 0 106 0 0x400000])
   \<and> (\<exists>cbo sg tr0. ci_cma_list ((iter_on bo_userptr) \<lparr> ci_cma_bo := Some shadow_example, ci_cma_list := [shadow_example] \<rparr>) = ci_cma_list (iter_on bo_userptr) @ [cbo]
        \<and> cbo_sg cbo = Some sg
        \<and> [Kmalloc Cma_bo_obj, Kmalloc Sg_table_obj, Sg_alloc_table 1024, Kmalloc Page_array,
        Get_user_pages (Some 51) 41 0x7F0000000000 1024 False, Kfree Page_array,
        Alloc_memory_of_gpu 12 0x400000 (Some sg_example),
        Copy_mem_to_mem 12 6 0 106 0 0x400000]
          = tr0 @ [Copy_mem_to_mem (dev_kgd (bo_dev bo_vram_second)) (bo_mem bo_vram_second)
                   (ci_bo_offset (iter_on bo_vram_second)) (cbo_mem cbo)
                   (ci_bo_offset (iter_on bo_userptr) AND (PAGE_SIZE - 1))
                   (if sg_pinned sg = sg_nents sg
                    then (min 0x400000 (range_size (ci_array (iter_on bo_userptr) 0) - ci_offset (iter_on bo_userptr)))
                    else sg_pinned sg * PAGE_SIZE
                         - ucast (ucast (ci_bo_offset (iter_on bo_userptr) AND (PAGE_SIZE - 1)) :: u32))])"
proof -
  have h0: "(0x400000 :: u64) \<noteq> 0" by simp
  have cur: "ci_cur_bo (iter_on bo) = Some bo" for bo by (simp add: iter_on_def)
  have direct_end: "\<not> kfd_cma_iter_end (iter_on bo_vram_other)"
    by (simp add: example_defs2)
  have direct_copy: "kfd_copy_bos (Suc 0) env_example (iter_on bo_vram_first) (iter_on bo_vram_other) False
       (min 0x400000 (range_size (ci_array (iter_on bo_vram_other) 0) - ci_offset (iter_on bo_vram_other))) 0 []
     = Returns (0, (Some fence_first), 0x400000, (iter_on bo_vram_first), (iter_on bo_vram_other), 0,
       [Copy_mem_to_mem 11 8 0 9 0 0x400000])"
    by (rule copy_bos_example[where w = "\<lambda>t f. 250", folded env_example_wait])
  have direct_fence: "new_fence_step env_example (Some fence_first) None
       [Copy_mem_to_mem 11 8 0 9 0 0x400000]
     = Returns (0, (Some fence_first),
       [Copy_mem_to_mem 11 8 0 9 0 0x400000])"
    by (rule new_fence_step_first(1))
  have direct_adv1: "kfd_cma_iter_advance (iter_on bo_vram_first) 0x400000 = Returns (0, (iter_done bo_vram_first))"
    by (rule advance_example_done)
  have direct_adv2: "kfd_cma_iter_advance (iter_on bo_vram_other) 0x400000 = Returns (0, (iter_done bo_vram_other))"
    by (rule advance_example_done)
  have direct_path: "cpuva bo_vram_first = 0" "cpuva bo_vram_other = 0" "dev_kgd (bo_dev bo_vram_first) = dev_kgd (bo_dev bo_vram_other)"
    by (simp_all add: example_defs2)
  note direct_t = kfd_copy_single_range_segment[OF h0 direct_end cur cur direct_copy direct_fence direct_adv1 direct_adv2,
      where copied = 0]
  have direct_step: "kfd_copy_single_range_loop (Suc (Suc 0)) env_example False
       (0x400000, 0, None, (iter_on bo_vram_first), (iter_on bo_vram_other), 0, [])
     = kfd_copy_single_range_loop (Suc 0) env_example False
         (0, 0x400000, (Some fence_first), (iter_done bo_vram_first), (iter_done bo_vram_other), 0,
          [Copy_mem_to_mem 11 8 0 9 0 0x400000])"
    using direct_t by simp
  have direct_concl: "(\<exists>kgd. [Copy_mem_to_mem 11 8 0 9 0 0x400000]
        = [] @ [Copy_mem_to_mem kgd (bo_mem bo_vram_first) (ci_bo_offset (iter_on bo_vram_first))
                  (bo_mem bo_vram_other) (ci_bo_offset (iter_on bo_vram_other))
                  (min 0x400000 (range_size (ci_array (iter_on bo_vram_other) 0) - ci_offset (iter_on bo_vram_other)))])"
    using direct_t direct_path by simp
  have d2d_end: "\<not> kfd_cma_iter_end (iter_on bo_vram_second)"
    by (simp add: example_defs2)
  have d2d_copy: "kfd_copy_bos (Suc 0) env_example (iter_on bo_vram_first) (iter_on bo_vram_second) False
       (min 0x400000 (range_size (ci_array (iter_on bo_vram_second) 0) - ci_offset (iter_on bo_vram_second))) 0 []
     = Returns (0, None, 0x200000, (iter_on bo_vram_first), (iter_on bo_vram_second), 100,
       [Alloc_memory_of_gpu 11 0x200000 None,
        Copy_mem_to_mem 11 8 0 100 0 0x200000,
        Dma_fence_wait_timeout \<lparr> fence_seqno = 1, fence_context = 11 \<rparr> CMA_WAIT_TIMEOUT_MSECS,
        Dma_fence_put \<lparr> fence_seqno = 1, fence_context = 11 \<rparr>,
        Copy_mem_to_mem 12 100 0 6 0 0x200000,
        Dma_fence_wait_timeout \<lparr> fence_seqno = 4, fence_context = 12 \<rparr> CMA_WAIT_TIMEOUT_MSECS,
        Dma_fence_put \<lparr> fence_seqno = 4, fence_context = 12 \<rparr>])"
    by (rule copy_bos_example_d2d)
  have d2d_fence: "new_fence_step env_example None None
       [Alloc_memory_of_gpu 11 0x200000 None,
        Copy_mem_to_mem 11 8 0 100 0 0x200000,
        Dma_fence_wait_timeout \<lparr> fence_seqno = 1, fence_context = 11 \<rparr> CMA_WAIT_TIMEOUT_MSECS,
        Dma_fence_put \<lparr> fence_seqno = 1, fence_context = 11 \<rparr>,
        Copy_mem_to_mem 12 100 0 6 0 0x200000,
        Dma_fence_wait_timeout \<lparr> fence_seqno = 4, fence_context = 12 \<rparr> CMA_WAIT_TIMEOUT_MSECS,
        Dma_fence_put \<lparr> fence_seqno = 4, fence_context = 12 \<rparr>]
     = Returns (0, None,
       [Alloc_memory_of_gpu 11 0x200000 None,
        Copy_mem_to_mem 11 8 0 100 0 0x200000,
        Dma_fence_wait_timeout \<lparr> fence_seqno = 1, fence_context = 11 \<rparr> CMA_WAIT_TIMEOUT_MSECS,
        Dma_fence_put \<lparr> fence_seqno = 1, fence_context = 11 \<rparr>,
        Copy_mem_to_mem 12 100 0 6 0 0x200000,
        Dma_fence_wait_timeout \<lparr> fence_seqno = 4, fence_context = 12 \<rparr> CMA_WAIT_TIMEOUT_MSECS,
        Dma_fence_put \<lparr> fence_seqno = 4, fence_context = 12 \<rparr>])"
    by (rule new_fence_step_first(2))
  have d2d_adv1: "kfd_cma_iter_advance (iter_on bo_vram_first) 0x200000 = Returns (0, (iter_half bo_vram_first))"
    by (rule advance_example_half(1))
  have d2d_adv2: "kfd_cma_iter_advance (iter_on bo_vram_second) 0x200000 = Returns (0, (iter_half bo_vram_second))"
    by (rule advance_example_half(2))
  have d2d_path: "cpuva bo_vram_first = 0" "cpuva bo_vram_second = 0" "dev_kgd (bo_dev bo_vram_first) \<noteq> dev_kgd (bo_dev bo_vram_second)" "mem_type bo_vram_first = KFD_IOC_ALLOC_MEM_FLAGS_VRAM" "mem_type bo_vram_second = KFD_IOC_ALLOC_MEM_FLAGS_VRAM"
    by (simp_all add: example_defs2)
  note d2d_t = kfd_copy_single_range_segment[OF h0 d2d_end cur cur d2d_copy d2d_fence d2d_adv1 d2d_adv2,
      where copied = 0]
  have d2d_step: "kfd_copy_single_range_loop (Suc (Suc 0)) env_example False
       (0x400000, 0, None, (iter_on bo_vram_first), (iter_on bo_vram_second), 0, [])
     = kfd_copy_single_range_loop (Suc 0) env_example False
         (0x200000, 0x200000, None, (iter_half bo_vram_first), (iter_half bo_vram_second), 100,
          [Alloc_memory_of_gpu 11 0x200000 None,
        Copy_mem_to_mem 11 8 0 100 0 0x200000,
        Dma_fence_wait_timeout \<lparr> fence_seqno = 1, fence_context = 11 \<rparr> CMA_WAIT_TIMEOUT_MSECS,
        Dma_fence_put \<lparr> fence_seqno = 1, fence_context = 11 \<rparr>,
        Copy_mem_to_mem 12 100 0 6 0 0x200000,
        Dma_fence_wait_timeout \<lparr> fence_seqno = 4, fence_context = 12 \<rparr> CMA_WAIT_TIMEOUT_MSECS,
        Dma_fence_put \<lparr> fence_seqno = 4, fence_context = 12 \<rparr>])"
    using d2d_t by simp
  have d2d_concl: "prefix ([] @ [Alloc_memory_of_gpu (dev_kgd (bo_dev bo_vram_first)) MAX_SYSTEM_BO_SIZE None]
        @ [Copy_mem_to_mem (dev_kgd (bo_dev bo_vram_first)) (bo_mem bo_vram_first)
             (ci_bo_offset (iter_on bo_vram_first)) 100 0
             (min (min 0x400000 (range_size (ci_array (iter_on bo_vram_second) 0) - ci_offset (iter_on bo_vram_second))) MAX_SYSTEM_BO_SIZE)])
       [Alloc_memory_of_gpu 11 0x200000 None,
        Copy_mem_to_mem 11 8 0 100 0 0x200000,
        Dma_fence_wait_timeout \<lparr> fence_seqno = 1, fence_context = 11 \<rparr> CMA_WAIT_TIMEOUT_MSECS,
        Dma_fence_put \<lparr> fence_seqno = 1, fence_context = 11 \<rparr>,
        Copy_mem_to_mem 12 100 0 6 0 0x200000,
        Dma_fence_wait_timeout \<lparr> fence_seqno = 4, fence_context = 12 \<rparr> CMA_WAIT_TIMEOUT_MSECS,
        Dma_fence_put \<lparr> fence_seqno = 4, fence_context = 12 \<rparr>]"
    using d2d_t d2d_path by simp
  have us_end: "\<not> kfd_cma_iter_end (iter_on bo_vram_second)"
    by (simp add: example_defs2)
  have us_copy: "kfd_copy_bos (Suc 0) env_example (iter_on bo_userptr) (iter_on bo_vram_second) False
       (min 0x400000 (range_size (ci_array (iter_on bo_vram_second) 0) - ci_offset (iter_on bo_vram_second))) 0 []
     = Returns (0, (Some fence_shadow), 0x400000, ((iter_on bo_userptr) \<lparr> ci_cma_bo := Some shadow_example, ci_cma_list := [shadow_example] \<rparr>), (iter_on bo_vram_second), 0,
       [Kmalloc Cma_bo_obj, Kmalloc Sg_table_obj, Sg_alloc_table 1024, Kmalloc Page_array,
        Get_user_pages (Some 51) 41 0x7F0000000000 1024 False, Kfree Page_array,
        Alloc_memory_of_gpu 12 0x400000 (Some sg_example),
        Copy_mem_to_mem 12 106 0 6 0 0x400000])"
    by (rule copy_bos_example_userptr_src)
  have us_fence: "new_fence_step env_example (Some fence_shadow) None
       [Kmalloc Cma_bo_obj, Kmalloc Sg_table_obj, Sg_alloc_table 1024, Kmalloc Page_array,
        Get_user_pages (Some 51) 41 0x7F0000000000 1024 False, Kfree Page_array,
        Alloc_memory_of_gpu 12 0x400000 (Some sg_example),
        Copy_mem_to_mem 12 106 0 6 0 0x400000]
     = Returns (0, (Some fence_shadow),
       [Kmalloc Cma_bo_obj, Kmalloc Sg_table_obj, Sg_alloc_table 1024, Kmalloc Page_array,
        Get_user_pages (Some 51) 41 0x7F0000000000 1024 False, Kfree Page_array,
        Alloc_memory_of_gpu 12 0x400000 (Some sg_example),
        Copy_mem_to_mem 12 106 0 6 0 0x400000])"
    by (rule new_fence_step_first(1))
  have us_adv1: "kfd_cma_iter_advance ((iter_on bo_userptr) \<lparr> ci_cma_bo := Some shadow_example, ci_cma_list := [shadow_example] \<rparr>) 0x400000 = Returns (0, ((iter_done bo_userptr) \<lparr> ci_cma_bo := Some shadow_example, ci_cma_list := [shadow_example] \<rparr>))"
    by (rule advance_example_shadow)
  have us_adv2: "kfd_cma_iter_advance (iter_on bo_vram_second) 0x400000 = Returns (0, (iter_done bo_vram_second))"
    by (rule advance_example_done)
  have us_path: "cpuva bo_userptr \<noteq> 0" "cpuva bo_vram_second = 0" "mem_type bo_userptr \<noteq> KFD_IOC_ALLOC_MEM_FLAGS_VRAM"
    by (simp_all add: example_defs2)
  note us_t = kfd_copy_single_range_segment[OF h0 us_end cur cur us_copy us_fence us_adv1 us_adv2,
      where copied = 0]
  have us_step: "kfd_copy_single_range_loop (Suc (Suc 0)) env_example False
       (0x400000, 0, None, (iter_on bo_userptr), (iter_on bo_vram_second), 0, [])
     = kfd_copy_single_range_loop (Suc 0) env_example False
         (0, 0x400000, (Some fence_shadow), ((iter_done bo_userptr) \<lparr> ci_cma_bo := Some shadow_example, ci_cma_list := [shadow_example] \<rparr>), (iter_done bo_vram_second), 0,
          [Kmalloc Cma_bo_obj, Kmalloc Sg_table_obj, Sg_alloc_table 1024, Kmalloc Page_array,
        Get_user_pages (Some 51) 41 0x7F0000000000 1024 False, Kfree Page_array,
        Alloc_memory_of_gpu 12 0x400000 (Some sg_example),
        Copy_mem_to_mem 12 106 0 6 0 0x400000])"
    using us_t by simp
  have us_concl: "(\<exists>cbo sg tr0. ci_cma_list ((iter_on bo_userptr) \<lparr> ci_cma_bo := Some shadow_example, ci_cma_list := [shadow_example] \<rparr>) = ci_cma_list (iter_on bo_userptr) @ [cbo]
        \<and> cbo_sg cbo = Some sg
        \<and> [Kmalloc Cma_bo_obj, Kmalloc Sg_table_obj, Sg_alloc_table 1024, Kmalloc Page_array,
        Get_user_pages (Some 51) 41 0x7F0000000000 1024 False, Kfree Page_array,
        Alloc_memory_of_gpu 12 0x400000 (Some sg_example),
        Copy_mem_to_mem 12 106 0 6 0 0x400000]
          = tr0 @ [Copy_mem_to_mem (dev_kgd (bo_dev bo_vram_second)) (cbo_mem cbo)
                   (ci_bo_offset (iter_on bo_userptr) AND (PAGE_SIZE - 1)) (bo_mem bo_vram_second)
                   (ci_bo_offset (iter_on bo_vram_second))
                   (if sg_pinned sg = sg_nents sg
                    then (min 0x400000 (range_size (ci_array (iter_on bo_vram_second) 0) - ci_offset (iter_on bo_vram_second)))
                    else sg_pinned sg * PAGE_SIZE
                         - ucast (ucast (ci_bo_offset (iter_on bo_userptr) AND (PAGE_SIZE - 1)) :: u32))])"
    using us_t us_path by simp
  have ud_end: "\<not> kfd_cma_iter_end (iter_on bo_userptr)"
    by (simp add: example_defs2)
  have ud_copy: "kfd_copy_bos (Suc 0) env_example (iter_on bo_vram_second) (iter_on bo_userptr) False
       (min 0x400000 (range_size (ci_array (iter_on bo_userptr) 0) - ci_offset (iter_on bo_userptr))) 0 []
     = Returns (0, (Some fence_shadow), 0x400000, (iter_on bo_vram_second), ((iter_on bo_userptr) \<lparr> ci_cma_bo := Some shadow_example, ci_cma_list := [shadow_example] \<rparr>), 0,
       [Kmalloc Cma_bo_obj, Kmalloc Sg_table_obj, Sg_alloc_table 1024, Kmalloc Page_array,
        Get_user_pages (Some 51) 41 0x7F0000000000 1024 False, Kfree Page_array,
        Alloc_memory_of_gpu 12 0x400000 (Some sg_example),
        Copy_mem_to_mem 12 6 0 106 0 0x400000])"
    by (rule copy_bos_example_userptr_dst)
  have ud_fence: "new_fence_step env_example (Some fence_shadow) None
       [Kmalloc Cma_bo_obj, Kmalloc Sg_table_obj, Sg_alloc_table 1024, Kmalloc Page_array,
        Get_user_pages (Some 51) 41 0x7F0000000000 1024 False, Kfree Page_array,
        Alloc_memory_of_gpu 12 0x400000 (Some sg_example),
        Copy_mem_to_mem 12 6 0 106 0 0x400000]
     = Returns (0, (Some fence_shadow),
       [Kmalloc Cma_bo_obj, Kmalloc Sg_table_obj, Sg_alloc_table 1024, Kmalloc Page_array,
        Get_user_pages (Some 51) 41 0x7F0000000000 1024 False, Kfree Page_array,
        Alloc_memory_of_gpu 12 0x400000 (Some sg_example),
        Copy_mem_to_mem 12 6 0 106 0 0x400000])"
    by (rule new_fence_step_first(1))
  have ud_adv1: "kfd_cma_iter_advance (iter_on bo_vram_second) 0x400000 = Returns (0, (iter_done bo_vram_second))"
    by (rule advance_example_done)
  have ud_adv2: "kfd_cma_iter_advance ((iter_on bo_userptr) \<lparr> ci_cma_bo := Some shadow_example, ci_cma_list := [shadow_example] \<rparr>) 0x400000 = Returns (0, ((iter_done bo_userptr) \<lparr> ci_cma_bo := Some shadow_example, ci_cma_list := [shadow_example] \<rparr>))"
    by (rule advance_example_shadow)
  have ud_path: "cpuva bo_vram_second = 0" "cpuva bo_userptr \<noteq> 0" "mem_type bo_userptr \<noteq> KFD_IOC_ALLOC_MEM_FLAGS_VRAM"
    by (simp_all add: example_defs2)
  note ud_t = kfd_copy_single_range_segment[OF h0 ud_end cur cur ud_copy ud_fence ud_adv1 ud_adv2,
      where copied = 0]
  have ud_step: "kfd_copy_single_range_loop (Suc (Suc 0)) env_example False
       (0x400000, 0, None, (iter_on bo_vram_second), (iter_on bo_userptr), 0, [])
     = kfd_copy_single_range_loop (Suc 0) env_example False
         (0, 0x400000, (Some fence_shadow), (iter_done bo_vram_second), ((iter_done bo_userptr) \<lparr> ci_cma_bo := Some shadow_example, ci_cma_list := [shadow_example] \<rparr>), 0,
          [Kmalloc Cma_bo_obj, Kmalloc Sg_table_obj, Sg_alloc_table 1024, Kmalloc Page_array,
        Get_user_pages (Some 51) 41 0x7F0000000000 1024 False, Kfree Page_array,
        Alloc_memory_of_gpu 12 0x400000 (Some sg_example),
        Copy_mem_to_mem 12 6 0 106 0 0x400000])"
    using ud_t by simp
  have ud_concl: "(\<exists>cbo sg tr0. ci_cma_list ((iter_on bo_userptr) \<lparr> ci_cma_bo := Some shadow_example, ci_cma_list := [shadow_example] \<rparr>) = ci_cma_list (iter_on bo_userptr) @ [cbo]
        \<and> cbo_sg cbo = Some sg
        \<and> [Kmalloc Cma_bo_obj, Kmalloc Sg_table_obj, Sg_alloc_table 1024, Kmalloc Page_array,
        Get_user_pages (Some 51) 41 0x7F0000000000 1024 False, Kfree Page_array,
        Alloc_memory_of_gpu 12 0x400000 (Some sg_example),
        Copy_mem_to_mem 12 6 0 106 0 0x400000]
          = tr0 @ [Copy_mem_to_mem (dev_kgd (bo_dev bo_vram_second)) (bo_mem bo_vram_second)
                   (ci_bo_offset (iter_on bo_vram_second)) (cbo_mem cbo)
                   (ci_bo_offset (iter_on bo_userptr) AND (PAGE_SIZE - 1))
                   (if sg_pinned sg = sg_nents sg
                    then (min 0x400000 (range_size (ci_array (iter_on bo_userptr) 0) - ci_offset (iter_on bo_userptr)))
                    else sg_pinned sg * PAGE_SIZE
                         - ucast (ucast (ci_bo_offset (iter_on bo_userptr) AND (PAGE_SIZE - 1)) :: u32))])"
    using ud_t ud_path by simp
  show ?thesis
    by (intro conjI) (rule h0 direct_end cur direct_copy direct_fence direct_adv1 direct_adv2 direct_path direct_step direct_concl d2d_end cur d2d_copy d2d_fence d2d_adv1 d2d_adv2 d2d_path d2d_step d2d_concl us_end cur us_copy us_fence us_adv1 us_adv2 us_path us_step us_concl ud_end cur ud_copy ud_fence ud_adv1 ud_adv2 ud_path ud_step ud_concl)+
qed

text \<open>
  Claim C1 as stated fails: staging 4 MiB of a userptr buffer through a
  shadow buffer asks the device for one copy of 4 MiB, twice \<^verbatim>\<open>MAX_SYSTEM_BO_SIZE\<close>.
\<close>

theorem kfd_copy_single_range_userptr_not_capped:
  "cpuva bo_userptr \<noteq> 0 \<and> cpuva bo_vram_second = 0
   \<and> MAX_SYSTEM_BO_SIZE = 0x200000
   \<and> kfd_copy_single_range (Suc (Suc 0)) env_example (iter_on bo_userptr) (iter_on bo_vram_second)
        False None 0 0 []
     = Returns (0, Some fence_shadow, 0x400000,
         (iter_done bo_userptr) \<lparr> ci_cma_bo := Some shadow_example,
                                    ci_cma_list := [shadow_example] \<rparr>,
         iter_done bo_vram_second, 0,
         [Kmalloc Cma_bo_obj, Kmalloc Sg_table_obj, Sg_alloc_table 1024, Kmalloc Page_array,
          Get_user_pages (Some 51) 41 0x7F0000000000 1024 False, Kfree Page_array,
          Alloc_memory_of_gpu 12 0x400000 (Some sg_example),
          Copy_mem_to_mem 12 106 0 6 0 0x400000,
          Dma_fence_get fence_shadow, Dma_fence_put fence_shadow])"
proof -
  have i: "ci_cur_bo (iter_on bo_userptr) = Some bo_userptr"
    "range_size (ci_array (iter_on bo_userptr) 0) = 0x400000"
    "\<not> kfd_cma_iter_end (iter_on bo_vram_second)"
    "kfd_cma_iter_end (iter_done bo_vram_second)"
    by (simp_all add: example_defs2)
  have r: "kfd_copy_single_range (Suc (Suc 0)) env_example (iter_on bo_userptr) (iter_on bo_vram_second)
        False None 0 0 []
     = Returns (0, Some fence_shadow, 0x400000,
         (iter_done bo_userptr) \<lparr> ci_cma_bo := Some shadow_example,
                                    ci_cma_list := [shadow_example] \<rparr>,
         iter_done bo_vram_second, 0,
         [Kmalloc Cma_bo_obj, Kmalloc Sg_table_obj, Sg_alloc_table 1024, Kmalloc Page_array,
          Get_user_pages (Some 51) 41 0x7F0000000000 1024 False, Kfree Page_array,
          Alloc_memory_of_gpu 12 0x400000 (Some sg_example),
          Copy_mem_to_mem 12 106 0 6 0 0x400000,
          Dma_fence_get fence_shadow, Dma_fence_put fence_shadow])"
    unfolding kfd_copy_single_range_def i
    apply (simp add: kfd_copy_single_range_loop.simps[of "Suc (Suc 0)"] i)
    apply (simp add: copy_bos_example_userptr_src[unfolded i, simplified] new_fence_step_first
        advance_example_shadow advance_example_done
        kfd_copy_single_range_loop.simps i dma_fence_get_def dma_fence_put_def)
    done
  show ?thesis
    using r by (simp add: bo_userptr_def bo_vram_second_def MAX_SYSTEM_BO_SIZE_def PAGE_SIZE_def)
qed

end
